theory Spec2Isabelle
  imports Complex_Main "HOL-Library.Multiset" "HOL-Library.Sublist"
begin

section \<open>JavaScript values\<close>

text \<open>
  The proxy is written in JavaScript and TypeScript; request bodies and provider
  responses are parsed JSON. A value is one of the JSON shapes, or \<open>undefined\<close>.
  Numbers are exact rationals (no rounding, no NaN, no infinities). A \<open>string\<close> is
  the list of the code units of a JavaScript string, for code units below 256.
\<close>

datatype jsval =
    JUndefined
  | JNull
  | JBool bool
  | JNum rat
  | JStr string
  | JArr "jsval list"
  | JObj "(string \<times> jsval) list"

text \<open>Truthiness, as \<open>if (v)\<close>, \<open>!v\<close>, \<open>a || b\<close> and \<open>a && b\<close> read it.\<close>

fun truthy :: "jsval \<Rightarrow> bool" where
  "truthy JUndefined = False"
| "truthy JNull = False"
| "truthy (JBool b) = b"
| "truthy (JNum n) = (n \<noteq> 0)"
| "truthy (JStr s) = (s \<noteq> [])"
| "truthy (JArr xs) = True"
| "truthy (JObj kvs) = True"

definition js_or :: "jsval \<Rightarrow> jsval \<Rightarrow> jsval" where
  "js_or a b = (if truthy a then a else b)"

fun nullish :: "jsval \<Rightarrow> bool" where
  "nullish JUndefined = True"
| "nullish JNull = True"
| "nullish v = False"

fun isArray :: "jsval \<Rightarrow> bool" where
  "isArray (JArr xs) = True"
| "isArray v = False"

text \<open>Decimal digits of a number, as a template literal prints a non-negative integer.\<close>

fun show_nat :: "nat \<Rightarrow> string" where
  "show_nat n =
     (if n < 10 then [''0123456789'' ! n]
      else show_nat (n div 10) @ [''0123456789'' ! (n mod 10)])"

declare show_nat.simps [simp del]

text \<open>
  Property reads. \<open>field v k\<close> is \<open>v.k\<close> for a value that is neither \<open>null\<close> nor
  \<open>undefined\<close> and a key \<open>k\<close> that is an identifier (the code reads \<open>choices\<close>,
  \<open>message\<close>, \<open>content\<close>, \<open>role\<close>, \<open>text\<close>, \<open>length\<close> and the like; none of them
  is inherited from a prototype but \<open>length\<close>). \<open>elem v i\<close> is \<open>v[i]\<close>.
\<close>

fun field :: "jsval \<Rightarrow> string \<Rightarrow> jsval" where
  "field (JObj kvs) k = (case map_of kvs k of Some v \<Rightarrow> v | None \<Rightarrow> JUndefined)"
| "field (JArr xs) k = (if k = ''length'' then JNum (of_nat (length xs)) else JUndefined)"
| "field (JStr s) k = (if k = ''length'' then JNum (of_nat (length s)) else JUndefined)"
| "field v k = JUndefined"

fun elem :: "jsval \<Rightarrow> nat \<Rightarrow> jsval" where
  "elem (JArr xs) i = (if i < length xs then xs ! i else JUndefined)"
| "elem (JStr s) i = (if i < length s then JStr [s ! i] else JUndefined)"
| "elem (JObj kvs) i = field (JObj kvs) (show_nat i)"
| "elem v i = JUndefined"

text \<open>
  Reading a property of \<open>null\<close> or \<open>undefined\<close> throws a TypeError; the message is
  the one of the V8 engine. \<open>member\<close> and \<open>item\<close> are \<open>v.k\<close> and \<open>v[i]\<close> with that
  throw as \<open>Inl\<close>; \<open>opt_member\<close> and \<open>opt_item\<close> are \<open>v?.k\<close> and \<open>v?.[i]\<close>.
\<close>

definition cannot_read :: "jsval \<Rightarrow> string \<Rightarrow> string" where
  "cannot_read v k =
     ''Cannot read properties of '' @ (if v = JNull then ''null'' else ''undefined'')
       @ '' (reading '' @ [CHR 0x27] @ k @ [CHR 0x27] @ '')''"

definition member :: "jsval \<Rightarrow> string \<Rightarrow> string + jsval" where
  "member v k = (if nullish v then Inl (cannot_read v k) else Inr (field v k))"

definition item :: "jsval \<Rightarrow> nat \<Rightarrow> string + jsval" where
  "item v i = (if nullish v then Inl (cannot_read v (show_nat i)) else Inr (elem v i))"

definition opt_member :: "jsval \<Rightarrow> string \<Rightarrow> jsval" where
  "opt_member v k = (if nullish v then JUndefined else field v k)"

definition opt_item :: "jsval \<Rightarrow> nat \<Rightarrow> jsval" where
  "opt_item v i = (if nullish v then JUndefined else elem v i)"

text \<open>\<open>String.prototype.trim\<close>: white space and line terminators below 256.\<close>

definition is_space :: "char \<Rightarrow> bool" where
  "is_space c = ((of_char c :: nat) \<in> {9, 10, 11, 12, 13, 32, 160})"

definition trim :: "string \<Rightarrow> string" where
  "trim s = rev (dropWhile is_space (rev (dropWhile is_space s)))"

text \<open>\<open>String.prototype.toLowerCase\<close> on code units below 256.\<close>

definition lower_char :: "char \<Rightarrow> char" where
  "lower_char c =
     (let n = (of_char c :: nat)
      in if (65 \<le> n \<and> n \<le> 90) \<or> (192 \<le> n \<and> n \<le> 222 \<and> n \<noteq> 215)
         then char_of (n + 32) else c)"

definition toLowerCase :: "string \<Rightarrow> string" where
  "toLowerCase s = map lower_char s"

text \<open>\<open>Array.prototype.join\<close> on strings.\<close>

fun join :: "string \<Rightarrow> string list \<Rightarrow> string" where
  "join sep [] = []"
| "join sep [x] = x"
| "join sep (x # y # ys) = x @ sep @ join sep (y # ys)"

definition newline :: string where
  "newline = ''\<newline>''"

section \<open>Promises and the runtime\<close>

text \<open>
  An asynchronous call settles after some delay, counted in milliseconds from the
  call, or never: it is fulfilled with a value, rejected with an error (kept as the
  error's \<open>message\<close>), or stays pending. \<open>await\<close> continues with the value of a
  fulfilled promise and adds the delays; a rejection propagates as a throw, and an
  await on a pending promise never continues.
\<close>

datatype 'a promise = Fulfils nat 'a | Rejects nat string | Pending

definition delay :: "nat \<Rightarrow> 'a promise \<Rightarrow> 'a promise" where
  "delay t p =
     (case p of
        Fulfils u v \<Rightarrow> Fulfils (t + u) v
      | Rejects u e \<Rightarrow> Rejects (t + u) e
      | Pending \<Rightarrow> Pending)"

definition await :: "'a promise \<Rightarrow> ('a \<Rightarrow> 'b promise) \<Rightarrow> 'b promise" where
  "await p k =
     (case p of
        Fulfils t v \<Rightarrow> delay t (k v)
      | Rejects t e \<Rightarrow> Rejects t e
      | Pending \<Rightarrow> Pending)"

definition throw :: "string \<Rightarrow> 'a promise" where
  "throw e = Rejects 0 e"

definition return :: "'a \<Rightarrow> 'a promise" where
  "return v = Fulfils 0 v"

text \<open>
  \<open>try { ... } catch (error) { throw new Error(pre + error.message) }\<close> around
  the body of a handler.
\<close>

definition rethrow :: "string \<Rightarrow> 'a promise \<Rightarrow> 'a promise" where
  "rethrow pre p =
     (case p of Rejects t e \<Rightarrow> Rejects t (pre @ e) | Fulfils t v \<Rightarrow> Fulfils t v | Pending \<Rightarrow> Pending)"

text \<open>
  \<open>Promise.race([p, new Promise((_, reject) => setTimeout(() => reject(new Error(msg)), ms))])\<close>:
  the promise \<open>p\<close> wins when it settles before the timer fires.
\<close>

definition race :: "nat \<Rightarrow> string \<Rightarrow> 'a promise \<Rightarrow> 'a promise" where
  "race ms msg p =
     (case p of
        Fulfils t v \<Rightarrow> if t < ms then Fulfils t v else Rejects ms msg
      | Rejects t e \<Rightarrow> if t < ms then Rejects t e else Rejects ms msg
      | Pending \<Rightarrow> Rejects ms msg)"

text \<open>
  What the code takes from the JavaScript runtime and the clock: \<open>JSON.stringify\<close>,
  \<open>JSON.parse\<close> (\<open>None\<close> when it throws), the conversion of a value to a string,
  the conversion of a string, an array or an object to a number (\<open>None\<close> for NaN),
  the successive values of \<open>Date.now()\<close> within one request, the ISO time stamp and
  \<open>process.uptime()\<close>.
\<close>

record runtime =
  stringify :: "jsval \<Rightarrow> string"
  parse :: "string \<Rightarrow> jsval option"
  to_text :: "jsval \<Rightarrow> string"
  to_number :: "jsval \<Rightarrow> rat option"
  date_now :: "nat \<Rightarrow> nat"
  iso_now :: string
  uptime :: rat

section \<open>The network and the provider handlers\<close>

text \<open>
  A provider handler is one HTTP call and the reading of its answer. The network is
  what every URL answers to the one \<open>fetch\<close> a request makes to it: the promise of
  a response, with its \<open>ok\<close> flag and status, its \<open>x-vqd-4\<close> header, and the
  promises of \<open>response.json()\<close>, \<open>response.text()\<close> and of the chunks a body
  reader decodes (\<open>None\<close> when \<open>response.body\<close> is null). The request a handler
  sends (its body, its headers, the default model) does not enter the model: the
  answer is arbitrary.
\<close>

record response =
  ok :: bool
  status :: nat
  vqd :: "string option"
  json :: "jsval promise"
  body_text :: "string promise"
  body_chunks :: "string list promise option"

type_synonym network = "string \<Rightarrow> response promise"

type_synonym handler_fn = "jsval list \<Rightarrow> jsval \<Rightarrow> jsval promise"

text \<open>
  \<open>fetchWithTimeout(url, options, timeout)\<close> of the second variant of part\_000: the
  controller aborts the fetch when the timer fires; the timer is cleared once the
  response (its headers) has arrived, so reading the body is not bounded by it.
\<close>

definition fetchWithTimeout :: "network \<Rightarrow> string \<Rightarrow> nat \<Rightarrow> response promise" where
  "fetchWithTimeout net url timeout =
     (case net url of
        Fulfils t r \<Rightarrow> if t < timeout then Fulfils t r else Rejects timeout ''This operation was aborted''
      | Rejects t e \<Rightarrow> if t < timeout then Rejects t e else Rejects timeout ''This operation was aborted''
      | Pending \<Rightarrow> Rejects timeout ''This operation was aborted'')"

text \<open>The expressions that read the answer of a provider.\<close>

definition chat_content :: "jsval \<Rightarrow> string + jsval" where
  \<comment> \<open>\<open>data.choices?.[0]?.message?.content || 'No response'\<close>\<close>
  "chat_content data =
     (case member data ''choices'' of
        Inl e \<Rightarrow> Inl e
      | Inr choices \<Rightarrow>
          Inr (js_or (opt_member (opt_member (opt_item choices 0) ''message'') ''content'')
                 (JStr ''No response'')))"

definition chat_content_strict :: "jsval \<Rightarrow> string + jsval" where
  \<comment> \<open>\<open>data.choices[0].message.content\<close>\<close>
  "chat_content_strict data =
     (case member data ''choices'' of
        Inl e \<Rightarrow> Inl e
      | Inr choices \<Rightarrow>
          (case item choices 0 of
             Inl e \<Rightarrow> Inl e
           | Inr choice \<Rightarrow>
               (case member choice ''message'' of
                  Inl e \<Rightarrow> Inl e
                | Inr message \<Rightarrow> member message ''content'')))"

definition generated_text :: "jsval \<Rightarrow> string + jsval" where
  \<comment> \<open>\<open>data[0]?.generated_text || data.generated_text || 'No response'\<close>\<close>
  "generated_text data =
     (case item data 0 of
        Inl e \<Rightarrow> Inl e
      | Inr first \<Rightarrow>
          Inr (js_or (opt_member first ''generated_text'')
                 (js_or (field data ''generated_text'') (JStr ''No response''))))"

definition together_content :: "jsval \<Rightarrow> string + jsval" where
  \<comment> \<open>\<open>data.choices?.[0]?.message?.content || data.output?.choices?.[0]?.text || 'No response'\<close>\<close>
  "together_content data =
     (case member data ''choices'' of
        Inl e \<Rightarrow> Inl e
      | Inr choices \<Rightarrow>
          Inr (js_or (opt_member (opt_member (opt_item choices 0) ''message'') ''content'')
                 (js_or (opt_member (opt_item (opt_member (field data ''output'') ''choices'') 0) ''text'')
                    (JStr ''No response''))))"

definition generations_text :: "jsval \<Rightarrow> string + jsval" where
  \<comment> \<open>\<open>data.generations?.[0]?.text || 'No response'\<close>\<close>
  "generations_text data =
     (case member data ''generations'' of
        Inl e \<Rightarrow> Inl e
      | Inr generations \<Rightarrow>
          Inr (js_or (opt_member (opt_item generations 0) ''text'') (JStr ''No response'')))"

text \<open>
  The TypeError of a handler that reads a property of every message
  (\<open>messages.map(m => ... m.role ...)\<close>) or of the last one
  (\<open>messages[messages.length - 1].content\<close>), when that message is \<open>null\<close> or
  \<open>undefined\<close>.
\<close>

definition reads_each :: "string \<Rightarrow> jsval list \<Rightarrow> string option" where
  "reads_each k messages =
     (case find nullish messages of Some m \<Rightarrow> Some (cannot_read m k) | None \<Rightarrow> None)"

definition reads_last :: "jsval list \<Rightarrow> string option" where
  "reads_last messages =
     (let m = (if messages = [] then JUndefined else last messages)
      in if nullish m then Some (cannot_read m ''content'') else None)"

text \<open>
  The stanza every JSON provider repeats:
  \<open>const response = await fetch(...); if (!response.ok) throw new Error(...);
  const data = await response.json(); return ...\<close>, and the one of the providers
  that answer plain text: \<open>return await response.text()\<close>.
\<close>

definition post_json ::
  "response promise \<Rightarrow> (nat \<Rightarrow> string) \<Rightarrow> (jsval \<Rightarrow> string + jsval) \<Rightarrow> jsval promise" where
  "post_json fetched http_error extract =
     await fetched (\<lambda>response.
       if \<not> ok response then throw (http_error (status response))
       else await (json response) (\<lambda>data.
         case extract data of Inl e \<Rightarrow> throw e | Inr v \<Rightarrow> return v))"

definition post_text :: "response promise \<Rightarrow> (nat \<Rightarrow> string) \<Rightarrow> jsval promise" where
  "post_text fetched http_error =
     await fetched (\<lambda>response.
       if \<not> ok response then throw (http_error (status response))
       else await (body_text response) (\<lambda>t. return (JStr t)))"

definition chat_handler :: "(string \<Rightarrow> response promise) \<Rightarrow> (nat \<Rightarrow> string) \<Rightarrow> string \<Rightarrow> handler_fn" where
  "chat_handler fetch http_error url messages model = post_json (fetch url) http_error chat_content"

definition chat_handler_strict :: "(string \<Rightarrow> response promise) \<Rightarrow> (nat \<Rightarrow> string) \<Rightarrow> string \<Rightarrow> handler_fn" where
  "chat_handler_strict fetch http_error url messages model =
     post_json (fetch url) http_error chat_content_strict"

definition together_handler :: "(string \<Rightarrow> response promise) \<Rightarrow> (nat \<Rightarrow> string) \<Rightarrow> string \<Rightarrow> handler_fn" where
  "together_handler fetch http_error url messages model =
     post_json (fetch url) http_error together_content"

definition huggingFace_handler :: "(string \<Rightarrow> response promise) \<Rightarrow> (nat \<Rightarrow> string) \<Rightarrow> string \<Rightarrow> handler_fn" where
  "huggingFace_handler fetch http_error url messages model =
     (case reads_each ''role'' messages of
        Some e \<Rightarrow> throw e
      | None \<Rightarrow> post_json (fetch url) http_error generated_text)"

definition cohere_handler :: "(string \<Rightarrow> response promise) \<Rightarrow> (nat \<Rightarrow> string) \<Rightarrow> string \<Rightarrow> handler_fn" where
  "cohere_handler fetch http_error url messages model =
     (case reads_each ''content'' messages of
        Some e \<Rightarrow> throw e
      | None \<Rightarrow> post_json (fetch url) http_error generations_text)"

definition phind_handler :: "(string \<Rightarrow> response promise) \<Rightarrow> (nat \<Rightarrow> string) \<Rightarrow> string \<Rightarrow> handler_fn" where
  "phind_handler fetch http_error url messages model =
     (case reads_last messages of
        Some e \<Rightarrow> throw e
      | None \<Rightarrow> post_text (fetch url) http_error)"

definition text_handler :: "(string \<Rightarrow> response promise) \<Rightarrow> (nat \<Rightarrow> string) \<Rightarrow> string \<Rightarrow> handler_fn" where
  "text_handler fetch http_error url messages model = post_text (fetch url) http_error"

text \<open>The handlers of part\_001, each inside its own \<open>try\<close>/\<open>catch\<close>.\<close>

definition phind_v5 :: "network \<Rightarrow> handler_fn" where
  "phind_v5 net messages model =
     rethrow ''Phind failed: ''
       (case reads_last messages of
          Some e \<Rightarrow> throw e
        | None \<Rightarrow>
            await (net ''https://https.extension.phind.com/agent/'') (\<lambda>response.
              if \<not> ok response then throw (''Phind API error: '' @ show_nat (status response))
              else await (body_text response) (\<lambda>t.
                return (js_or (JStr t) (JStr ''No response from Phind'')))))"

definition deepInfra_v5 :: "network \<Rightarrow> handler_fn" where
  "deepInfra_v5 net messages model =
     rethrow ''DeepInfra failed: ''
       (post_json (net ''https://api.deepinfra.com/v1/openai/chat/completions'')
          (\<lambda>s. ''DeepInfra API error: '' @ show_nat s) chat_content_strict)"

definition blackbox_v5 :: "network \<Rightarrow> handler_fn" where
  "blackbox_v5 net messages model =
     rethrow ''Blackbox failed: ''
       (post_text (net ''https://www.blackbox.ai/api/chat'')
          (\<lambda>s. ''Blackbox API error: '' @ show_nat s))"

text \<open>
  The DuckDuckGo handler reads the body chunk by chunk: each chunk is split into
  lines, blank lines are dropped, and every line \<open>data: ...\<close> before a line
  \<open>data: [DONE]\<close> of the same chunk adds the \<open>message\<close> of its JSON to the result;
  a line that does not parse is skipped.
\<close>

fun split_lines :: "string \<Rightarrow> string list" where
  "split_lines [] = [[]]"
| "split_lines (c # cs) =
     (if c = CHR 0x0A then [] # split_lines cs
      else (case split_lines cs of l # ls \<Rightarrow> (c # l) # ls | [] \<Rightarrow> [[c]]))"

fun ddg_lines :: "runtime \<Rightarrow> string list \<Rightarrow> string \<Rightarrow> string" where
  "ddg_lines rt [] result = result"
| "ddg_lines rt (line # rest) result =
     (if take 6 line = ''data: '' then
        (let payload = drop 6 line
         in if payload = ''[DONE]'' then result
            else ddg_lines rt rest
              (case parse rt payload of
                 None \<Rightarrow> result
               | Some parsed \<Rightarrow>
                   if nullish parsed then result
                   else (case field parsed ''message'' of
                           JStr m \<Rightarrow> result @ m
                         | m \<Rightarrow> if truthy m then result @ to_text rt m else result)))
      else ddg_lines rt rest result)"

definition ddg_chunk :: "runtime \<Rightarrow> string \<Rightarrow> string \<Rightarrow> string" where
  "ddg_chunk rt result chunk =
     ddg_lines rt (filter (\<lambda>line. trim line \<noteq> []) (split_lines chunk)) result"

definition ddg_v5 :: "runtime \<Rightarrow> network \<Rightarrow> handler_fn" where
  "ddg_v5 rt net messages model =
     rethrow ''DDG failed: ''
       (await (net ''https://duckduckgo.com/duckchat/v1/status'') (\<lambda>statusRes.
          if vqd statusRes = None \<or> vqd statusRes = Some [] then throw ''Failed to get VQD token''
          else (case reads_each ''role'' messages of
                  Some e \<Rightarrow> throw e
                | None \<Rightarrow>
                    await (net ''https://duckduckgo.com/duckchat/v1/chat'') (\<lambda>response.
                      if \<not> ok response then throw (''DDG API error: '' @ show_nat (status response))
                      else (case body_chunks response of
                              None \<Rightarrow> return (JStr ''No response from DuckDuckGo'')
                            | Some reads \<Rightarrow>
                                await reads (\<lambda>chunks.
                                  return (js_or (JStr (foldl (ddg_chunk rt) [] chunks))
                                            (JStr ''No response from DuckDuckGo''))))))))"

section \<open>The provider registries\<close>

text \<open>
  A provider entry, as the object literals and the \<open>Provider\<close> interfaces have it.
  The priority is \<open>None\<close> where the entry has no such property (part\_001).

  The repository holds five variants of the server: the two halves of
  \<open>src/index.js\<close> (\<open>v1\<close>, lines 1 to 352, and \<open>v2\<close>, lines 353 to 612), the two
  programs of part\_000 (\<open>v3\<close>, lines 88 to 729, and \<open>v4\<close>, lines 730 to 1332) and
  part\_001 (\<open>v5\<close>). Each has its own registry, a constant of the module.
\<close>

record provider =
  name :: string
  models :: "string list"
  enabled :: bool
  priority :: "int option"
  handler :: handler_fn

definition http_v1 :: "nat \<Rightarrow> string" where
  "http_v1 s = ''HTTP '' @ show_nat s"

definition providers_v1 :: "network \<Rightarrow> provider list" where
  "providers_v1 net =
    [\<lparr>name = ''DeepInfra'',
      models = [''meta-llama/Meta-Llama-3.1-70B-Instruct'', ''mistralai/Mixtral-8x7B-Instruct-v0.1''],
      enabled = True, priority = Some 1,
      handler = chat_handler net http_v1 ''https://api.deepinfra.com/v1/openai/chat/completions''\<rparr>,
     \<lparr>name = ''Together'',
      models = [''mistralai/Mixtral-8x7B-Instruct-v0.1'', ''meta-llama/Llama-2-70b-chat-hf''],
      enabled = True, priority = Some 2,
      handler = chat_handler net http_v1 ''https://api.together.xyz/v1/chat/completions''\<rparr>,
     \<lparr>name = ''HuggingFace'',
      models = [''mistralai/Mixtral-8x7B-Instruct-v0.1'', ''meta-llama/Llama-2-70b-chat-hf''],
      enabled = True, priority = Some 3,
      handler = huggingFace_handler net http_v1
        ''https://api-inference.huggingface.co/models/mistralai/Mixtral-8x7B-Instruct-v0.1''\<rparr>,
     \<lparr>name = ''Groq'',
      models = [''llama-3.1-70b-versatile'', ''mixtral-8x7b-32768'', ''gemma-7b-it''],
      enabled = True, priority = Some 4,
      handler = chat_handler net http_v1 ''https://api.groq.com/openai/v1/chat/completions''\<rparr>,
     \<lparr>name = ''Phind'',
      models = [''Phind-70B'', ''gpt-4''],
      enabled = True, priority = Some 5,
      handler = phind_handler net http_v1 ''https://https.extension.phind.com/agent/''\<rparr>,
     \<lparr>name = ''Blackbox'',
      models = [''blackbox'', ''gpt-4o''],
      enabled = True, priority = Some 6,
      handler = text_handler net http_v1 ''https://www.blackbox.ai/api/chat''\<rparr>,
     \<lparr>name = ''Cohere'',
      models = [''command'', ''command-light''],
      enabled = True, priority = Some 7,
      handler = cohere_handler net http_v1 ''https://api.cohere.ai/v1/generate''\<rparr>]"

definition providers_v2 :: "network \<Rightarrow> provider list" where
  "providers_v2 net =
    [\<lparr>name = ''DeepInfra'',
      models = [''meta-llama/Meta-Llama-3.1-70B-Instruct'', ''mistralai/Mixtral-8x7B-Instruct-v0.1''],
      enabled = True, priority = Some 1,
      handler = chat_handler net (\<lambda>s. ''DeepInfra: '' @ show_nat s)
        ''https://api.deepinfra.com/v1/openai/chat/completions''\<rparr>,
     \<lparr>name = ''Together'',
      models = [''mistralai/Mixtral-8x7B-Instruct-v0.1'', ''meta-llama/Llama-2-70b-chat-hf''],
      enabled = True, priority = Some 2,
      handler = chat_handler net (\<lambda>s. ''Together: '' @ show_nat s)
        ''https://api.together.xyz/v1/chat/completions''\<rparr>,
     \<lparr>name = ''HuggingFace'',
      models = [''mistralai/Mixtral-8x7B-Instruct-v0.1''],
      enabled = True, priority = Some 3,
      handler = huggingFace_handler net (\<lambda>s. ''HuggingFace: '' @ show_nat s)
        ''https://api-inference.huggingface.co/models/mistralai/Mixtral-8x7B-Instruct-v0.1''\<rparr>,
     \<lparr>name = ''Groq'',
      models = [''llama-3.1-70b-versatile'', ''mixtral-8x7b-32768''],
      enabled = True, priority = Some 4,
      handler = chat_handler net (\<lambda>s. ''Groq: '' @ show_nat s)
        ''https://api.groq.com/openai/v1/chat/completions''\<rparr>,
     \<lparr>name = ''Phind'',
      models = [''Phind-70B''],
      enabled = True, priority = Some 5,
      handler = phind_handler net (\<lambda>s. ''Phind: '' @ show_nat s)
        ''https://https.extension.phind.com/agent/''\<rparr>,
     \<lparr>name = ''Blackbox'',
      models = [''blackbox''],
      enabled = True, priority = Some 6,
      handler = text_handler net (\<lambda>s. ''Blackbox: '' @ show_nat s) ''https://www.blackbox.ai/api/chat''\<rparr>,
     \<lparr>name = ''Cohere'',
      models = [''command''],
      enabled = True, priority = Some 7,
      handler = cohere_handler net (\<lambda>s. ''Cohere: '' @ show_nat s) ''https://api.cohere.ai/v1/generate''\<rparr>]"

definition providers_v3 :: "network \<Rightarrow> provider list" where
  "providers_v3 net =
    [\<lparr>name = ''DeepInfra'',
      models = [''meta-llama/Meta-Llama-3.1-70B-Instruct'', ''meta-llama/Meta-Llama-3.1-8B-Instruct'',
                ''mistralai/Mixtral-8x7B-Instruct-v0.1'', ''mistralai/Mistral-7B-Instruct-v0.3''],
      enabled = True, priority = Some 1,
      handler = chat_handler_strict net (\<lambda>s. ''DeepInfra error: '' @ show_nat s)
        ''https://api.deepinfra.com/v1/openai/chat/completions''\<rparr>,
     \<lparr>name = ''HuggingFace'',
      models = [''mistralai/Mixtral-8x7B-Instruct-v0.1'', ''meta-llama/Llama-2-70b-chat-hf'',
                ''microsoft/phi-2''],
      enabled = True, priority = Some 2,
      handler = huggingFace_handler net (\<lambda>s. ''HuggingFace error: '' @ show_nat s)
        ''https://api-inference.huggingface.co/models/mistralai/Mixtral-8x7B-Instruct-v0.1''\<rparr>,
     \<lparr>name = ''Together'',
      models = [''mistralai/Mixtral-8x7B-Instruct-v0.1'', ''meta-llama/Llama-2-70b-chat-hf'',
                ''togethercomputer/RedPajama-INCITE-7B-Chat''],
      enabled = True, priority = Some 3,
      handler = together_handler net (\<lambda>s. ''Together error: '' @ show_nat s)
        ''https://api.together.xyz/inference''\<rparr>,
     \<lparr>name = ''Groq'',
      models = [''llama-3.1-70b-versatile'', ''llama-3.1-8b-instant'', ''mixtral-8x7b-32768'',
                ''gemma-7b-it''],
      enabled = True, priority = Some 4,
      handler = chat_handler_strict net (\<lambda>s. ''Groq error: '' @ show_nat s)
        ''https://api.groq.com/openai/v1/chat/completions''\<rparr>,
     \<lparr>name = ''Phind'',
      models = [''Phind-70B'', ''gpt-4'', ''gpt-3.5-turbo''],
      enabled = True, priority = Some 5,
      handler = phind_handler net (\<lambda>s. ''Phind error: '' @ show_nat s)
        ''https://https.extension.phind.com/agent/''\<rparr>,
     \<lparr>name = ''Blackbox'',
      models = [''blackbox'', ''gpt-4o'', ''claude-3.5-sonnet''],
      enabled = True, priority = Some 6,
      handler = text_handler net (\<lambda>s. ''Blackbox error: '' @ show_nat s)
        ''https://www.blackbox.ai/api/chat''\<rparr>,
     \<lparr>name = ''Airforce'',
      models = [''gpt-4'', ''gpt-3.5-turbo'', ''llama-3-70b'', ''claude-3-opus''],
      enabled = True, priority = Some 7,
      handler = chat_handler_strict net (\<lambda>s. ''Airforce error: '' @ show_nat s)
        ''https://api.airforce/v1/chat/completions''\<rparr>]"

definition providers_v4 :: "network \<Rightarrow> provider list" where
  "providers_v4 net =
    [\<lparr>name = ''DeepInfra'',
      models = [''meta-llama/Meta-Llama-3.1-70B-Instruct'', ''meta-llama/Meta-Llama-3.1-8B-Instruct'',
                ''mistralai/Mixtral-8x7B-Instruct-v0.1'', ''mistralai/Mistral-7B-Instruct-v0.3''],
      enabled = True, priority = Some 1,
      handler = chat_handler (\<lambda>url. fetchWithTimeout net url 30000) http_v1
        ''https://api.deepinfra.com/v1/openai/chat/completions''\<rparr>,
     \<lparr>name = ''Together'',
      models = [''mistralai/Mixtral-8x7B-Instruct-v0.1'', ''meta-llama/Llama-2-70b-chat-hf'',
                ''NousResearch/Nous-Hermes-2-Mixtral-8x7B-DPO''],
      enabled = True, priority = Some 2,
      handler = chat_handler (\<lambda>url. fetchWithTimeout net url 30000) http_v1
        ''https://api.together.xyz/v1/chat/completions''\<rparr>,
     \<lparr>name = ''HuggingFace'',
      models = [''mistralai/Mixtral-8x7B-Instruct-v0.1'', ''meta-llama/Llama-2-70b-chat-hf'',
                ''microsoft/phi-2''],
      enabled = True, priority = Some 3,
      handler = huggingFace_handler (\<lambda>url. fetchWithTimeout net url 30000) http_v1
        ''https://api-inference.huggingface.co/models/mistralai/Mixtral-8x7B-Instruct-v0.1''\<rparr>,
     \<lparr>name = ''Groq'',
      models = [''llama-3.1-70b-versatile'', ''llama-3.1-8b-instant'', ''mixtral-8x7b-32768'',
                ''gemma-7b-it''],
      enabled = True, priority = Some 4,
      handler = chat_handler (\<lambda>url. fetchWithTimeout net url 30000) http_v1
        ''https://api.groq.com/openai/v1/chat/completions''\<rparr>,
     \<lparr>name = ''Phind'',
      models = [''Phind-70B'', ''gpt-4'', ''gpt-3.5-turbo''],
      enabled = True, priority = Some 5,
      handler = phind_handler (\<lambda>url. fetchWithTimeout net url 30000) http_v1
        ''https://https.extension.phind.com/agent/''\<rparr>,
     \<lparr>name = ''Blackbox'',
      models = [''blackbox'', ''gpt-4o'', ''claude-3.5-sonnet''],
      enabled = True, priority = Some 6,
      handler = text_handler (\<lambda>url. fetchWithTimeout net url 30000) http_v1
        ''https://www.blackbox.ai/api/chat''\<rparr>,
     \<lparr>name = ''Cohere'',
      models = [''command'', ''command-light'', ''command-nightly''],
      enabled = True, priority = Some 7,
      handler = cohere_handler (\<lambda>url. fetchWithTimeout net url 30000) http_v1
        ''https://api.cohere.ai/v1/generate''\<rparr>]"

definition providers_v5 :: "runtime \<Rightarrow> network \<Rightarrow> provider list" where
  "providers_v5 rt net =
    [\<lparr>name = ''Phind'',
      models = [''gpt-4'', ''gpt-3.5-turbo'', ''Phind-70B''],
      enabled = True, priority = None,
      handler = phind_v5 net\<rparr>,
     \<lparr>name = ''DeepInfra'',
      models = [''meta-llama/Meta-Llama-3.1-70B-Instruct'', ''mistralai/Mixtral-8x7B-Instruct-v0.1''],
      enabled = True, priority = None,
      handler = deepInfra_v5 net\<rparr>,
     \<lparr>name = ''DuckDuckGo'',
      models = [''gpt-3.5-turbo'', ''claude-3-haiku''],
      enabled = True, priority = None,
      handler = ddg_v5 rt net\<rparr>,
     \<lparr>name = ''Blackbox'',
      models = [''blackbox'', ''gpt-4o''],
      enabled = True, priority = None,
      handler = blackbox_v5 net\<rparr>]"

section \<open>The fallback router\<close>

text \<open>
  \<open>providers.filter(p => p.enabled).sort((a, b) => a.priority - b.priority)\<close>. The
  sort is stable. A difference that is not a number (a missing priority) counts as 0
  for the sort; the order is then left to the engine, and the model takes the one of
  a stable insertion sort.
\<close>

definition priority_le :: "provider \<Rightarrow> provider \<Rightarrow> bool" where
  "priority_le a b =
     (case (priority a, priority b) of
        (Some x, Some y) \<Rightarrow> x - y \<le> 0
      | _ \<Rightarrow> True)"

fun insert_by_priority :: "provider \<Rightarrow> provider list \<Rightarrow> provider list" where
  "insert_by_priority x [] = [x]"
| "insert_by_priority x (y # ys) =
     (if priority_le x y then x # y # ys else y # insert_by_priority x ys)"

definition sort_by_priority :: "provider list \<Rightarrow> provider list" where
  "sort_by_priority ps = foldr insert_by_priority ps []"

text \<open>
  The success test of the loop on the value a handler resolved to: the value is
  returned, or the loop goes on, or the test itself throws into the \<open>catch\<close>.
\<close>

datatype verdict = Accepted | Skipped | Threw string

definition accepts_trimmed :: "jsval \<Rightarrow> verdict" where
  \<comment> \<open>\<open>if (result && result.trim().length > 0)\<close>\<close>
  "accepts_trimmed result =
     (if \<not> truthy result then Skipped
      else (case result of
              JStr s \<Rightarrow> if length (trim s) > 0 then Accepted else Skipped
            | _ \<Rightarrow> Threw ''result.trim is not a function''))"

definition number_of :: "runtime \<Rightarrow> jsval \<Rightarrow> rat option" where
  "number_of rt v =
     (case v of
        JNum n \<Rightarrow> Some n
      | JUndefined \<Rightarrow> None
      | JNull \<Rightarrow> Some 0
      | JBool b \<Rightarrow> Some (if b then 1 else 0)
      | _ \<Rightarrow> to_number rt v)"

definition accepts_length :: "runtime \<Rightarrow> jsval \<Rightarrow> verdict" where
  \<comment> \<open>\<open>if (result && result.length > 0)\<close>\<close>
  "accepts_length rt result =
     (if truthy result \<and>
         (case number_of rt (field result ''length'') of Some n \<Rightarrow> n > 0 | None \<Rightarrow> False)
      then Accepted else Skipped)"

definition accepts_all :: "jsval \<Rightarrow> verdict" where
  \<comment> \<open>no test: \<open>return result\<close>\<close>
  "accepts_all result = Accepted"

text \<open>
  What the variants of \<open>tryProviders\<close> differ in: the timer the handler is raced
  against (its delay and message; \<open>None\<close> where the handler is awaited alone), the
  success test, whether the \<open>catch\<close> pushes the message to \<open>errors\<close>, and the
  message of the final throw.
\<close>

record router =
  timer :: "(nat \<times> string) option"
  verdict_of :: "jsval \<Rightarrow> verdict"
  keeps_errors :: bool
  failure :: "string list \<Rightarrow> string"

definition attempt :: "router \<Rightarrow> jsval promise \<Rightarrow> jsval promise" where
  "attempt r p = (case timer r of Some (ms, msg) \<Rightarrow> race ms msg p | None \<Rightarrow> p)"

definition caught :: "router \<Rightarrow> string list \<Rightarrow> provider \<Rightarrow> string \<Rightarrow> string list" where
  \<comment> \<open>\<open>errors.push(`${provider.name}: ${error.message}`)\<close>\<close>
  "caught r errors p e = (if keeps_errors r then errors @ [name p @ '': '' @ e] else errors)"

text \<open>
  The loop \<open>for (const provider of enabled) { try { ... } catch (error) { ... } }\<close>
  and the throw after it. \<open>now\<close> is the time since the call, \<open>errors\<close> the array
  of the same name. The result is the promise \<open>tryProviders\<close> returns, together with
  the calls the loop made: each provider whose handler was invoked, in order, with
  what the attempt settled to.
\<close>

type_synonym call = "provider \<times> jsval promise"

definition onward :: "call \<Rightarrow> jsval promise \<times> call list \<Rightarrow> jsval promise \<times> call list" where
  "onward c rest = (fst rest, c # snd rest)"

fun attempts ::
  "router \<Rightarrow> provider list \<Rightarrow> jsval list \<Rightarrow> jsval \<Rightarrow> nat \<Rightarrow> string list
     \<Rightarrow> jsval promise \<times> call list" where
  "attempts r [] messages model now errors = (Rejects now (failure r errors), [])"
| "attempts r (p # ps) messages model now errors =
     (case attempt r (handler p messages model) of
        Pending \<Rightarrow> (Pending, [(p, Pending)])
      | Rejects t e \<Rightarrow>
          onward (p, Rejects t e)
            (attempts r ps messages model (now + t) (caught r errors p e))
      | Fulfils t result \<Rightarrow>
          (case verdict_of r result of
             Accepted \<Rightarrow> (Fulfils (now + t) result, [(p, Fulfils t result)])
           | Skipped \<Rightarrow>
               onward (p, Fulfils t result) (attempts r ps messages model (now + t) errors)
           | Threw e \<Rightarrow>
               onward (p, Fulfils t result)
                 (attempts r ps messages model (now + t) (caught r errors p e))))"

definition router_v1 :: router where
  "router_v1 =
     \<lparr>timer = Some (30000, ''Timeout''),
      verdict_of = accepts_trimmed,
      keeps_errors = True,
      failure = (\<lambda>errors. ''Todos os '' @ show_nat (length errors) @ '' providers falharam:''
                   @ newline @ join newline errors)\<rparr>"

definition router_v2 :: router where
  "router_v2 =
     \<lparr>timer = Some (25000, ''Timeout''),
      verdict_of = accepts_trimmed,
      keeps_errors = False,
      failure = (\<lambda>errors. ''All providers failed'')\<rparr>"

definition router_v3 :: "runtime \<Rightarrow> router" where
  "router_v3 rt =
     \<lparr>timer = Some (30000, ''Timeout after 30s''),
      verdict_of = accepts_length rt,
      keeps_errors = True,
      failure = (\<lambda>errors. ''All '' @ show_nat (length errors) @ '' providers failed:''
                   @ newline @ join newline errors)\<rparr>"

definition router_v4 :: router where
  "router_v4 =
     \<lparr>timer = None,
      verdict_of = accepts_trimmed,
      keeps_errors = True,
      failure = (\<lambda>errors. ''All '' @ show_nat (length errors) @ '' providers failed:''
                   @ newline @ join newline errors)\<rparr>"

definition router_v5 :: router where
  "router_v5 =
     \<lparr>timer = Some (30000, ''Timeout''),
      verdict_of = accepts_all,
      keeps_errors = True,
      failure = (\<lambda>errors. ''All providers failed:'' @ newline @ join newline errors)\<rparr>"

definition tryProviders_v1 :: "provider list \<Rightarrow> jsval list \<Rightarrow> jsval \<Rightarrow> jsval promise \<times> call list" where
  "tryProviders_v1 providers messages model =
     attempts router_v1 (sort_by_priority (filter enabled providers)) messages model 0 []"

definition tryProviders_v2 :: "provider list \<Rightarrow> jsval list \<Rightarrow> jsval \<Rightarrow> jsval promise \<times> call list" where
  "tryProviders_v2 providers messages model =
     attempts router_v2 (sort_by_priority (filter enabled providers)) messages model 0 []"

definition tryProviders_v3 ::
  "runtime \<Rightarrow> provider list \<Rightarrow> jsval list \<Rightarrow> jsval \<Rightarrow> jsval promise \<times> call list" where
  "tryProviders_v3 rt providers messages model =
     attempts (router_v3 rt) (sort_by_priority (filter enabled providers)) messages model 0 []"

definition tryProviders_v4 :: "provider list \<Rightarrow> jsval list \<Rightarrow> jsval \<Rightarrow> jsval promise \<times> call list" where
  "tryProviders_v4 providers messages model =
     attempts router_v4 (sort_by_priority (filter enabled providers)) messages model 0 []"

text \<open>
  part\_001 shuffles instead of sorting:
  \<open>[...enabledProviders].sort(() => Math.random() - 0.5)\<close>. The order that comes
  out is an input of the model, \<open>shuffle\<close>; it is some arrangement of the list.
\<close>

definition tryProviders_v5 ::
  "(provider list \<Rightarrow> provider list) \<Rightarrow> provider list \<Rightarrow> jsval list \<Rightarrow> jsval
     \<Rightarrow> jsval promise \<times> call list" where
  "tryProviders_v5 shuffle providers messages model =
     attempts router_v5 (shuffle (filter enabled providers)) messages model 0 []"

section \<open>The HTTP endpoints\<close>

text \<open>
  What a route handler sends: \<open>res.status(c).json(obj)\<close> (the object, before it is
  serialised), the strings of successive \<open>res.write\<close> calls closed by \<open>res.end()\<close>,
  or \<open>res.send(text)\<close>. The headers are the ones the handler sets itself. The
  request body is what the JSON middleware parsed.
\<close>

datatype payload = Json jsval | Written "string list" | Sent string

record reply =
  status_code :: nat
  headers :: "(string \<times> string) list"
  sent :: payload

definition json_reply :: "nat \<Rightarrow> jsval \<Rightarrow> reply" where
  "json_reply c obj = \<lparr>status_code = c, headers = [], sent = Json obj\<rparr>"

definition cannot_destructure :: "jsval \<Rightarrow> string \<Rightarrow> string" where
  \<comment> \<open>the TypeError of \<open>const { k, ... } = req.body\<close> on \<open>null\<close> or \<open>undefined\<close> (V8)\<close>
  "cannot_destructure v k =
     ''Cannot destructure property '' @ [CHR 0x27] @ k @ [CHR 0x27] @ '' of ''
       @ [CHR 0x27] @ ''req.body'' @ [CHR 0x27] @ '' as it is ''
       @ (if v = JNull then ''null'' else ''undefined'') @ ''.''"

fun elements :: "jsval \<Rightarrow> jsval list" where
  "elements (JArr xs) = xs"
| "elements v = []"

definition invalid_messages :: "jsval \<Rightarrow> bool" where
  \<comment> \<open>\<open>!messages || !Array.isArray(messages) || messages.length === 0\<close>\<close>
  "invalid_messages messages =
     (\<not> truthy messages \<or> \<not> isArray messages \<or> length (elements messages) = 0)"

definition sse :: "runtime \<Rightarrow> jsval \<Rightarrow> string" where
  \<comment> \<open>\<open>`data: ${JSON.stringify(obj)}\n\n`\<close>\<close>
  "sse rt obj = ''data: '' @ stringify rt obj @ newline @ newline"

definition done_line :: string where
  "done_line = ''data: [DONE]'' @ newline @ newline"

definition chunk :: "runtime \<Rightarrow> nat \<Rightarrow> jsval \<Rightarrow> jsval \<Rightarrow> jsval \<Rightarrow> jsval" where
  "chunk rt k model delta finish_reason =
     JObj [(''id'', JStr (''chatcmpl-'' @ show_nat (date_now rt k))),
           (''object'', JStr ''chat.completion.chunk''),
           (''created'', JNum (of_nat (date_now rt (k + 1) div 1000))),
           (''model'', js_or model (JStr ''gpt-3.5-turbo'')),
           (''choices'',
              JArr [JObj [(''index'', JNum 0), (''delta'', delta),
                          (''finish_reason'', finish_reason)]])]"

definition completion :: "runtime \<Rightarrow> jsval \<Rightarrow> jsval \<Rightarrow> jsval \<Rightarrow> jsval" where
  "completion rt model content usage =
     JObj [(''id'', JStr (''chatcmpl-'' @ show_nat (date_now rt 0))),
           (''object'', JStr ''chat.completion''),
           (''created'', JNum (of_nat (date_now rt 1 div 1000))),
           (''model'', js_or model (JStr ''gpt-3.5-turbo'')),
           (''choices'',
              JArr [JObj [(''index'', JNum 0),
                          (''message'', JObj [(''role'', JStr ''assistant''), (''content'', content)]),
                          (''finish_reason'', JStr ''stop'')]]),
           (''usage'', usage)]"

text \<open>
  The token estimates. \<open>n\<close> is \<open>JSON.stringify(messages).length\<close> and \<open>v\<close> is
  \<open>content.length\<close>; a result that is not a number is serialised as \<open>null\<close>.
\<close>

definition quotient :: "runtime \<Rightarrow> (rat \<Rightarrow> rat) \<Rightarrow> jsval \<Rightarrow> jsval" where
  "quotient rt rounding v =
     (case number_of rt v of Some n \<Rightarrow> JNum (rounding (n / 4)) | None \<Rightarrow> JNull)"

definition sum_quotient :: "runtime \<Rightarrow> (rat \<Rightarrow> rat) \<Rightarrow> nat \<Rightarrow> jsval \<Rightarrow> jsval" where
  \<comment> \<open>\<open>(n + v) / 4\<close>: \<open>+\<close> concatenates when \<open>v\<close> is a string, an array or an object\<close>
  "sum_quotient rt rounding n v =
     (case v of
        JStr s \<Rightarrow> quotient rt rounding (JStr (to_text rt (JNum (of_nat n)) @ s))
      | JArr xs \<Rightarrow> quotient rt rounding (JStr (to_text rt (JNum (of_nat n)) @ to_text rt v))
      | JObj kvs \<Rightarrow> quotient rt rounding (JStr (to_text rt (JNum (of_nat n)) @ to_text rt v))
      | _ \<Rightarrow> (case number_of rt v of
                Some m \<Rightarrow> JNum (rounding ((of_nat n + m) / 4))
              | None \<Rightarrow> JNull))"

definition usage_estimate :: "runtime \<Rightarrow> (rat \<Rightarrow> rat) \<Rightarrow> jsval list \<Rightarrow> jsval \<Rightarrow> jsval" where
  "usage_estimate rt rounding messages content =
     (let n = length (stringify rt (JArr messages)); v = field content ''length''
      in JObj [(''prompt_tokens'', JNum (rounding (of_nat n / 4))),
               (''completion_tokens'', quotient rt rounding v),
               (''total_tokens'', sum_quotient rt rounding n v)])"

definition ceil :: "rat \<Rightarrow> rat" where
  \<comment> \<open>\<open>Math.ceil\<close>\<close>
  "ceil x = of_int \<lceil>x\<rceil>"

definition no_usage :: jsval where
  "no_usage = JObj [(''prompt_tokens'', JNum 0), (''completion_tokens'', JNum 0),
                    (''total_tokens'', JNum 0)]"

text \<open>The two fake chunks and the terminator of the \<open>stream\<close> mode.\<close>

definition stream_reply :: "(string \<times> string) list \<Rightarrow> string list \<Rightarrow> reply" where
  "stream_reply hs writes = \<lparr>status_code = 200, headers = hs, sent = Written writes\<rparr>"

definition with_role :: "jsval \<Rightarrow> jsval" where
  "with_role content = JObj [(''role'', JStr ''assistant''), (''content'', content)]"

definition fake_stream :: "runtime \<Rightarrow> jsval \<Rightarrow> jsval \<Rightarrow> string list" where
  "fake_stream rt model delta =
     [sse rt (chunk rt 0 model delta JNull),
      sse rt (chunk rt 2 model (JObj []) (JStr ''stop'')),
      done_line]"

subsection \<open>POST /v1/chat/completions\<close>

text \<open>
  Each variant returns the reply, if one is ever sent, and the calls made to provider
  handlers while the request was served.
\<close>

definition chat_v1 :: "runtime \<Rightarrow> provider list \<Rightarrow> jsval \<Rightarrow> reply option \<times> call list" where
  "chat_v1 rt providers body =
     (if nullish body then
        (Some (json_reply 500
           (JObj [(''error'', JObj [(''message'', JStr (cannot_destructure body ''messages'')),
                                    (''type'', JStr ''api_error'')])])), [])
      else
        let messages = field body ''messages'';
            model = field body ''model'';
            stream = (case field body ''stream'' of JUndefined \<Rightarrow> JBool False | v \<Rightarrow> v)
        in if invalid_messages messages then
             (Some (json_reply 400
                (JObj [(''error'', JObj [(''message'', JStr ''messages array required''),
                                         (''type'', JStr ''invalid_request_error'')])])), [])
           else
             (case tryProviders_v1 providers (elements messages) model of
                (Fulfils t content, cs) \<Rightarrow>
                  (Some (if truthy stream then
                           stream_reply [(''Content-Type'', ''text/event-stream''),
                                         (''Cache-Control'', ''no-cache'')]
                             (fake_stream rt model (with_role content))
                         else
                           json_reply 200
                             (completion rt model content
                                (usage_estimate rt ceil (elements messages) content))), cs)
              | (Rejects t e, cs) \<Rightarrow>
                  (Some (json_reply 500
                     (JObj [(''error'', JObj [(''message'', JStr e),
                                              (''type'', JStr ''api_error'')])])), cs)
              | (Pending, cs) \<Rightarrow> (None, cs)))"

definition chat_v2 :: "runtime \<Rightarrow> provider list \<Rightarrow> jsval \<Rightarrow> reply option \<times> call list" where
  "chat_v2 rt providers body =
     (if nullish body then
        (Some (json_reply 500
           (JObj [(''error'', JObj [(''message'', JStr (cannot_destructure body ''messages''))])])), [])
      else
        let messages = field body ''messages'';
            model = field body ''model'';
            stream = field body ''stream''
        in if invalid_messages messages then
             (Some (json_reply 400
                (JObj [(''error'', JObj [(''message'', JStr ''messages required'')])])), [])
           else
             (case tryProviders_v2 providers (elements messages) model of
                (Fulfils t content, cs) \<Rightarrow>
                  (Some (if truthy stream then
                           stream_reply [(''Content-Type'', ''text/event-stream'')]
                             [sse rt (JObj [(''id'', JStr (''chatcmpl-'' @ show_nat (date_now rt 0))),
                                            (''choices'',
                                               JArr [JObj [(''index'', JNum 0),
                                                           (''delta'', JObj [(''content'', content)]),
                                                           (''finish_reason'', JNull)]])]),
                              sse rt (JObj [(''id'', JStr (''chatcmpl-'' @ show_nat (date_now rt 1))),
                                            (''choices'',
                                               JArr [JObj [(''index'', JNum 0),
                                                           (''delta'', JObj []),
                                                           (''finish_reason'', JStr ''stop'')]])]),
                              done_line]
                         else
                           json_reply 200 (completion rt model content no_usage)), cs)
              | (Rejects t e, cs) \<Rightarrow>
                  (Some (json_reply 500 (JObj [(''error'', JObj [(''message'', JStr e)])])), cs)
              | (Pending, cs) \<Rightarrow> (None, cs)))"

text \<open>
  The first program of part\_000 also checks every message:
  \<open>for (const msg of messages) { if (!msg.role || !msg.content) return res.status(400)... }\<close>.
\<close>

datatype format_check = WellFormed | BadFormat | ReadFails string

fun message_format :: "jsval list \<Rightarrow> format_check" where
  "message_format [] = WellFormed"
| "message_format (msg # rest) =
     (if nullish msg then ReadFails (cannot_read msg ''role'')
      else if \<not> truthy (field msg ''role'') \<or> \<not> truthy (field msg ''content'') then BadFormat
      else message_format rest)"

definition or_internal :: "string \<Rightarrow> string" where
  \<comment> \<open>\<open>error.message || 'Internal server error'\<close>\<close>
  "or_internal e = (if e = [] then ''Internal server error'' else e)"

definition chat_v3 :: "runtime \<Rightarrow> provider list \<Rightarrow> jsval \<Rightarrow> reply option \<times> call list" where
  "chat_v3 rt providers body =
     (let failed = (\<lambda>e. json_reply 500
            (JObj [(''error'', JObj [(''message'', JStr (or_internal e)),
                                     (''type'', JStr ''api_error''),
                                     (''code'', JStr ''provider_error'')])]))
      in if nullish body then (Some (failed (cannot_destructure body ''messages'')), [])
      else
        let messages = field body ''messages'';
            model = field body ''model'';
            stream = (case field body ''stream'' of JUndefined \<Rightarrow> JBool False | v \<Rightarrow> v)
        in if invalid_messages messages then
             (Some (json_reply 400
                (JObj [(''error'',
                   JObj [(''message'', JStr ''Invalid request: messages array is required and must not be empty''),
                         (''type'', JStr ''invalid_request_error''),
                         (''code'', JStr ''missing_required_parameter'')])])), [])
           else
             (case message_format (elements messages) of
                ReadFails e \<Rightarrow> (Some (failed e), [])
              | BadFormat \<Rightarrow>
                  (Some (json_reply 400
                     (JObj [(''error'',
                        JObj [(''message'', JStr ''Invalid message format: role and content are required''),
                              (''type'', JStr ''invalid_request_error'')])])), [])
              | WellFormed \<Rightarrow>
                  (case tryProviders_v3 rt providers (elements messages) model of
                     (Fulfils t content, cs) \<Rightarrow>
                       (Some (if truthy stream then
                                stream_reply [(''Content-Type'', ''text/event-stream''),
                                              (''Cache-Control'', ''no-cache''),
                                              (''Connection'', ''keep-alive'')]
                                  (fake_stream rt model (with_role content))
                              else
                                json_reply 200
                                  (completion rt model content
                                     (usage_estimate rt (\<lambda>x. x) (elements messages) content))), cs)
                   | (Rejects t e, cs) \<Rightarrow> (Some (failed e), cs)
                   | (Pending, cs) \<Rightarrow> (None, cs))))"

definition chat_v4 :: "runtime \<Rightarrow> provider list \<Rightarrow> jsval \<Rightarrow> reply option \<times> call list" where
  "chat_v4 rt providers body =
     (let failed = (\<lambda>e. json_reply 500
            (JObj [(''error'', JObj [(''message'', JStr (or_internal e)),
                                     (''type'', JStr ''api_error'')])]))
      in if nullish body then (Some (failed (cannot_destructure body ''messages'')), [])
      else
        let messages = field body ''messages'';
            model = field body ''model'';
            stream = (case field body ''stream'' of JUndefined \<Rightarrow> JBool False | v \<Rightarrow> v)
        in if invalid_messages messages then
             (Some (json_reply 400
                (JObj [(''error'',
                   JObj [(''message'', JStr ''messages array is required and cannot be empty''),
                         (''type'', JStr ''invalid_request_error'')])])), [])
           else
             (case tryProviders_v4 providers (elements messages) model of
                (Fulfils t content, cs) \<Rightarrow>
                  (Some (if truthy stream then
                           stream_reply [(''Content-Type'', ''text/event-stream''),
                                         (''Cache-Control'', ''no-cache''),
                                         (''Connection'', ''keep-alive'')]
                             (fake_stream rt model (with_role content))
                         else
                           json_reply 200
                             (completion rt model content
                                (usage_estimate rt ceil (elements messages) content))), cs)
              | (Rejects t e, cs) \<Rightarrow> (Some (failed e), cs)
              | (Pending, cs) \<Rightarrow> (None, cs)))"

definition chat_v5 ::
  "runtime \<Rightarrow> (provider list \<Rightarrow> provider list) \<Rightarrow> provider list \<Rightarrow> jsval
     \<Rightarrow> reply option \<times> call list" where
  "chat_v5 rt shuffle providers body =
     (let failed = (\<lambda>e. json_reply 500
            (JObj [(''error'', JObj [(''message'', JStr e), (''type'', JStr ''internal_error'')])]))
      in if nullish body then (Some (failed (cannot_destructure body ''messages'')), [])
      else
        let messages = field body ''messages'';
            model = field body ''model'';
            stream = (case field body ''stream'' of JUndefined \<Rightarrow> JBool False | v \<Rightarrow> v)
        in if invalid_messages messages then
             (Some (json_reply 400
                (JObj [(''error'',
                   JObj [(''message'', JStr ''Invalid request: messages array is required''),
                         (''type'', JStr ''invalid_request_error'')])])), [])
           else
             (case tryProviders_v5 shuffle providers (elements messages) model of
                (Fulfils t content, cs) \<Rightarrow>
                  (Some (if truthy stream then
                           stream_reply [(''Content-Type'', ''text/event-stream''),
                                         (''Cache-Control'', ''no-cache''),
                                         (''Connection'', ''keep-alive'')]
                             (fake_stream rt model (JObj [(''content'', content)]))
                         else
                           json_reply 200 (completion rt model content no_usage)), cs)
              | (Rejects t e, cs) \<Rightarrow> (Some (failed e), cs)
              | (Pending, cs) \<Rightarrow> (None, cs)))"

subsection \<open>GET /v1/models\<close>

text \<open>
  A JavaScript \<open>Map\<close> keeps its keys in the order of their first insertion;
  setting a key that is present replaces its value in place.
  \<open>Array.from(new Map(allModels.map(m => [m.id, m])).values())\<close> is \<open>unique_models\<close>.
\<close>

fun map_set :: "('k \<times> 'v) list \<Rightarrow> 'k \<Rightarrow> 'v \<Rightarrow> ('k \<times> 'v) list" where
  "map_set [] k v = [(k, v)]"
| "map_set ((k', v') # m) k v = (if k' = k then (k, v) # m else (k', v') # map_set m k v)"

definition new_Map :: "('k \<times> 'v) list \<Rightarrow> ('k \<times> 'v) list" where
  "new_Map entries = foldl (\<lambda>m (k, v). map_set m k v) [] entries"

definition unique_models :: "jsval list \<Rightarrow> jsval list" where
  "unique_models allModels = map snd (new_Map (map (\<lambda>m. (field m ''id'', m)) allModels))"

definition model_entry :: "provider \<Rightarrow> string \<Rightarrow> jsval" where
  "model_entry p m =
     JObj [(''id'', JStr m), (''object'', JStr ''model''), (''created'', JNum 1686935002),
           (''owned_by'', JStr (toLowerCase (name p)))]"

definition all_models :: "provider list \<Rightarrow> jsval list" where
  \<comment> \<open>\<open>providers.filter(p => p.enabled).flatMap(p => p.models.map(m => ({...})))\<close>\<close>
  "all_models providers =
     concat (map (\<lambda>p. map (model_entry p) (models p)) (filter enabled providers))"

definition models_v1 :: "provider list \<Rightarrow> reply" where
  "models_v1 providers =
     json_reply 200
       (JObj [(''object'', JStr ''list''), (''data'', JArr (unique_models (all_models providers)))])"

definition models_v4 :: "provider list \<Rightarrow> reply" where
  "models_v4 providers =
     json_reply 200
       (JObj [(''object'', JStr ''list''), (''data'', JArr (unique_models (all_models providers)))])"

section \<open>The registry in the store\<close>

text \<open>
  \<open>const providers = [ ... ]\<close> names one array for the life of the process. The
  binding cannot be assigned again; the array and the provider objects in it can be
  written like any other. An array holds references to its objects, and an array made
  from it holds references to the same objects:

    \<^item> \<open>a.filter(f)\<close> and the spread \<open>[...a]\<close> make a new array and leave \<open>a\<close> as it is;

    \<^item> \<open>a.sort(c)\<close> rearranges \<open>a\<close> itself and returns \<open>a\<close>;

    \<^item> \<open>a.find(f)\<close>, \<open>a.map(f)\<close>, \<open>a.flatMap(f)\<close>, \<open>a.reduce(f, x)\<close>, \<open>a.length\<close> and
      \<open>for (... of a)\<close> read \<open>a\<close> and the objects in it and write neither; what \<open>map\<close>
      and \<open>flatMap\<close> return is an array of the values their callback made, which are
      not provider objects.

  The store holds the provider objects and the arrays of references to them. The
  references below \<open>fresh\<close> are those of the arrays made so far. No statement of the
  three files assigns to a property of a provider or to an element of an array of
  providers: the callbacks (\<open>p => p.enabled\<close>, \<open>(a, b) => a.priority - b.priority\<close>, ...)
  read properties, a provider handler is given the messages and the model only, and
  \<open>errors.push(...)\<close> writes to an array of strings. The only writes to an array of
  providers are those of \<open>sort\<close>.
\<close>

type_synonym ref = nat

record store =
  objects :: "ref \<Rightarrow> provider option"
  arrays :: "ref \<Rightarrow> ref list"
  fresh :: ref

definition contents :: "store \<Rightarrow> ref \<Rightarrow> provider list" where
  \<comment> \<open>the objects an array refers to, in the order of the array\<close>
  "contents s a = List.map_filter (objects s) (arrays s a)"

definition holds :: "store \<Rightarrow> (provider \<Rightarrow> bool) \<Rightarrow> ref \<Rightarrow> bool" where
  "holds s f r = (case objects s r of Some p \<Rightarrow> f p | None \<Rightarrow> False)"

definition new_array :: "store \<Rightarrow> ref list \<Rightarrow> ref \<times> store" where
  "new_array s rs = (fresh s, s\<lparr>arrays := (arrays s)(fresh s := rs), fresh := Suc (fresh s)\<rparr>)"

definition array_filter :: "store \<Rightarrow> ref \<Rightarrow> (provider \<Rightarrow> bool) \<Rightarrow> ref \<times> store" where
  \<comment> \<open>\<open>a.filter(f)\<close>\<close>
  "array_filter s a f = new_array s (filter (holds s f) (arrays s a))"

definition array_spread :: "store \<Rightarrow> ref \<Rightarrow> ref \<times> store" where
  \<comment> \<open>\<open>[...a]\<close>\<close>
  "array_spread s a = new_array s (arrays s a)"

definition array_sort :: "store \<Rightarrow> ref \<Rightarrow> (ref list \<Rightarrow> ref list) \<Rightarrow> ref \<times> store" where
  \<comment> \<open>\<open>a.sort(c)\<close>, where the comparator \<open>c\<close> arranges a list as \<open>arrangement\<close> does\<close>
  "array_sort s a arrangement = (a, s\<lparr>arrays := (arrays s)(a := arrangement (arrays s a))\<rparr>)"

definition array_read :: "store \<Rightarrow> ref \<Rightarrow> provider list \<times> store" where
  \<comment> \<open>\<open>a.find(f)\<close>, \<open>a.map(f)\<close>, \<open>a.flatMap(f)\<close>, \<open>a.reduce(f, x)\<close>, \<open>a.length\<close>,
      \<open>for (... of a)\<close>: the method is handed the objects of \<open>a\<close>, in order\<close>
  "array_read s a = (contents s a, s)"

text \<open>
  The arrangement of \<open>(a, b) => a.priority - b.priority\<close>: the stable insertion sort
  of \<open>sort_by_priority\<close>, on references.
\<close>

definition priority_le_at :: "store \<Rightarrow> ref \<Rightarrow> ref \<Rightarrow> bool" where
  "priority_le_at s a b =
     (case (objects s a, objects s b) of
        (Some p, Some q) \<Rightarrow> priority_le p q
      | _ \<Rightarrow> True)"

fun insert_ref :: "store \<Rightarrow> ref \<Rightarrow> ref list \<Rightarrow> ref list" where
  "insert_ref s x [] = [x]"
| "insert_ref s x (y # ys) =
     (if priority_le_at s x y then x # y # ys else y # insert_ref s x ys)"

definition by_priority :: "store \<Rightarrow> ref list \<Rightarrow> ref list" where
  "by_priority s rs = foldr (insert_ref s) rs []"

subsection \<open>tryProviders\<close>

definition enabled_by_priority :: "store \<Rightarrow> ref \<Rightarrow> ref \<times> store" where
  \<comment> \<open>\<open>providers.filter(p => p.enabled).sort((a, b) => a.priority - b.priority)\<close>\<close>
  "enabled_by_priority s providers =
     (let (filtered, s1) = array_filter s providers enabled
      in array_sort s1 filtered (by_priority s1))"

text \<open>
  Each \<open>tryProviders\<close>, with the store: the array \<open>for (const provider of ...)\<close>
  goes over is the one the function has just made. The result is that of the loop,
  and the store the function leaves.
\<close>

type_synonym routed = "(jsval promise \<times> call list) \<times> store"

definition tryProviders_v1_st :: "store \<Rightarrow> ref \<Rightarrow> jsval list \<Rightarrow> jsval \<Rightarrow> routed" where
  "tryProviders_v1_st s providers messages model =
     (let (enabled_array, s1) = enabled_by_priority s providers;
          (ps, s2) = array_read s1 enabled_array
      in (attempts router_v1 ps messages model 0 [], s2))"

definition tryProviders_v2_st :: "store \<Rightarrow> ref \<Rightarrow> jsval list \<Rightarrow> jsval \<Rightarrow> routed" where
  "tryProviders_v2_st s providers messages model =
     (let (enabled_array, s1) = enabled_by_priority s providers;
          (ps, s2) = array_read s1 enabled_array
      in (attempts router_v2 ps messages model 0 [], s2))"

definition tryProviders_v3_st ::
  "runtime \<Rightarrow> store \<Rightarrow> ref \<Rightarrow> jsval list \<Rightarrow> jsval \<Rightarrow> routed" where
  "tryProviders_v3_st rt s providers messages model =
     (let (enabledProviders, s1) = enabled_by_priority s providers;
          (ps, s2) = array_read s1 enabledProviders
      in (attempts (router_v3 rt) ps messages model 0 [], s2))"

definition tryProviders_v4_st :: "store \<Rightarrow> ref \<Rightarrow> jsval list \<Rightarrow> jsval \<Rightarrow> routed" where
  "tryProviders_v4_st s providers messages model =
     (let (enabledProviders, s1) = enabled_by_priority s providers;
          (ps, s2) = array_read s1 enabledProviders
      in (attempts router_v4 ps messages model 0 [], s2))"

text \<open>
  part\_001: \<open>const enabledProviders = providers.filter(p => p.enabled)\<close>, then
  \<open>const shuffled = [...enabledProviders].sort(() => Math.random() - 0.5)\<close>. The
  comparator looks at neither argument; the arrangement that comes out is an input of
  the model.
\<close>

definition tryProviders_v5_st ::
  "(ref list \<Rightarrow> ref list) \<Rightarrow> store \<Rightarrow> ref \<Rightarrow> jsval list \<Rightarrow> jsval \<Rightarrow> routed" where
  "tryProviders_v5_st shuffle s providers messages model =
     (let (enabledProviders, s1) = array_filter s providers enabled;
          (copy, s2) = array_spread s1 enabledProviders;
          (shuffled, s3) = array_sort s2 copy shuffle;
          (ps, s4) = array_read s3 shuffled
      in (attempts router_v5 ps messages model 0 [], s4))"

subsection \<open>The route handlers\<close>

text \<open>
  What each route handler does with the store: every method it calls on the registry
  and on the arrays made from it, in the order and under the conditions of the handler
  body. The store a handler is given is the one it finds when the request arrives, the
  store it returns the one it leaves. A handler does all of this before its first
  \<open>await\<close>, so that the handlers of two requests do not interleave in the store.
\<close>

definition chat_st ::
  "(store \<Rightarrow> ref \<Rightarrow> jsval list \<Rightarrow> jsval \<Rightarrow> routed) \<Rightarrow> store \<Rightarrow> ref \<Rightarrow> jsval \<Rightarrow> store" where
  \<comment> \<open>\<open>POST /v1/chat/completions\<close>: the destructuring of \<open>req.body\<close>, the check of
      \<open>messages\<close>, then \<open>await tryProviders(messages, model)\<close>\<close>
  "chat_st tryProviders s providers body =
     (if nullish body then s
      else
        let messages = field body ''messages''; model = field body ''model''
        in if invalid_messages messages then s
           else snd (tryProviders s providers (elements messages) model))"

definition chat_v3_st :: "runtime \<Rightarrow> store \<Rightarrow> ref \<Rightarrow> jsval \<Rightarrow> store" where
  \<comment> \<open>the first program of part\_000 also checks every message before the call\<close>
  "chat_v3_st rt s providers body =
     (if nullish body then s
      else
        let messages = field body ''messages''; model = field body ''model''
        in if invalid_messages messages then s
           else (case message_format (elements messages) of
                   WellFormed \<Rightarrow> snd (tryProviders_v3_st rt s providers (elements messages) model)
                 | BadFormat \<Rightarrow> s
                 | ReadFails e \<Rightarrow> s))"

definition completions_st ::
  "(store \<Rightarrow> ref \<Rightarrow> jsval list \<Rightarrow> jsval \<Rightarrow> routed) \<Rightarrow> store \<Rightarrow> ref \<Rightarrow> jsval \<Rightarrow> store" where
  \<comment> \<open>\<open>POST /v1/completions\<close>: the destructuring of \<open>req.body\<close>, \<open>if (!prompt) return ...\<close>,
      then \<open>await tryProviders([{ role: 'user', content: prompt }], model)\<close>\<close>
  "completions_st tryProviders s providers body =
     (if nullish body then s
      else
        let prompt = field body ''prompt''; model = field body ''model''
        in if \<not> truthy prompt then s
           else snd (tryProviders s providers
                       [JObj [(''role'', JStr ''user''), (''content'', prompt)]] model))"

definition read_enabled :: "store \<Rightarrow> ref \<Rightarrow> provider list \<times> store" where
  \<comment> \<open>\<open>providers.filter(p => p.enabled)\<close> followed by \<open>.map(...)\<close>, \<open>.flatMap(...)\<close>,
      \<open>.reduce(...)\<close> or \<open>.length\<close>\<close>
  "read_enabled s providers =
     (let (enabled_array, s1) = array_filter s providers enabled
      in array_read s1 enabled_array)"

text \<open>
  A request, once the framework has routed it. \<open>Malformed\<close> is a request whose body
  the JSON middleware refuses, \<open>Unrouted\<close> one that matches none of the other routes.
\<close>

datatype request =
    PostChatCompletions jsval
  | PostCompletions jsval
  | GetModels
  | GetModel string
  | GetHealth
  | GetRoot
  | GetPing
  | Malformed
  | Unrouted string string

text \<open>
  The first variant of index.js:

    \<^item> \<open>GET /v1/models\<close>: \<open>providers.filter(p => p.enabled).flatMap(...)\<close>;

    \<^item> \<open>GET /v1/models/:model\<close>: \<open>providers.find(p => p.enabled && p.models.includes(model))\<close>;

    \<^item> \<open>GET /health\<close>: \<open>providers.filter(p => p.enabled).map(...)\<close>, then
      \<open>providers.filter(p => p.enabled).length\<close>, then
      \<open>providers.filter(p => p.enabled).reduce(...)\<close>;

    \<^item> \<open>GET /\<close>: \<open>providers.filter(p => p.enabled).map(p => p.name)\<close>;

    \<^item> the last handler (404) does not name the registry; there is no route \<open>/ping\<close>
      and no error handler, and a request with a malformed body reaches no handler.
\<close>

fun serve_v1 :: "store \<Rightarrow> ref \<Rightarrow> request \<Rightarrow> store" where
  "serve_v1 s providers (PostChatCompletions body) = chat_st tryProviders_v1_st s providers body"
| "serve_v1 s providers (PostCompletions body) = completions_st tryProviders_v1_st s providers body"
| "serve_v1 s providers GetModels = snd (read_enabled s providers)"
| "serve_v1 s providers (GetModel model) = snd (array_read s providers)"
| "serve_v1 s providers GetHealth =
     (let (listed_ones, s1) = read_enabled s providers;
          (counted_ones, s2) = read_enabled s1 providers;
          (summed_ones, s3) = read_enabled s2 providers
      in s3)"
| "serve_v1 s providers GetRoot = snd (read_enabled s providers)"
| "serve_v1 s providers GetPing = s"
| "serve_v1 s providers Malformed = s"
| "serve_v1 s providers (Unrouted verb path) = s"

text \<open>
  The second variant of index.js:

    \<^item> \<open>GET /v1/models\<close>: \<open>providers.filter(p => p.enabled).flatMap(...)\<close>;

    \<^item> \<open>GET /health\<close>: \<open>providers.filter(p => p.enabled).length\<close>;

    \<^item> \<open>GET /\<close>: \<open>providers.filter(p => p.enabled).map(p => p.name)\<close>;

    \<^item> \<open>GET /ping\<close> and the last handler (404) do not name the registry; there is no
      route \<open>/v1/models/:model\<close>, so that such a request reaches the last handler.
\<close>

fun serve_v2 :: "store \<Rightarrow> ref \<Rightarrow> request \<Rightarrow> store" where
  "serve_v2 s providers (PostChatCompletions body) = chat_st tryProviders_v2_st s providers body"
| "serve_v2 s providers (PostCompletions body) = completions_st tryProviders_v2_st s providers body"
| "serve_v2 s providers GetModels = snd (read_enabled s providers)"
| "serve_v2 s providers (GetModel model) = s"
| "serve_v2 s providers GetHealth = snd (read_enabled s providers)"
| "serve_v2 s providers GetRoot = snd (read_enabled s providers)"
| "serve_v2 s providers GetPing = s"
| "serve_v2 s providers Malformed = s"
| "serve_v2 s providers (Unrouted verb path) = s"

text \<open>
  The first program of part\_000:

    \<^item> \<open>GET /v1/models\<close>: \<open>providers.filter(p => p.enabled).flatMap(...)\<close>;

    \<^item> \<open>GET /v1/models/:model\<close>: \<open>providers.find(p => p.enabled && p.models.includes(model))\<close>;

    \<^item> \<open>GET /health\<close>: \<open>providers.map(...)\<close>, then \<open>providers.filter(p => p.enabled).length\<close>,
      then \<open>providers.filter(p => p.enabled).reduce(...)\<close>;

    \<^item> \<open>GET /\<close>: \<open>providers.filter(p => p.enabled).map(...)\<close>;

    \<^item> the 404 handler and the error handler, which answers a request with a
      malformed body, do not name the registry; there is no route \<open>/ping\<close>.
\<close>

fun serve_v3 :: "runtime \<Rightarrow> store \<Rightarrow> ref \<Rightarrow> request \<Rightarrow> store" where
  "serve_v3 rt s providers (PostChatCompletions body) = chat_v3_st rt s providers body"
| "serve_v3 rt s providers (PostCompletions body) =
     completions_st (tryProviders_v3_st rt) s providers body"
| "serve_v3 rt s providers GetModels = snd (read_enabled s providers)"
| "serve_v3 rt s providers (GetModel model) = snd (array_read s providers)"
| "serve_v3 rt s providers GetHealth =
     (let (status_ones, s1) = array_read s providers;
          (counted_ones, s2) = read_enabled s1 providers;
          (summed_ones, s3) = read_enabled s2 providers
      in s3)"
| "serve_v3 rt s providers GetRoot = snd (read_enabled s providers)"
| "serve_v3 rt s providers GetPing = s"
| "serve_v3 rt s providers Malformed = s"
| "serve_v3 rt s providers (Unrouted verb path) = s"

text \<open>
  The second program of part\_000 has the routes of the first variant of index.js,
  with the same calls on the registry.
\<close>

fun serve_v4 :: "store \<Rightarrow> ref \<Rightarrow> request \<Rightarrow> store" where
  "serve_v4 s providers (PostChatCompletions body) = chat_st tryProviders_v4_st s providers body"
| "serve_v4 s providers (PostCompletions body) = completions_st tryProviders_v4_st s providers body"
| "serve_v4 s providers GetModels = snd (read_enabled s providers)"
| "serve_v4 s providers (GetModel model) = snd (array_read s providers)"
| "serve_v4 s providers GetHealth =
     (let (listed_ones, s1) = read_enabled s providers;
          (counted_ones, s2) = read_enabled s1 providers;
          (summed_ones, s3) = read_enabled s2 providers
      in s3)"
| "serve_v4 s providers GetRoot = snd (read_enabled s providers)"
| "serve_v4 s providers GetPing = s"
| "serve_v4 s providers Malformed = s"
| "serve_v4 s providers (Unrouted verb path) = s"

text \<open>
  part\_001 has four routes:

    \<^item> \<open>GET /v1/models\<close>: \<open>providers.filter(p => p.enabled).flatMap(...)\<close>;

    \<^item> \<open>GET /health\<close>: \<open>providers.map(...)\<close>;

    \<^item> \<open>GET /\<close>: \<open>providers.filter(p => p.enabled).map(p => p.name)\<close>;

    \<^item> every other request is answered by the framework.
\<close>

fun serve_v5 :: "(ref list \<Rightarrow> ref list) \<Rightarrow> store \<Rightarrow> ref \<Rightarrow> request \<Rightarrow> store" where
  "serve_v5 shuffle s providers (PostChatCompletions body) =
     chat_st (tryProviders_v5_st shuffle) s providers body"
| "serve_v5 shuffle s providers (PostCompletions body) = s"
| "serve_v5 shuffle s providers GetModels = snd (read_enabled s providers)"
| "serve_v5 shuffle s providers (GetModel model) = s"
| "serve_v5 shuffle s providers GetHealth = snd (array_read s providers)"
| "serve_v5 shuffle s providers GetRoot = snd (read_enabled s providers)"
| "serve_v5 shuffle s providers GetPing = s"
| "serve_v5 shuffle s providers Malformed = s"
| "serve_v5 shuffle s providers (Unrouted verb path) = s"

section \<open>Notions the statements use\<close>

text \<open>
  For one request (its messages and model) and one provider: the call the loop makes
  to it, whether the attempt succeeds (the handler resolves in time to a value that
  passes the test), whether it hangs, and the entry the \<open>catch\<close> pushes for it.
\<close>

definition settled :: "router \<Rightarrow> jsval list \<Rightarrow> jsval \<Rightarrow> provider \<Rightarrow> call" where
  "settled r messages model p = (p, attempt r (handler p messages model))"

definition succeeds :: "router \<Rightarrow> jsval list \<Rightarrow> jsval \<Rightarrow> provider \<Rightarrow> bool" where
  "succeeds r messages model p =
     (case attempt r (handler p messages model) of
        Fulfils t v \<Rightarrow> verdict_of r v = Accepted
      | Rejects t e \<Rightarrow> False
      | Pending \<Rightarrow> False)"

definition hangs :: "router \<Rightarrow> jsval list \<Rightarrow> jsval \<Rightarrow> provider \<Rightarrow> bool" where
  "hangs r messages model p = (attempt r (handler p messages model) = Pending)"

definition complaint :: "router \<Rightarrow> jsval list \<Rightarrow> jsval \<Rightarrow> provider \<Rightarrow> string list" where
  "complaint r messages model p =
     (case attempt r (handler p messages model) of
        Rejects t e \<Rightarrow> [name p @ '': '' @ e]
      | Fulfils t v \<Rightarrow>
          (case verdict_of r v of
             Threw e \<Rightarrow> [name p @ '': '' @ e]
           | Accepted \<Rightarrow> []
           | Skipped \<Rightarrow> [])
      | Pending \<Rightarrow> [])"

text \<open>A list of providers in ascending order of priority, each with a priority.\<close>

definition ascending :: "provider list \<Rightarrow> bool" where
  "ascending ps =
     sorted_wrt (\<lambda>a b. \<exists>x y. priority a = Some x \<and> priority b = Some y \<and> x \<le> y) ps"

text \<open>The providers a run called, in order.\<close>

definition called :: "'a \<times> call list \<Rightarrow> provider list" where
  "called run = map fst (snd run)"

text \<open>
  A promise that settles no later than \<open>ms\<close> milliseconds after the call, and a handler
  that has not settled when a timer of \<open>ms\<close> milliseconds fires.
\<close>

definition settles_by :: "nat \<Rightarrow> 'a promise \<Rightarrow> bool" where
  "settles_by ms a = (case a of Fulfils t v \<Rightarrow> t \<le> ms | Rejects t e \<Rightarrow> t \<le> ms | Pending \<Rightarrow> False)"

definition overdue :: "nat \<Rightarrow> 'a promise \<Rightarrow> bool" where
  "overdue ms h = (case h of Fulfils t v \<Rightarrow> ms \<le> t | Rejects t e \<Rightarrow> ms \<le> t | Pending \<Rightarrow> True)"



text \<open>
  The entries a reply to \<open>GET /v1/models\<close> lists, and the enabled provider that is
  last in the registry among those listing a model.
\<close>

definition listed :: "reply \<Rightarrow> jsval list" where
  "listed r =
     (case sent r of
        Json obj \<Rightarrow> elements (field obj ''data'')
      | Written ws \<Rightarrow> []
      | Sent t \<Rightarrow> [])"

definition last_listing :: "provider list \<Rightarrow> string \<Rightarrow> provider" where
  "last_listing providers m = last (filter (\<lambda>p. enabled p \<and> m \<in> set (models p)) providers)"

text \<open>
  The entries of the registry in a store: which objects the array refers to, in
  which order, and what each object holds. An array is allocated when its reference
  is below \<open>fresh\<close>.
\<close>

definition registry :: "store \<Rightarrow> ref \<Rightarrow> (ref \<times> provider option) list" where
  "registry s providers = map (\<lambda>r. (r, objects s r)) (arrays s providers)"

definition allocated :: "store \<Rightarrow> ref \<Rightarrow> bool" where
  "allocated s a = (a < fresh s)"

text \<open>
  A store that has grown out of another: every object and every array of the first
  is in the second as it was, next to the arrays made since.
\<close>

definition grown :: "store \<Rightarrow> store \<Rightarrow> bool" where
  "grown s s' =
     (fresh s \<le> fresh s' \<and> objects s' = objects s \<and> (\<forall>a<fresh s. arrays s' a = arrays s a))"

section \<open>Example requests and networks\<close>

text \<open>
  A runtime, and requests: one message; the same with \<open>stream\<close> set; one message
  that has a role and no content.
\<close>

definition rt0 :: runtime where
  "rt0 =
     \<lparr>stringify = (\<lambda>v. ''{}''), parse = (\<lambda>s. None), to_text = (\<lambda>v. []),
      to_number = (\<lambda>v. None), date_now = (\<lambda>k. 1700000000000 + k),
      iso_now = ''2023-11-14T22:13:20.000Z'', uptime = 1\<rparr>"

definition hello :: "jsval list" where
  "hello = [JObj [(''role'', JStr ''user''), (''content'', JStr ''Hello!'')]]"

definition hello_body :: jsval where
  "hello_body = JObj [(''messages'', JArr hello)]"

definition hello_stream :: jsval where
  "hello_stream = JObj [(''messages'', JArr hello), (''stream'', JBool True)]"


text \<open>
  Answers of a provider: an ok response whose JSON is \<open>data\<close>, an ok response whose
  text is \<open>body\<close> (each read one millisecond after the headers), and the JSON of a
  chat completion with the given content. A handler reads either the JSON or the
  text of an answer; the reading it does not use is left empty here.
\<close>

definition ok_json :: "nat \<Rightarrow> jsval \<Rightarrow> response promise" where
  "ok_json t data =
     Fulfils t \<lparr>ok = True, status = 200, vqd = None, json = Fulfils 1 data,
                body_text = Fulfils 1 [], body_chunks = None\<rparr>"

definition ok_text :: "nat \<Rightarrow> string \<Rightarrow> response promise" where
  "ok_text t body =
     Fulfils t \<lparr>ok = True, status = 200, vqd = None, json = Rejects 1 ''Unexpected end of JSON input'',
                body_text = Fulfils 1 body, body_chunks = None\<rparr>"

definition chat_body :: "string \<Rightarrow> jsval" where
  "chat_body c =
     JObj [(''choices'',
        JArr [JObj [(''message'', JObj [(''role'', JStr ''assistant''), (''content'', JStr c)])]])]"

text \<open>Every fetch fails.\<close>

definition net_down :: network where
  "net_down url = Rejects 10 ''fetch failed''"

text \<open>
  DeepInfra answers a content of two spaces, Together answers \<open>pong\<close>, every other
  fetch fails.
\<close>

definition net_blank :: network where
  "net_blank url =
     (if url = ''https://api.deepinfra.com/v1/openai/chat/completions'' then ok_json 20 (chat_body ''  '')
      else if url = ''https://api.together.xyz/v1/chat/completions'' then ok_json 30 (chat_body ''pong'')
      else Rejects 10 ''fetch failed'')"

text \<open>
  Blackbox answers an empty text, Cohere answers \<open>hi\<close>, every other fetch fails.
\<close>

definition net_quiet :: network where
  "net_quiet url =
     (if url = ''https://www.blackbox.ai/api/chat'' then ok_text 15 []
      else if url = ''https://api.cohere.ai/v1/generate''
        then ok_json 20 (JObj [(''generations'', JArr [JObj [(''text'', JStr ''hi'')]])])
      else Rejects 10 ''fetch failed'')"

text \<open>
  DeepInfra answers its headers after 20 ms and its body a minute later (or, in the
  second network, never); Together answers \<open>pong\<close>, every other fetch fails.
\<close>

definition net_slow :: network where
  "net_slow url =
     (if url = ''https://api.deepinfra.com/v1/openai/chat/completions'' then
        Fulfils 20 \<lparr>ok = True, status = 200, vqd = None, json = Fulfils 60000 (chat_body ''late''),
                    body_text = Fulfils 60000 [], body_chunks = None\<rparr>
      else if url = ''https://api.together.xyz/v1/chat/completions'' then ok_json 30 (chat_body ''pong'')
      else Rejects 10 ''fetch failed'')"

definition net_stall :: network where
  "net_stall url =
     (if url = ''https://api.deepinfra.com/v1/openai/chat/completions'' then
        Fulfils 20 \<lparr>ok = True, status = 200, vqd = None, json = Pending,
                    body_text = Pending, body_chunks = None\<rparr>
      else if url = ''https://api.together.xyz/v1/chat/completions'' then ok_json 30 (chat_body ''pong'')
      else Rejects 10 ''fetch failed'')"


text \<open>
  The store once the module is loaded: the objects of the array literal, in order,
  and the array \<open>providers\<close> at reference 0.
\<close>

definition boot :: "provider list \<Rightarrow> store" where
  "boot ps =
     \<lparr>objects = (\<lambda>r. if r < length ps then Some (ps ! r) else None),
      arrays = (\<lambda>a. if a = 0 then [0..<length ps] else []),
      fresh = 1\<rparr>"

section \<open>Properties of the router\<close>

lemma onward_pair [simp]: "onward c (a, cs) = (a, c # cs)"
  by (simp add: onward_def)

lemma fst_onward [simp]: "fst (onward c rest) = fst rest"
  by (simp add: onward_def)

lemma snd_onward [simp]: "snd (onward c rest) = c # snd rest"
  by (simp add: onward_def)

lemma calls_prefix: "prefix (map fst (snd (attempts r ps messages model now errors))) ps"
  by (induction ps arbitrary: now errors)
     (auto split: promise.splits verdict.splits)

lemma calls_settled:
  "snd (attempts r ps messages model now errors) =
   map (settled r messages model) (take (length (snd (attempts r ps messages model now errors))) ps)"
  by (induction ps arbitrary: now errors)
     (auto simp: settled_def split: promise.splits verdict.splits)

lemma calls_once:
  "mset (map fst (snd (attempts r ps messages model now errors))) \<subseteq># mset ps"
proof -
  have "prefix (map fst (snd (attempts r ps messages model now errors))) ps"
    by (rule calls_prefix)
  then obtain zs where "ps = map fst (snd (attempts r ps messages model now errors)) @ zs"
    by (auto simp: prefix_def)
  then have "mset ps = mset (map fst (snd (attempts r ps messages model now errors))) + mset zs"
    by (metis mset_append)
  then show ?thesis by simp
qed

lemma attempts_fail_step:
  assumes "\<not> succeeds r messages model p" "\<not> hangs r messages model p" "keeps_errors r"
  shows "\<exists>t. attempts r (p # ps) messages model now errors =
           onward (settled r messages model p)
             (attempts r ps messages model (now + t) (errors @ complaint r messages model p))"
  using assms
  by (auto simp: succeeds_def hangs_def complaint_def settled_def caught_def
           split: promise.splits verdict.splits)

lemma attempts_all_fail:
  assumes "\<forall>p\<in>set ps. \<not> succeeds r messages model p \<and> \<not> hangs r messages model p" "keeps_errors r"
  shows "\<exists>t. attempts r ps messages model now errors =
           (Rejects t (failure r (errors @ concat (map (complaint r messages model) ps))),
            map (settled r messages model) ps)"
  using assms
proof (induction ps arbitrary: now errors)
  case Nil
  then show ?case by simp
next
  case (Cons p ps)
  from Cons.prems obtain t where
    "attempts r (p # ps) messages model now errors =
       onward (settled r messages model p)
         (attempts r ps messages model (now + t) (errors @ complaint r messages model p))"
    using attempts_fail_step [of r messages model p ps now errors] by auto
  moreover from Cons.IH [of "now + t" "errors @ complaint r messages model p"] Cons.prems
  obtain u where
    "attempts r ps messages model (now + t) (errors @ complaint r messages model p) =
       (Rejects u (failure r ((errors @ complaint r messages model p)
                     @ concat (map (complaint r messages model) ps))),
        map (settled r messages model) ps)"
    by auto
  ultimately show ?case by auto
qed

lemma attempts_skip_step:
  assumes "\<not> succeeds r messages model p" "\<not> hangs r messages model p"
  shows "\<exists>t errors'. attempts r (p # ps) messages model now errors =
           onward (settled r messages model p) (attempts r ps messages model (now + t) errors')"
  using assms
  by (auto simp: succeeds_def hangs_def settled_def
           split: promise.splits verdict.splits)

lemma attempts_first_success:
  assumes "\<forall>q\<in>set xs. \<not> succeeds r messages model q \<and> \<not> hangs r messages model q"
    and "attempt r (handler p messages model) = Fulfils t v"
    and "verdict_of r v = Accepted"
  shows "\<exists>T. attempts r (xs @ p # ys) messages model now errors =
           (Fulfils T v, map (settled r messages model) (xs @ [p]))"
  using assms(1)
proof (induction xs arbitrary: now errors)
  case Nil
  then show ?case using assms(2,3) by (simp add: settled_def)
next
  case (Cons q xs)
  from Cons.prems obtain u errors' where
    "attempts r (q # (xs @ p # ys)) messages model now errors =
       onward (settled r messages model q)
         (attempts r (xs @ p # ys) messages model (now + u) errors')"
    using attempts_skip_step [of r messages model q "xs @ p # ys" now errors] by auto
  moreover from Cons.IH [of "now + u" errors'] Cons.prems
  obtain T where
    "attempts r (xs @ p # ys) messages model (now + u) errors' =
       (Fulfils T v, map (settled r messages model) (xs @ [p]))"
    by auto
  ultimately show ?case by auto
qed

lemma attempts_returns_accepted:
  "fst (attempts r ps messages model now errors) = Fulfils T v \<Longrightarrow> verdict_of r v = Accepted"
  by (induction ps arbitrary: now errors)
     (auto split: promise.splits verdict.splits)

subsection \<open>The order of the attempts\<close>

lemma mset_insert_by_priority: "mset (insert_by_priority x ys) = add_mset x (mset ys)"
  by (induction ys) auto

lemma mset_sort_by_priority: "mset (sort_by_priority ps) = mset ps"
  unfolding sort_by_priority_def
  by (induction ps) (auto simp: mset_insert_by_priority)

lemma set_sort_by_priority: "set (sort_by_priority ps) = set ps"
  using mset_sort_by_priority [of ps] by (metis set_mset_mset)

lemma set_insert_by_priority: "set (insert_by_priority x ys) = insert x (set ys)"
  by (induction ys) auto

lemma ascending_insert:
  assumes "ascending ys" "priority x \<noteq> None" "\<forall>y\<in>set ys. priority y \<noteq> None"
  shows "ascending (insert_by_priority x ys)"
  using assms
proof (induction ys)
  case Nil
  then show ?case by (simp add: ascending_def)
next
  case (Cons y ys)
  then show ?case
    by (auto simp: ascending_def priority_le_def set_insert_by_priority split: option.splits)
qed

lemma ascending_sort:
  assumes "\<forall>p\<in>set ps. priority p \<noteq> None"
  shows "ascending (sort_by_priority ps)"
  using assms unfolding sort_by_priority_def
proof (induction ps)
  case Nil
  then show ?case by (simp add: ascending_def)
next
  case (Cons p ps)
  have "set (foldr insert_by_priority ps []) = set ps"
    using set_sort_by_priority [of ps] by (simp add: sort_by_priority_def)
  with Cons show ?case by (simp add: ascending_insert)
qed

lemma filter_insert_same:
  assumes "priority x = Some k" "\<forall>y\<in>set ys. priority y \<noteq> None" "ascending ys"
  shows "filter (\<lambda>p. priority p = Some k) (insert_by_priority x ys)
           = x # filter (\<lambda>p. priority p = Some k) ys"
  using assms
proof (induction ys)
  case Nil
  then show ?case by simp
next
  case (Cons y ys)
  show ?case
  proof (cases "priority_le x y")
    case True
    then show ?thesis using Cons.prems by simp
  next
    case False
    with Cons.prems have "priority y \<noteq> Some k"
      by (auto simp: priority_le_def split: option.splits)
    moreover have "ascending ys" using Cons.prems by (simp add: ascending_def)
    ultimately show ?thesis using False Cons by simp
  qed
qed

lemma filter_insert_other:
  assumes "priority x \<noteq> Some k"
  shows "filter (\<lambda>p. priority p = Some k) (insert_by_priority x ys)
           = filter (\<lambda>p. priority p = Some k) ys"
  using assms by (induction ys) auto

lemma sort_stable:
  assumes "\<forall>p\<in>set ps. priority p \<noteq> None"
  shows "filter (\<lambda>p. priority p = Some k) (sort_by_priority ps)
           = filter (\<lambda>p. priority p = Some k) ps"
  using assms
proof (induction ps)
  case Nil
  then show ?case by (simp add: sort_by_priority_def)
next
  case (Cons p ps)
  have s: "sort_by_priority (p # ps) = insert_by_priority p (sort_by_priority ps)"
    by (simp add: sort_by_priority_def)
  have a: "ascending (sort_by_priority ps)" using Cons.prems by (simp add: ascending_sort)
  have n: "\<forall>y\<in>set (sort_by_priority ps). priority y \<noteq> None"
    using Cons.prems by (simp add: set_sort_by_priority)
  show ?case
  proof (cases "priority p = Some k")
    case True
    then show ?thesis using s a n Cons by (simp add: filter_insert_same)
  next
    case False
    then show ?thesis using s Cons by (simp add: filter_insert_other)
  qed
qed

subsection \<open>The calls an endpoint makes\<close>

lemma chat_v1_calls:
  "snd (chat_v1 rt providers body) =
     (if nullish body \<or> invalid_messages (field body ''messages'') then []
      else snd (tryProviders_v1 providers (elements (field body ''messages'')) (field body ''model'')))"
  unfolding chat_v1_def Let_def
  by (auto split: prod.splits promise.splits)

lemma chat_v2_calls:
  "snd (chat_v2 rt providers body) =
     (if nullish body \<or> invalid_messages (field body ''messages'') then []
      else snd (tryProviders_v2 providers (elements (field body ''messages'')) (field body ''model'')))"
  unfolding chat_v2_def Let_def
  by (auto split: prod.splits promise.splits)

lemma chat_v3_calls:
  "snd (chat_v3 rt providers body) =
     (if nullish body \<or> invalid_messages (field body ''messages'')
         \<or> message_format (elements (field body ''messages'')) \<noteq> WellFormed then []
      else snd (tryProviders_v3 rt providers (elements (field body ''messages'')) (field body ''model'')))"
  unfolding chat_v3_def Let_def
  by (auto split: prod.splits promise.splits format_check.splits)

lemma chat_v4_calls:
  "snd (chat_v4 rt providers body) =
     (if nullish body \<or> invalid_messages (field body ''messages'') then []
      else snd (tryProviders_v4 providers (elements (field body ''messages'')) (field body ''model'')))"
  unfolding chat_v4_def Let_def
  by (auto split: prod.splits promise.splits)

lemma chat_v5_calls:
  "snd (chat_v5 rt shuffle providers body) =
     (if nullish body \<or> invalid_messages (field body ''messages'') then []
      else snd (tryProviders_v5 shuffle providers (elements (field body ''messages''))
                  (field body ''model'')))"
  unfolding chat_v5_def Let_def
  by (auto split: prod.splits promise.splits)

lemma sorted_once:
  "mset (map fst (snd (attempts r (sort_by_priority (filter enabled providers)) messages model 0 [])))
     \<subseteq># mset (filter enabled providers)"
  using calls_once [of r "sort_by_priority (filter enabled providers)" messages model 0 "[]"]
  by (simp add: mset_sort_by_priority)

lemma order_v1: "sort_by_priority (filter enabled (providers_v1 net)) = providers_v1 net"
  by (simp add: providers_v1_def sort_by_priority_def priority_le_def)

lemma calls_v1_net_down:
  "map name (called (tryProviders_v1 (providers_v1 net_down) hello JUndefined)) =
     [''DeepInfra'', ''Together'', ''HuggingFace'', ''Groq'', ''Phind'', ''Blackbox'', ''Cohere'']"
  by (simp add: called_def tryProviders_v1_def order_v1)
     (simp add: providers_v1_def net_down_def router_v1_def attempt_def race_def chat_handler_def
        post_json_def post_text_def await_def huggingFace_handler_def reads_each_def hello_def
        phind_handler_def reads_last_def text_handler_def cohere_handler_def caught_def)

section \<open>The claims\<close>

text \<open>
  Claim C5. For every single request, each enabled provider's handler is invoked at
  most once: a provider that fails is never retried within the same request. In each of
  the five variants, for \<open>tryProviders\<close> and for the chat endpoint that calls it, the
  providers called form a sub-multiset of the enabled entries of the registry: no entry
  is called more often than it stands in the registry. For part\_001 the shuffled order
  is an arrangement of the enabled entries.
\<close>

theorem handler_invoked_at_most_once:
  assumes "mset (shuffle (filter enabled providers)) = mset (filter enabled providers)"
  shows "mset (called (tryProviders_v1 providers messages model)) \<subseteq># mset (filter enabled providers)
       \<and> mset (called (tryProviders_v2 providers messages model)) \<subseteq># mset (filter enabled providers)
       \<and> mset (called (tryProviders_v3 rt providers messages model)) \<subseteq># mset (filter enabled providers)
       \<and> mset (called (tryProviders_v4 providers messages model)) \<subseteq># mset (filter enabled providers)
       \<and> mset (called (tryProviders_v5 shuffle providers messages model))
            \<subseteq># mset (filter enabled providers)
       \<and> mset (called (chat_v1 rt providers body)) \<subseteq># mset (filter enabled providers)
       \<and> mset (called (chat_v2 rt providers body)) \<subseteq># mset (filter enabled providers)
       \<and> mset (called (chat_v3 rt providers body)) \<subseteq># mset (filter enabled providers)
       \<and> mset (called (chat_v4 rt providers body)) \<subseteq># mset (filter enabled providers)
       \<and> mset (called (chat_v5 rt shuffle providers body)) \<subseteq># mset (filter enabled providers)"
proof -
  have v1: "mset (called (tryProviders_v1 providers m md)) \<subseteq># mset (filter enabled providers)"
    for m md
    unfolding called_def tryProviders_v1_def by (rule sorted_once)
  have v2: "mset (called (tryProviders_v2 providers m md)) \<subseteq># mset (filter enabled providers)"
    for m md
    unfolding called_def tryProviders_v2_def by (rule sorted_once)
  have v3: "mset (called (tryProviders_v3 rt providers m md)) \<subseteq># mset (filter enabled providers)"
    for m md
    unfolding called_def tryProviders_v3_def by (rule sorted_once)
  have v4: "mset (called (tryProviders_v4 providers m md)) \<subseteq># mset (filter enabled providers)"
    for m md
    unfolding called_def tryProviders_v4_def by (rule sorted_once)
  have v5: "mset (called (tryProviders_v5 shuffle providers m md))
              \<subseteq># mset (filter enabled providers)" for m md
    unfolding called_def tryProviders_v5_def
    using calls_once [of router_v5 "shuffle (filter enabled providers)" m md 0 "[]"] assms
    by simp
  have c1: "mset (called (chat_v1 rt providers body)) \<subseteq># mset (filter enabled providers)"
    using v1 by (simp add: called_def chat_v1_calls)
  have c2: "mset (called (chat_v2 rt providers body)) \<subseteq># mset (filter enabled providers)"
    using v2 by (simp add: called_def chat_v2_calls)
  have c3: "mset (called (chat_v3 rt providers body)) \<subseteq># mset (filter enabled providers)"
    using v3 by (simp add: called_def chat_v3_calls)
  have c4: "mset (called (chat_v4 rt providers body)) \<subseteq># mset (filter enabled providers)"
    using v4 by (simp add: called_def chat_v4_calls)
  have c5: "mset (called (chat_v5 rt shuffle providers body)) \<subseteq># mset (filter enabled providers)"
    using v5 by (simp add: called_def chat_v5_calls)
  show ?thesis using v1 v2 v3 v4 v5 c1 c2 c3 c4 c5 by blast
qed

text \<open>
  With every fetch failing, the first variant calls each of its seven providers once,
  in the order of the registry, and the shuffled variant calls no entry of its
  registry more than once.
\<close>

theorem handler_invoked_at_most_once_witness:
  "mset (rev (filter enabled (providers_v1 net_down))) = mset (filter enabled (providers_v1 net_down))
   \<and> mset (called (tryProviders_v1 (providers_v1 net_down) hello JUndefined))
        \<subseteq># mset (filter enabled (providers_v1 net_down))
   \<and> map name (called (tryProviders_v1 (providers_v1 net_down) hello JUndefined)) =
        [''DeepInfra'', ''Together'', ''HuggingFace'', ''Groq'', ''Phind'', ''Blackbox'', ''Cohere'']
   \<and> mset (called (tryProviders_v5 rev (providers_v5 rt0 net_down) hello JUndefined))
        \<subseteq># mset (filter enabled (providers_v5 rt0 net_down))"
proof -
  have h1: "mset (rev (filter enabled (providers_v1 net_down)))
              = mset (filter enabled (providers_v1 net_down))"
    by simp
  have h5: "mset (rev (filter enabled (providers_v5 rt0 net_down)))
              = mset (filter enabled (providers_v5 rt0 net_down))"
    by simp
  note a = handler_invoked_at_most_once
    [where shuffle = rev and providers = "providers_v1 net_down" and messages = hello
       and model = JUndefined and rt = rt0 and body = JNull, OF h1]
  note b = handler_invoked_at_most_once
    [where shuffle = rev and providers = "providers_v5 rt0 net_down" and messages = hello
       and model = JUndefined and rt = rt0 and body = JNull, OF h5]
  show ?thesis using h1 a b calls_v1_net_down by blast
qed

subsection \<open>The list of models\<close>

lemma map_of_map_set: "map_of (map_set m k v) = (map_of m)(k \<mapsto> v)"
  by (induction m k v rule: map_set.induct) auto

lemma keys_map_set:
  "map fst (map_set m k v) = (if k \<in> set (map fst m) then map fst m else map fst m @ [k])"
  by (induction m k v rule: map_set.induct) auto

lemma distinct_map_set: "distinct (map fst m) \<Longrightarrow> distinct (map fst (map_set m k v))"
  by (simp add: keys_map_set)

lemma fold_map_set_distinct:
  "distinct (map fst m) \<Longrightarrow> distinct (map fst (foldl (\<lambda>m (k, v). map_set m k v) m es))"
  by (induction es arbitrary: m) (auto simp: distinct_map_set)

lemma keys_set_map_set: "fst ` set (map_set m k v) = insert k (fst ` set m)"
  using keys_map_set [of m k v] by (metis (full_types) insert_absorb list.set_map set_append
      list.simps(15) Un_insert_right sup_bot.right_neutral empty_set)

lemma fold_map_set_keys:
  "fst ` set (foldl (\<lambda>m (k, v). map_set m k v) m es) = fst ` set m \<union> fst ` set es"
proof (induction es arbitrary: m)
  case Nil
  then show ?case by simp
next
  case (Cons e es)
  obtain k v where e: "e = (k, v)" by (cases e)
  have "fst ` set (foldl (\<lambda>m (k, v). map_set m k v) m (e # es))
          = fst ` set (map_set m k v) \<union> fst ` set es"
    using Cons.IH [of "map_set m k v"] by (simp add: e)
  then show ?case by (simp add: keys_set_map_set e)
qed

lemma fold_map_set_lookup:
  "map_of (foldl (\<lambda>m (k, v). map_set m k v) m es) = map_of m ++ map_of (rev es)"
  by (induction es arbitrary: m) (auto simp: map_of_map_set)

lemma distinct_new_Map: "distinct (map fst (new_Map es))"
  by (simp add: new_Map_def fold_map_set_distinct)

lemma keys_new_Map: "fst ` set (new_Map es) = fst ` set es"
  by (simp add: new_Map_def fold_map_set_keys)

lemma lookup_new_Map: "map_of (new_Map es) = map_of (rev es)"
  by (simp add: new_Map_def fold_map_set_lookup)

lemma map_of_rev_last:
  assumes "k \<in> set (map f xs)"
  shows "map_of (rev (map (\<lambda>x. (f x, x)) xs)) k = Some (last (filter (\<lambda>x. f x = k) xs))"
  using assms
proof (induction xs rule: rev_induct)
  case Nil
  then show ?case by simp
next
  case (snoc x xs)
  then show ?case by auto
qed

lemma new_Map_entry:
  assumes "(k, e) \<in> set (new_Map (map (\<lambda>x. (f x, x)) xs))"
  shows "k \<in> set (map f xs) \<and> e = last (filter (\<lambda>x. f x = k) xs)"
proof -
  have d: "distinct (map fst (new_Map (map (\<lambda>x. (f x, x)) xs)))" by (rule distinct_new_Map)
  have "map_of (new_Map (map (\<lambda>x. (f x, x)) xs)) k = Some e"
    using assms d by simp
  then have l: "map_of (rev (map (\<lambda>x. (f x, x)) xs)) k = Some e"
    by (simp add: lookup_new_Map)
  have "k \<in> fst ` set (new_Map (map (\<lambda>x. (f x, x)) xs))"
    using assms by force
  then have k: "k \<in> set (map f xs)"
    by (simp add: keys_new_Map image_image)
  with l show ?thesis using map_of_rev_last [OF k] by simp
qed

lemma id_model_entry [simp]: "field (model_entry p m) ''id'' = JStr m"
  by (simp add: model_entry_def)

lemma owner_model_entry [simp]: "field (model_entry p m) ''owned_by'' = JStr (toLowerCase (name p))"
  by (simp add: model_entry_def)

lemma ids_all_models:
  "set (map (\<lambda>e. field e ''id'') (all_models providers)) =
     {JStr m | m p. p \<in> set providers \<and> enabled p \<and> m \<in> set (models p)}"
  by (force simp: all_models_def)

lemma last_entry_for:
  assumes "\<exists>p\<in>set ps. m \<in> set (models p)"
  shows "last (filter (\<lambda>e. field e ''id'' = JStr m)
            (concat (map (\<lambda>p. map (model_entry p) (models p)) ps)))
         = model_entry (last (filter (\<lambda>p. m \<in> set (models p)) ps)) m"
  using assms
proof (induction ps rule: rev_induct)
  case Nil
  then show ?case by simp
next
  case (snoc p ps)
  have own': "filter (\<lambda>e. field e ''id'' = JStr m) (map (model_entry p) ms)
               = replicate (length (filter (\<lambda>x. x = m) ms)) (model_entry p m)" for ms
    by (induction ms) auto
  show ?case
  proof (cases "m \<in> set (models p)")
    case True
    then have "filter (\<lambda>x. x = m) (models p) \<noteq> []"
      by (simp add: filter_empty_conv)
    then have "filter (\<lambda>e. field e ''id'' = JStr m) (map (model_entry p) (models p)) \<noteq> []
             \<and> last (filter (\<lambda>e. field e ''id'' = JStr m) (map (model_entry p) (models p))) = model_entry p m"
      by (simp add: own')
    with True show ?thesis by simp
  next
    case False
    then have "filter (\<lambda>e. field e ''id'' = JStr m) (map (model_entry p) (models p)) = []"
      by (auto simp: own' filter_empty_conv)
    moreover from False snoc.prems have "\<exists>p\<in>set ps. m \<in> set (models p)" by auto
    ultimately show ?thesis using False snoc.IH by simp
  qed
qed

lemma unique_models_facts:
  fixes providers
  defines "data \<equiv> unique_models (all_models providers)"
  shows "distinct (map (\<lambda>e. field e ''id'') data)"
    and "set (map (\<lambda>e. field e ''id'') data) =
           {JStr m | m p. p \<in> set providers \<and> enabled p \<and> m \<in> set (models p)}"
    and "\<forall>e\<in>set data. \<exists>m. (\<exists>p\<in>set providers. enabled p \<and> m \<in> set (models p))
            \<and> e = model_entry (last_listing providers m) m"
proof -
  let ?f = "\<lambda>e. field e ''id''"
  let ?M = "new_Map (map (\<lambda>x. (?f x, x)) (all_models providers))"
  have data: "data = map snd ?M" by (simp add: data_def unique_models_def)
  have ent: "k \<in> set (map ?f (all_models providers)) \<and> e = last (filter (\<lambda>x. ?f x = k) (all_models providers))"
    if "(k, e) \<in> set ?M" for k e
    using new_Map_entry [OF that] .
  have idk: "?f e = k" if "(k, e) \<in> set ?M" for k e
  proof -
    from ent [OF that] have k: "k \<in> set (map ?f (all_models providers))"
      and e: "e = last (filter (\<lambda>x. ?f x = k) (all_models providers))" by auto
    from k have "filter (\<lambda>x. ?f x = k) (all_models providers) \<noteq> []"
      by (auto simp: filter_empty_conv)
    then have "last (filter (\<lambda>x. ?f x = k) (all_models providers)) \<in> set (filter (\<lambda>x. ?f x = k) (all_models providers))"
      by (rule last_in_set)
    with e show ?thesis by simp
  qed
  have keys: "map ?f data = map fst ?M"
    unfolding data using idk by (auto simp: comp_def)
  show "distinct (map ?f data)"
    unfolding keys by (rule distinct_new_Map)
  show "set (map ?f data) = {JStr m | m p. p \<in> set providers \<and> enabled p \<and> m \<in> set (models p)}"
    unfolding keys using keys_new_Map [of "map (\<lambda>x. (?f x, x)) (all_models providers)"]
      ids_all_models [of providers] by (simp add: image_image)
  show "\<forall>e\<in>set data. \<exists>m. (\<exists>p\<in>set providers. enabled p \<and> m \<in> set (models p))
            \<and> e = model_entry (last_listing providers m) m"
  proof
    fix e assume "e \<in> set data"
    then obtain k where ke: "(k, e) \<in> set ?M" unfolding data by auto
    from ent [OF ke] have k: "k \<in> set (map ?f (all_models providers))"
      and e: "e = last (filter (\<lambda>x. ?f x = k) (all_models providers))" by auto
    from k obtain m p where m: "k = JStr m" "p \<in> set providers" "enabled p" "m \<in> set (models p)"
      using ids_all_models [of providers] by auto
    then have ex: "\<exists>p\<in>set (filter enabled providers). m \<in> set (models p)" by auto
    have "e = model_entry (last (filter (\<lambda>p. m \<in> set (models p)) (filter enabled providers))) m"
      using e m(1) last_entry_for [OF ex] by (simp add: all_models_def)
    moreover have "filter (\<lambda>p. m \<in> set (models p)) (filter enabled providers)
                    = filter (\<lambda>p. enabled p \<and> m \<in> set (models p)) providers"
      by (simp add: conj_commute)
    ultimately have "e = model_entry (last_listing providers m) m"
      by (simp add: last_listing_def)
    with m show "\<exists>m. (\<exists>p\<in>set providers. enabled p \<and> m \<in> set (models p))
            \<and> e = model_entry (last_listing providers m) m" by blast
  qed
qed

lemma lower_names:
  "toLowerCase ''DeepInfra'' = ''deepinfra''" "toLowerCase ''Together'' = ''together''"
  "toLowerCase ''HuggingFace'' = ''huggingface''" "toLowerCase ''Groq'' = ''groq''"
  "toLowerCase ''Phind'' = ''phind''" "toLowerCase ''Blackbox'' = ''blackbox''"
  "toLowerCase ''Cohere'' = ''cohere''"
  by code_simp+

lemma listing_v1:
  "map (\<lambda>e. (field e ''id'', field e ''owned_by'')) (listed (models_v1 (providers_v1 net))) =
    [(JStr ''meta-llama/Meta-Llama-3.1-70B-Instruct'', JStr ''deepinfra''),
     (JStr ''mistralai/Mixtral-8x7B-Instruct-v0.1'', JStr ''huggingface''),
     (JStr ''meta-llama/Llama-2-70b-chat-hf'', JStr ''huggingface''),
     (JStr ''llama-3.1-70b-versatile'', JStr ''groq''),
     (JStr ''mixtral-8x7b-32768'', JStr ''groq''),
     (JStr ''gemma-7b-it'', JStr ''groq''),
     (JStr ''Phind-70B'', JStr ''phind''),
     (JStr ''gpt-4'', JStr ''phind''),
     (JStr ''blackbox'', JStr ''blackbox''),
     (JStr ''gpt-4o'', JStr ''blackbox''),
     (JStr ''command'', JStr ''cohere''),
     (JStr ''command-light'', JStr ''cohere'')]"
  by (simp add: listed_def models_v1_def json_reply_def unique_models_def all_models_def
        providers_v1_def new_Map_def model_entry_def lower_names)

text \<open>
  Claim C10. \<open>GET /v1/models\<close> returns exactly one entry per distinct model id across
  all enabled providers: duplicates are removed, and the entry kept for an id is owned
  by (the lowercase name of) the provider that comes last in the registry among the
  enabled providers listing that id. This is the route of the first variant of
  index.js and of the second program of part\_000, for any registry.
\<close>

theorem models_listed_once:
  "listed (models_v4 providers) = listed (models_v1 providers)
   \<and> distinct (map (\<lambda>e. field e ''id'') (listed (models_v1 providers)))
   \<and> set (map (\<lambda>e. field e ''id'') (listed (models_v1 providers))) =
         {JStr m | m p. p \<in> set providers \<and> enabled p \<and> m \<in> set (models p)}
   \<and> (\<forall>e\<in>set (listed (models_v1 providers)).
         \<exists>m. (\<exists>p\<in>set providers. enabled p \<and> m \<in> set (models p))
            \<and> field e ''id'' = JStr m
            \<and> field e ''owned_by'' = JStr (toLowerCase (name (last_listing providers m)))
            \<and> e = model_entry (last_listing providers m) m)"
proof -
  have l: "listed (models_v1 providers) = unique_models (all_models providers)"
    by (simp add: listed_def models_v1_def json_reply_def)
  have l4: "listed (models_v4 providers) = unique_models (all_models providers)"
    by (simp add: listed_def models_v4_def json_reply_def)
  have "\<forall>e\<in>set (unique_models (all_models providers)).
         \<exists>m. (\<exists>p\<in>set providers. enabled p \<and> m \<in> set (models p))
            \<and> field e ''id'' = JStr m
            \<and> field e ''owned_by'' = JStr (toLowerCase (name (last_listing providers m)))
            \<and> e = model_entry (last_listing providers m) m"
    using unique_models_facts(3) [of providers] by fastforce
  then show ?thesis
    using unique_models_facts(1,2) [of providers] l l4 by simp
qed

text \<open>
  The registry of index.js lists twelve distinct ids; the two ids that DeepInfra,
  Together and HuggingFace share are owned by HuggingFace, the last of them.
\<close>

theorem models_listed_once_witness:
  "distinct (map (\<lambda>e. field e ''id'') (listed (models_v1 (providers_v1 net_down))))
   \<and> map (\<lambda>e. (field e ''id'', field e ''owned_by'')) (listed (models_v1 (providers_v1 net_down))) =
    [(JStr ''meta-llama/Meta-Llama-3.1-70B-Instruct'', JStr ''deepinfra''),
     (JStr ''mistralai/Mixtral-8x7B-Instruct-v0.1'', JStr ''huggingface''),
     (JStr ''meta-llama/Llama-2-70b-chat-hf'', JStr ''huggingface''),
     (JStr ''llama-3.1-70b-versatile'', JStr ''groq''),
     (JStr ''mixtral-8x7b-32768'', JStr ''groq''),
     (JStr ''gemma-7b-it'', JStr ''groq''),
     (JStr ''Phind-70B'', JStr ''phind''),
     (JStr ''gpt-4'', JStr ''phind''),
     (JStr ''blackbox'', JStr ''blackbox''),
     (JStr ''gpt-4o'', JStr ''blackbox''),
     (JStr ''command'', JStr ''cohere''),
     (JStr ''command-light'', JStr ''cohere'')]"
  using models_listed_once [of "providers_v1 net_down"] listing_v1 [of net_down] by blast

subsection \<open>The first success\<close>

lemma timed_never_hangs: "timer r = Some tm \<Longrightarrow> \<not> hangs r messages model p"
  by (cases tm) (simp add: hangs_def attempt_def race_def split: promise.splits)

lemma router_first_success:
  assumes "timer r = Some tm"
    and "\<forall>q\<in>set xs. \<not> succeeds r messages model q"
    and "succeeds r messages model p"
  shows "\<exists>T t v. attempts r (xs @ p # ys) messages model 0 [] =
             (Fulfils T v, map (settled r messages model) (xs @ [p]))
           \<and> attempt r (handler p messages model) = Fulfils t v"
proof -
  from assms(3) obtain t v where a: "attempt r (handler p messages model) = Fulfils t v"
    and v: "verdict_of r v = Accepted"
    by (auto simp: succeeds_def split: promise.splits)
  have "\<forall>q\<in>set xs. \<not> succeeds r messages model q \<and> \<not> hangs r messages model q"
    using assms(1,2) timed_never_hangs by blast
  from attempts_first_success [OF this a v, of ys 0 "[]"] a show ?thesis by blast
qed

lemma trim_Nil [simp]: "trim [] = []"
  by (simp add: trim_def)

lemma succeeds_v1:
  "succeeds router_v1 messages model p =
     (\<exists>t s. handler p messages model = Fulfils t (JStr s) \<and> t < 30000 \<and> length (trim s) > 0)"
  by (cases "handler p messages model")
     (auto simp: succeeds_def router_v1_def attempt_def race_def accepts_trimmed_def
           split: jsval.splits)

lemma accepts_length_string:
  "accepts_length rt (JStr s) = (if s \<noteq> [] then Accepted else Skipped)"
  by (simp add: accepts_length_def number_of_def)

lemma succeeds_v3:
  "succeeds (router_v3 rt) messages model p =
     (\<exists>t v. handler p messages model = Fulfils t v \<and> t < 30000 \<and> truthy v
        \<and> (\<exists>n. number_of rt (field v ''length'') = Some n \<and> n > 0))"
  by (cases "handler p messages model")
     (auto simp: succeeds_def router_v3_def attempt_def race_def accepts_length_def
           split: option.splits)

lemma order_facts:
  assumes "\<forall>p\<in>set providers. enabled p \<longrightarrow> priority p \<noteq> None"
  shows "mset (sort_by_priority (filter enabled providers)) = mset (filter enabled providers)"
    and "ascending (sort_by_priority (filter enabled providers))"
    and "filter (\<lambda>p. priority p = Some k) (sort_by_priority (filter enabled providers))
           = filter (\<lambda>p. priority p = Some k) (filter enabled providers)"
proof -
  have n: "\<forall>p\<in>set (filter enabled providers). priority p \<noteq> None" using assms by simp
  show "mset (sort_by_priority (filter enabled providers)) = mset (filter enabled providers)"
    by (rule mset_sort_by_priority)
  show "ascending (sort_by_priority (filter enabled providers))"
    using n by (rule ascending_sort)
  show "filter (\<lambda>p. priority p = Some k) (sort_by_priority (filter enabled providers))
           = filter (\<lambda>p. priority p = Some k) (filter enabled providers)"
    using n by (rule sort_stable)
qed

text \<open>
  Claim C1, as amended. \<open>tryProviders\<close> of the first variant of index.js and of the
  first program of part\_000 restricts the registry to the enabled providers, sorts
  them by ascending priority (stably: equal priorities keep the registry order),
  invokes them one at a time in that order, and returns the result of the first
  invocation that succeeds, calling no later provider. An invocation succeeds when the
  handler resolves before the 30000 ms timer to a value that passes the test of the
  loop: in index.js a string that is not empty after \<open>trim()\<close>; in part\_000 a truthy
  value whose \<open>length\<close> is greater than 0, which for a string means not empty. This
  holds for every message list and model; every enabled provider has a priority.
\<close>

theorem first_success_in_priority_order:
  assumes "\<forall>p\<in>set providers. enabled p \<longrightarrow> priority p \<noteq> None"
  shows "mset (sort_by_priority (filter enabled providers)) = mset (filter enabled providers)
       \<and> ascending (sort_by_priority (filter enabled providers))
       \<and> (\<forall>k. filter (\<lambda>p. priority p = Some k) (sort_by_priority (filter enabled providers))
                = filter (\<lambda>p. priority p = Some k) (filter enabled providers))
       \<and> (\<forall>xs p ys. sort_by_priority (filter enabled providers) = xs @ p # ys
             \<and> (\<forall>q\<in>set xs. \<not> succeeds router_v1 messages model q)
             \<and> succeeds router_v1 messages model p
           \<longrightarrow> (\<exists>T t v. tryProviders_v1 providers messages model =
                            (Fulfils T v, map (settled router_v1 messages model) (xs @ [p]))
                      \<and> handler p messages model = Fulfils t v))
       \<and> (\<forall>xs p ys. sort_by_priority (filter enabled providers) = xs @ p # ys
             \<and> (\<forall>q\<in>set xs. \<not> succeeds (router_v3 rt) messages model q)
             \<and> succeeds (router_v3 rt) messages model p
           \<longrightarrow> (\<exists>T t v. tryProviders_v3 rt providers messages model =
                            (Fulfils T v, map (settled (router_v3 rt) messages model) (xs @ [p]))
                      \<and> handler p messages model = Fulfils t v))
       \<and> (\<forall>p. succeeds router_v1 messages model p =
             (\<exists>t s. handler p messages model = Fulfils t (JStr s) \<and> t < 30000
                    \<and> length (trim s) > 0))
       \<and> (\<forall>p. succeeds (router_v3 rt) messages model p =
             (\<exists>t v. handler p messages model = Fulfils t v \<and> t < 30000 \<and> truthy v
                    \<and> (\<exists>n. number_of rt (field v ''length'') = Some n \<and> n > 0)))
       \<and> (\<forall>s. verdict_of (router_v3 rt) (JStr s) = (if s \<noteq> [] then Accepted else Skipped))"
proof -
  have t1: "timer router_v1 = Some (30000, ''Timeout'')" by (simp add: router_v1_def)
  have t3: "timer (router_v3 rt) = Some (30000, ''Timeout after 30s'')" by (simp add: router_v3_def)
  have raced: "attempt r h = Fulfils t v \<Longrightarrow> timer r = Some tm \<Longrightarrow> h = Fulfils t v" for r h t v tm
    by (cases tm) (auto simp: attempt_def race_def split: promise.splits if_splits)
  have v1: "\<exists>T t v. tryProviders_v1 providers messages model =
                 (Fulfils T v, map (settled router_v1 messages model) (xs @ [p]))
               \<and> handler p messages model = Fulfils t v"
    if "sort_by_priority (filter enabled providers) = xs @ p # ys"
      "\<forall>q\<in>set xs. \<not> succeeds router_v1 messages model q"
      "succeeds router_v1 messages model p" for xs p ys
    using router_first_success [OF t1 that(2,3), of ys] that(1) raced [OF _ t1]
    unfolding tryProviders_v1_def by fastforce
  have v3: "\<exists>T t v. tryProviders_v3 rt providers messages model =
                 (Fulfils T v, map (settled (router_v3 rt) messages model) (xs @ [p]))
               \<and> handler p messages model = Fulfils t v"
    if "sort_by_priority (filter enabled providers) = xs @ p # ys"
      "\<forall>q\<in>set xs. \<not> succeeds (router_v3 rt) messages model q"
      "succeeds (router_v3 rt) messages model p" for xs p ys
    using router_first_success [OF t3 that(2,3), of ys] that(1) raced [OF _ t3]
    unfolding tryProviders_v3_def by fastforce
  have s3: "verdict_of (router_v3 rt) (JStr s) = (if s \<noteq> [] then Accepted else Skipped)" for s
    by (simp add: router_v3_def accepts_length_string)
  show ?thesis
    using order_facts [OF assms] v1 v3 succeeds_v1 succeeds_v3 s3 by blast
qed

lemma deepinfra_blank:
  "handler (providers_v1 net_blank ! 0) hello JUndefined = Fulfils 21 (JStr ''  '')"
  by (simp add: providers_v1_def net_blank_def chat_handler_def post_json_def await_def delay_def
        ok_json_def chat_body_def chat_content_def member_def opt_member_def opt_item_def js_or_def
        return_def)

lemma run_v1_blank:
  "fst (tryProviders_v1 (providers_v1 net_blank) hello JUndefined) = Fulfils 52 (JStr ''pong'')
   \<and> map name (called (tryProviders_v1 (providers_v1 net_blank) hello JUndefined)) = [''DeepInfra'', ''Together'']"
  by (simp add: called_def tryProviders_v1_def order_v1)
     (simp add: providers_v1_def net_blank_def chat_handler_def post_json_def await_def delay_def
        ok_json_def chat_body_def chat_content_def member_def opt_member_def opt_item_def js_or_def
        return_def router_v1_def attempt_def race_def accepts_trimmed_def trim_def is_space_def)


lemma together_pong:
  "handler (providers_v1 net_blank ! 1) hello JUndefined = Fulfils 31 (JStr ''pong'')"
  by (simp add: providers_v1_def net_blank_def chat_handler_def post_json_def await_def delay_def
        ok_json_def chat_body_def chat_content_def member_def opt_member_def opt_item_def js_or_def
        return_def)

lemma trim_blank: "trim ''  '' = []"
  by (simp add: trim_def is_space_def)

lemma trim_pong: "trim ''pong'' = ''pong''"
  by (simp add: trim_def is_space_def)

text \<open>
  On the registry of index.js, with DeepInfra answering blanks and Together
  answering \<open>pong\<close>: Together is the first to succeed, and its result is returned after
  two calls.
\<close>

theorem first_success_in_priority_order_witness:
  "map priority (providers_v1 net_blank) = [Some 1, Some 2, Some 3, Some 4, Some 5, Some 6, Some 7]
   \<and> ascending (sort_by_priority (filter enabled (providers_v1 net_blank)))
   \<and> handler (providers_v1 net_blank ! 1) hello JUndefined = Fulfils 31 (JStr ''pong'')
   \<and> (\<exists>T. tryProviders_v1 (providers_v1 net_blank) hello JUndefined =
            (Fulfils T (JStr ''pong''),
             map (settled router_v1 hello JUndefined)
               [providers_v1 net_blank ! 0, providers_v1 net_blank ! 1]))"
proof -
  let ?P = "providers_v1 net_blank"
  have h: "\<forall>p\<in>set ?P. enabled p \<longrightarrow> priority p \<noteq> None"
    by (simp add: providers_v1_def)
  have pr: "map priority ?P = [Some 1, Some 2, Some 3, Some 4, Some 5, Some 6, Some 7]"
    by (simp add: providers_v1_def)
  have o: "sort_by_priority (filter enabled ?P) = [?P ! 0] @ (?P ! 1) # drop 2 ?P"
    by (simp add: order_v1) (simp add: providers_v1_def)
  have f: "\<forall>q\<in>set [?P ! 0]. \<not> succeeds router_v1 hello JUndefined q"
    by (simp add: succeeds_v1 deepinfra_blank trim_blank)
  have "handler (?P ! 1) hello JUndefined = Fulfils 31 (JStr ''pong'')
          \<and> (31::nat) < 30000 \<and> length (trim ''pong'') > 0"
    using together_pong by (simp add: trim_pong)
  then have s: "succeeds router_v1 hello JUndefined (?P ! 1)"
    unfolding succeeds_v1 by blast
  note t = first_success_in_priority_order [OF h, where messages = hello and model = JUndefined and rt = rt0]
  from t have a: "ascending (sort_by_priority (filter enabled ?P))" by blast
  from t o f s obtain T u v where
    r: "tryProviders_v1 ?P hello JUndefined =
          (Fulfils T v, map (settled router_v1 hello JUndefined) ([?P ! 0] @ [?P ! 1]))"
    and v: "handler (?P ! 1) hello JUndefined = Fulfils u v"
    by blast
  from v together_pong have "v = JStr ''pong''" by simp
  with r a pr together_pong show ?thesis by auto
qed

text \<open>
  Claim C1 as stated fails in index.js. DeepInfra is invoked first and resolves,
  well within the timer, to the string of two spaces, which is not empty; the router
  does not return it, goes on to Together and returns \<open>pong\<close>.
\<close>

theorem blank_first_result_is_passed_over:
  "name (providers_v1 net_blank ! 0) = ''DeepInfra''
   \<and> handler (providers_v1 net_blank ! 0) hello JUndefined = Fulfils 21 (JStr ''  '')
   \<and> fst (tryProviders_v1 (providers_v1 net_blank) hello JUndefined) = Fulfils 52 (JStr ''pong'')
   \<and> map name (called (tryProviders_v1 (providers_v1 net_blank) hello JUndefined))
        = [''DeepInfra'', ''Together'']"
  using deepinfra_blank run_v1_blank by (simp add: providers_v1_def)

subsection \<open>Total failure\<close>

lemma attempts_all_fail_any:
  assumes "\<forall>p\<in>set ps. \<not> succeeds r messages model p \<and> \<not> hangs r messages model p"
  shows "\<exists>T errors'. attempts r ps messages model now errors =
           (Rejects T (failure r errors'), map (settled r messages model) ps)"
  using assms
proof (induction ps arbitrary: now errors)
  case Nil
  then show ?case by auto
next
  case (Cons p ps)
  from Cons.prems obtain t errors' where
    "attempts r (p # ps) messages model now errors =
       onward (settled r messages model p) (attempts r ps messages model (now + t) errors')"
    using attempts_skip_step [of r messages model p ps now errors] by auto
  moreover from Cons.IH [of "now + t" errors'] Cons.prems
  obtain T errors'' where
    "attempts r ps messages model (now + t) errors' =
       (Rejects T (failure r errors''), map (settled r messages model) ps)"
    by auto
  ultimately show ?case by auto
qed

lemma enabled_order:
  "(\<forall>p\<in>set (sort_by_priority (filter enabled providers)). P p)
     = (\<forall>p\<in>set providers. enabled p \<longrightarrow> P p)"
  by (auto simp: set_sort_by_priority)

lemma chat_v1_rejects:
  assumes "\<not> nullish body" "\<not> invalid_messages (field body ''messages'')"
    and "fst (tryProviders_v1 providers (elements (field body ''messages'')) (field body ''model''))
           = Rejects T e"
  shows "fst (chat_v1 rt providers body) =
           Some (json_reply 500
             (JObj [(''error'', JObj [(''message'', JStr e), (''type'', JStr ''api_error'')])]))"
  using assms unfolding chat_v1_def Let_def
  by (auto split: prod.splits promise.splits)

lemma chat_v2_rejects:
  assumes "\<not> nullish body" "\<not> invalid_messages (field body ''messages'')"
    and "fst (tryProviders_v2 providers (elements (field body ''messages'')) (field body ''model''))
           = Rejects T e"
  shows "fst (chat_v2 rt providers body) =
           Some (json_reply 500 (JObj [(''error'', JObj [(''message'', JStr e)])]))"
  using assms unfolding chat_v2_def Let_def
  by (auto split: prod.splits promise.splits)

lemma chat_v4_rejects:
  assumes "\<not> nullish body" "\<not> invalid_messages (field body ''messages'')"
    and "fst (tryProviders_v4 providers (elements (field body ''messages'')) (field body ''model''))
           = Rejects T e"
  shows "fst (chat_v4 rt providers body) =
           Some (json_reply 500
             (JObj [(''error'', JObj [(''message'', JStr (or_internal e)), (''type'', JStr ''api_error'')])]))"
  using assms unfolding chat_v4_def Let_def
  by (auto split: prod.splits promise.splits)

lemma or_internal_v4: "or_internal (failure router_v4 errors) = failure router_v4 errors"
  by (simp add: or_internal_def router_v4_def)

lemma v1_all_fail:
  assumes "\<forall>p\<in>set providers. enabled p \<longrightarrow> \<not> succeeds router_v1 messages model p"
  shows "\<exists>T. tryProviders_v1 providers messages model =
           (Rejects T (failure router_v1 (concat (map (complaint router_v1 messages model)
                                            (sort_by_priority (filter enabled providers))))),
            map (settled router_v1 messages model) (sort_by_priority (filter enabled providers)))"
proof -
  have t: "timer router_v1 = Some (30000, ''Timeout'')" by (simp add: router_v1_def)
  have "\<forall>p\<in>set (sort_by_priority (filter enabled providers)).
          \<not> succeeds router_v1 messages model p \<and> \<not> hangs router_v1 messages model p"
    using assms timed_never_hangs [OF t] by (simp add: set_sort_by_priority)
  from attempts_all_fail [OF this, of 0 "[]"] show ?thesis
    by (simp add: tryProviders_v1_def) (simp add: router_v1_def)
qed

lemma v4_all_fail:
  assumes "\<forall>p\<in>set providers. enabled p \<longrightarrow>
             \<not> succeeds router_v4 messages model p \<and> \<not> hangs router_v4 messages model p"
  shows "\<exists>T. tryProviders_v4 providers messages model =
           (Rejects T (failure router_v4 (concat (map (complaint router_v4 messages model)
                                            (sort_by_priority (filter enabled providers))))),
            map (settled router_v4 messages model) (sort_by_priority (filter enabled providers)))"
proof -
  have "\<forall>p\<in>set (sort_by_priority (filter enabled providers)).
          \<not> succeeds router_v4 messages model p \<and> \<not> hangs router_v4 messages model p"
    using assms by (simp add: set_sort_by_priority)
  from attempts_all_fail [OF this, of 0 "[]"] show ?thesis
    by (simp add: tryProviders_v4_def) (simp add: router_v4_def)
qed

lemma v2_all_fail:
  assumes "\<forall>p\<in>set providers. enabled p \<longrightarrow> \<not> succeeds router_v2 messages model p"
  shows "\<exists>T. tryProviders_v2 providers messages model =
           (Rejects T ''All providers failed'',
            map (settled router_v2 messages model) (sort_by_priority (filter enabled providers)))"
proof -
  have t: "timer router_v2 = Some (25000, ''Timeout'')" by (simp add: router_v2_def)
  have "\<forall>p\<in>set (sort_by_priority (filter enabled providers)).
          \<not> succeeds router_v2 messages model p \<and> \<not> hangs router_v2 messages model p"
    using assms timed_never_hangs [OF t] by (simp add: set_sort_by_priority)
  from attempts_all_fail_any [OF this, of 0 "[]"] show ?thesis
    by (simp add: tryProviders_v2_def) (simp add: router_v2_def)
qed


lemma complaint_v1:
  "complaint router_v1 messages model p =
     (case handler p messages model of
        Rejects t e \<Rightarrow> [name p @ '': '' @ (if t < 30000 then e else ''Timeout'')]
      | Pending \<Rightarrow> [name p @ '': '' @ ''Timeout'']
      | Fulfils t v \<Rightarrow>
          if t < 30000 then
            (case accepts_trimmed v of Threw e \<Rightarrow> [name p @ '': '' @ e] | Accepted \<Rightarrow> [] | Skipped \<Rightarrow> [])
          else [name p @ '': '' @ ''Timeout''])"
  by (simp add: complaint_def router_v1_def attempt_def race_def split: promise.splits)

lemma complaint_v4:
  "complaint router_v4 messages model p =
     (case handler p messages model of
        Rejects t e \<Rightarrow> [name p @ '': '' @ e]
      | Pending \<Rightarrow> []
      | Fulfils t v \<Rightarrow>
          (case accepts_trimmed v of Threw e \<Rightarrow> [name p @ '': '' @ e] | Accepted \<Rightarrow> [] | Skipped \<Rightarrow> []))"
  by (simp add: complaint_def router_v4_def attempt_def split: promise.splits)

text \<open>
  Claim C2, as amended. In the first variant of index.js and in the second program
  of part\_000, if every enabled provider attempt fails (its handler throws, times
  out where there is a timer, or resolves to a value the test rejects),
  \<open>tryProviders\<close> throws one error whose message states the number of collected
  errors and lists them, one line per throwing provider, \<open>name: message\<close>; a provider
  that resolved to an empty or blank result adds no line. The chat endpoint then
  answers status 500 with that message and type \<open>api_error\<close>. (In part\_000, where
  the handler is awaited without a timer, no attempt may hang.) In the second variant
  of index.js the message is the fixed text \<open>All providers failed\<close>, and the body of
  the 500 answer holds the message only.
\<close>

theorem failures_aggregated:
  "((\<forall>p\<in>set providers. enabled p \<longrightarrow> \<not> succeeds router_v1 messages model p) \<longrightarrow>
      (\<exists>T. fst (tryProviders_v1 providers messages model) =
         Rejects T (failure router_v1 (concat (map (complaint router_v1 messages model)
                                                 (sort_by_priority (filter enabled providers)))))))
   \<and> ((\<forall>p\<in>set providers. enabled p \<longrightarrow>
          \<not> succeeds router_v4 messages model p \<and> \<not> hangs router_v4 messages model p) \<longrightarrow>
      (\<exists>T. fst (tryProviders_v4 providers messages model) =
         Rejects T (failure router_v4 (concat (map (complaint router_v4 messages model)
                                                 (sort_by_priority (filter enabled providers)))))))
   \<and> (\<forall>errors. failure router_v1 errors =
         ''Todos os '' @ show_nat (length errors) @ '' providers falharam:'' @ newline
           @ join newline errors)
   \<and> (\<forall>errors. failure router_v4 errors =
         ''All '' @ show_nat (length errors) @ '' providers failed:'' @ newline
           @ join newline errors)
   \<and> (\<forall>p. complaint router_v1 messages model p =
         (case handler p messages model of
            Rejects t e \<Rightarrow> [name p @ '': '' @ (if t < 30000 then e else ''Timeout'')]
          | Pending \<Rightarrow> [name p @ '': '' @ ''Timeout'']
          | Fulfils t v \<Rightarrow>
              if t < 30000 then
                (case accepts_trimmed v of
                   Threw e \<Rightarrow> [name p @ '': '' @ e] | Accepted \<Rightarrow> [] | Skipped \<Rightarrow> [])
              else [name p @ '': '' @ ''Timeout'']))
   \<and> (\<forall>p. complaint router_v4 messages model p =
         (case handler p messages model of
            Rejects t e \<Rightarrow> [name p @ '': '' @ e]
          | Pending \<Rightarrow> []
          | Fulfils t v \<Rightarrow>
              (case accepts_trimmed v of
                 Threw e \<Rightarrow> [name p @ '': '' @ e] | Accepted \<Rightarrow> [] | Skipped \<Rightarrow> [])))
   \<and> (\<not> nullish body \<and> \<not> invalid_messages (field body ''messages'')
        \<and> (\<forall>p\<in>set providers. enabled p \<longrightarrow>
              \<not> succeeds router_v1 (elements (field body ''messages'')) (field body ''model'') p) \<longrightarrow>
        fst (chat_v1 rt providers body) =
          Some (json_reply 500
            (JObj [(''error'',
               JObj [(''message'',
                        JStr (failure router_v1
                          (concat (map (complaint router_v1 (elements (field body ''messages''))
                                          (field body ''model''))
                                     (sort_by_priority (filter enabled providers)))))),
                     (''type'', JStr ''api_error'')])])))
   \<and> (\<not> nullish body \<and> \<not> invalid_messages (field body ''messages'')
        \<and> (\<forall>p\<in>set providers. enabled p \<longrightarrow>
              \<not> succeeds router_v4 (elements (field body ''messages'')) (field body ''model'') p
              \<and> \<not> hangs router_v4 (elements (field body ''messages'')) (field body ''model'') p) \<longrightarrow>
        fst (chat_v4 rt providers body) =
          Some (json_reply 500
            (JObj [(''error'',
               JObj [(''message'',
                        JStr (failure router_v4
                          (concat (map (complaint router_v4 (elements (field body ''messages''))
                                          (field body ''model''))
                                     (sort_by_priority (filter enabled providers)))))),
                     (''type'', JStr ''api_error'')])])))
   \<and> ((\<forall>p\<in>set providers. enabled p \<longrightarrow> \<not> succeeds router_v2 messages model p) \<longrightarrow>
        (\<exists>T. fst (tryProviders_v2 providers messages model) = Rejects T ''All providers failed''))
   \<and> (\<not> nullish body \<and> \<not> invalid_messages (field body ''messages'')
        \<and> (\<forall>p\<in>set providers. enabled p \<longrightarrow>
              \<not> succeeds router_v2 (elements (field body ''messages'')) (field body ''model'') p) \<longrightarrow>
        fst (chat_v2 rt providers body) =
          Some (json_reply 500
            (JObj [(''error'', JObj [(''message'', JStr ''All providers failed'')])])))"
proof -
  have a1: "\<exists>T. fst (tryProviders_v1 providers m md) =
         Rejects T (failure router_v1 (concat (map (complaint router_v1 m md)
                                                 (sort_by_priority (filter enabled providers)))))"
    if "\<forall>p\<in>set providers. enabled p \<longrightarrow> \<not> succeeds router_v1 m md p" for m md
    using v1_all_fail [OF that] by force
  have a4: "\<exists>T. fst (tryProviders_v4 providers m md) =
         Rejects T (failure router_v4 (concat (map (complaint router_v4 m md)
                                                 (sort_by_priority (filter enabled providers)))))"
    if "\<forall>p\<in>set providers. enabled p \<longrightarrow>
          \<not> succeeds router_v4 m md p \<and> \<not> hangs router_v4 m md p" for m md
    using v4_all_fail [OF that] by force
  have a2: "\<exists>T. fst (tryProviders_v2 providers m md) = Rejects T ''All providers failed''"
    if "\<forall>p\<in>set providers. enabled p \<longrightarrow> \<not> succeeds router_v2 m md p" for m md
    using v2_all_fail [OF that] by force
  have f1: "failure router_v1 errors =
         ''Todos os '' @ show_nat (length errors) @ '' providers falharam:'' @ newline
           @ join newline errors" for errors
    by (simp add: router_v1_def)
  have f4: "failure router_v4 errors =
         ''All '' @ show_nat (length errors) @ '' providers failed:'' @ newline
           @ join newline errors" for errors
    by (simp add: router_v4_def)
  have c1: "fst (chat_v1 rt providers body) =
          Some (json_reply 500
            (JObj [(''error'',
               JObj [(''message'',
                        JStr (failure router_v1
                          (concat (map (complaint router_v1 (elements (field body ''messages''))
                                          (field body ''model''))
                                     (sort_by_priority (filter enabled providers)))))),
                     (''type'', JStr ''api_error'')])]))"
    if "\<not> nullish body" "\<not> invalid_messages (field body ''messages'')"
       "\<forall>p\<in>set providers. enabled p \<longrightarrow>
              \<not> succeeds router_v1 (elements (field body ''messages'')) (field body ''model'') p"
    using a1 [OF that(3)] chat_v1_rejects [OF that(1,2)] by auto
  have c4: "fst (chat_v4 rt providers body) =
          Some (json_reply 500
            (JObj [(''error'',
               JObj [(''message'',
                        JStr (failure router_v4
                          (concat (map (complaint router_v4 (elements (field body ''messages''))
                                          (field body ''model''))
                                     (sort_by_priority (filter enabled providers)))))),
                     (''type'', JStr ''api_error'')])]))"
    if "\<not> nullish body" "\<not> invalid_messages (field body ''messages'')"
       "\<forall>p\<in>set providers. enabled p \<longrightarrow>
              \<not> succeeds router_v4 (elements (field body ''messages'')) (field body ''model'') p
              \<and> \<not> hangs router_v4 (elements (field body ''messages'')) (field body ''model'') p"
    using a4 [OF that(3)] chat_v4_rejects [OF that(1,2)] or_internal_v4 by auto
  have c2: "fst (chat_v2 rt providers body) =
          Some (json_reply 500
            (JObj [(''error'', JObj [(''message'', JStr ''All providers failed'')])]))"
    if "\<not> nullish body" "\<not> invalid_messages (field body ''messages'')"
       "\<forall>p\<in>set providers. enabled p \<longrightarrow>
              \<not> succeeds router_v2 (elements (field body ''messages'')) (field body ''model'') p"
    using a2 [OF that(3)] chat_v2_rejects [OF that(1,2)] by auto
  show ?thesis
    using a1 a4 a2 f1 f4 c1 c4 c2 complaint_v1 complaint_v4 by blast
qed


lemmas handler_defs =
  chat_handler_def chat_handler_strict_def together_handler_def huggingFace_handler_def
  cohere_handler_def phind_handler_def text_handler_def post_json_def post_text_def
  await_def delay_def throw_def return_def reads_each_def reads_last_def

lemma hello_body_fields:
  "\<not> nullish hello_body" "\<not> invalid_messages (field hello_body ''messages'')"
  "elements (field hello_body ''messages'') = hello" "field hello_body ''model'' = JUndefined"
  by (simp_all add: hello_body_def invalid_messages_def hello_def)

lemma handlers_down_v1:
  "\<forall>p\<in>set (providers_v1 net_down). handler p hello JUndefined = Rejects 10 ''fetch failed''"
  by (simp add: providers_v1_def net_down_def handler_defs hello_def)

lemma order_v2: "sort_by_priority (filter enabled (providers_v2 net)) = providers_v2 net"
  by (simp add: providers_v2_def sort_by_priority_def priority_le_def)

lemma run_v2_down:
  "fst (tryProviders_v2 (providers_v2 net_down) hello JUndefined) = Rejects 70 ''All providers failed''
   \<and> map snd (snd (tryProviders_v2 (providers_v2 net_down) hello JUndefined))
        = [Rejects 10 ''fetch failed'', Rejects 10 ''fetch failed'', Rejects 10 ''fetch failed'',
           Rejects 10 ''fetch failed'', Rejects 10 ''fetch failed'', Rejects 10 ''fetch failed'',
           Rejects 10 ''fetch failed'']"
  by (simp add: tryProviders_v2_def order_v2)
     (simp add: providers_v2_def net_down_def handler_defs hello_def router_v2_def attempt_def
        race_def caught_def)

lemma show_seven: "show_nat (length [a, b, c, d, e, f, g]) = ''7''"
proof -
  have l: "length [a, b, c, d, e, f, g] = 7" by simp
  have "show_nat 7 = ''7''" by (simp add: show_nat.simps)
  then show ?thesis by (simp only: l)
qed

text \<open>With every fetch failing, index.js answers 500 and names its seven providers.\<close>

theorem failures_aggregated_witness:
  "fst (chat_v1 rt0 (providers_v1 net_down) hello_body) =
     Some (json_reply 500
       (JObj [(''error'',
          JObj [(''message'',
                   JStr (''Todos os 7 providers falharam:'' @ newline
                     @ ''DeepInfra: fetch failed'' @ newline
                     @ ''Together: fetch failed'' @ newline
                     @ ''HuggingFace: fetch failed'' @ newline
                     @ ''Groq: fetch failed'' @ newline
                     @ ''Phind: fetch failed'' @ newline
                     @ ''Blackbox: fetch failed'' @ newline
                     @ ''Cohere: fetch failed'')),
                (''type'', JStr ''api_error'')])]))"
proof -
  let ?P = "providers_v1 net_down"
  have fail: "\<forall>p\<in>set ?P. enabled p \<longrightarrow>
      \<not> succeeds router_v1 (elements (field hello_body ''messages'')) (field hello_body ''model'') p"
    using handlers_down_v1 by (simp add: succeeds_v1 hello_body_fields)
  have errs: "concat (map (complaint router_v1 hello JUndefined) (sort_by_priority (filter enabled ?P)))
      = [''DeepInfra: fetch failed'', ''Together: fetch failed'', ''HuggingFace: fetch failed'',
         ''Groq: fetch failed'', ''Phind: fetch failed'', ''Blackbox: fetch failed'',
         ''Cohere: fetch failed'']"
    by (simp add: order_v1)
       (simp add: providers_v1_def net_down_def handler_defs hello_def complaint_v1)
  note t = failures_aggregated [where providers = ?P and body = hello_body and rt = rt0
      and messages = hello and model = JUndefined]
  from t fail hello_body_fields(1,2)
  have "fst (chat_v1 rt0 ?P hello_body) =
          Some (json_reply 500
            (JObj [(''error'',
               JObj [(''message'',
                        JStr (failure router_v1
                          (concat (map (complaint router_v1 (elements (field hello_body ''messages''))
                                          (field hello_body ''model''))
                                     (sort_by_priority (filter enabled ?P)))))),
                     (''type'', JStr ''api_error'')])]))"
    by blast
  moreover have "failure router_v1
      [''DeepInfra: fetch failed'', ''Together: fetch failed'', ''HuggingFace: fetch failed'',
       ''Groq: fetch failed'', ''Phind: fetch failed'', ''Blackbox: fetch failed'',
       ''Cohere: fetch failed''] =
       ''Todos os 7 providers falharam:'' @ newline
                     @ ''DeepInfra: fetch failed'' @ newline
                     @ ''Together: fetch failed'' @ newline
                     @ ''HuggingFace: fetch failed'' @ newline
                     @ ''Groq: fetch failed'' @ newline
                     @ ''Phind: fetch failed'' @ newline
                     @ ''Blackbox: fetch failed'' @ newline
                     @ ''Cohere: fetch failed''"
    unfolding router_v1_def by (simp add: show_seven del: length_Cons list.size)
  ultimately show ?thesis
    by (simp only: hello_body_fields errs)
qed

text \<open>
  Claim C2 as stated fails in the second variant of index.js (lines 489 to 510 and
  545 to 547, which the claim cites): with every fetch failing, seven handlers throw,
  the error thrown has no count and names no provider, and the 500 body has no type.
\<close>

theorem second_variant_reports_no_failures:
  "fst (tryProviders_v2 (providers_v2 net_down) hello JUndefined) = Rejects 70 ''All providers failed''
   \<and> map snd (snd (tryProviders_v2 (providers_v2 net_down) hello JUndefined))
        = [Rejects 10 ''fetch failed'', Rejects 10 ''fetch failed'', Rejects 10 ''fetch failed'',
           Rejects 10 ''fetch failed'', Rejects 10 ''fetch failed'', Rejects 10 ''fetch failed'',
           Rejects 10 ''fetch failed'']
   \<and> fst (chat_v2 rt0 (providers_v2 net_down) hello_body) =
        Some (json_reply 500 (JObj [(''error'', JObj [(''message'', JStr ''All providers failed'')])]))"
proof -
  have "fst (chat_v2 rt0 (providers_v2 net_down) hello_body) =
        Some (json_reply 500 (JObj [(''error'', JObj [(''message'', JStr ''All providers failed'')])]))"
    using chat_v2_rejects [OF hello_body_fields(1,2), of "providers_v2 net_down" 70 "''All providers failed''" rt0]
       run_v2_down by (simp add: hello_body_fields)
  with run_v2_down show ?thesis by blast
qed

subsection \<open>What is returned\<close>

lemma accepts_trimmed_iff:
  "(accepts_trimmed v = Accepted) = (\<exists>s. v = JStr s \<and> trim s \<noteq> [])"
  by (cases v) (auto simp: accepts_trimmed_def)

lemma accepts_length_iff:
  "(accepts_length rt v = Accepted) =
     (truthy v \<and> (\<exists>n. number_of rt (field v ''length'') = Some n \<and> n > 0))"
  by (auto simp: accepts_length_def split: option.splits)

lemma accepts_length_empty: "accepts_length rt (JStr []) = Skipped"
  by (simp add: accepts_length_def)

lemma accepts_trimmed_empty: "accepts_trimmed (JStr []) = Skipped"
  by (simp add: accepts_trimmed_def)

lemma skip_step:
  assumes "attempt r (handler p messages model) = Fulfils t v" "verdict_of r v = Skipped"
  shows "attempts r (p # ps) messages model now errors =
           onward (p, Fulfils t v) (attempts r ps messages model (now + t) errors)"
  using assms by simp

lemma accept_step:
  assumes "attempt r (handler p messages model) = Fulfils t v" "verdict_of r v = Accepted"
  shows "attempts r (p # ps) messages model now errors = (Fulfils (now + t) v, [(p, Fulfils t v)])"
  using assms by simp

text \<open>
  Claim C3, as amended. In the four prioritised variants \<open>tryProviders\<close> returns a
  value only when that value passed the success test: a string that is not empty after
  \<open>trim()\<close> (both variants of index.js, second program of part\_000), or a truthy
  value whose \<open>length\<close> is greater than 0 (first program of part\_000); the value
  returned is never the empty string. In these variants an attempt whose handler
  resolves to the empty string is not returned: the loop goes on with the next
  provider, and no error is recorded for it. The shuffled variant of part\_001 has no
  such test: the first value a handler resolves to in time is returned, whatever it is.
\<close>

theorem returned_value_passed_the_test:
  "(\<forall>T v. fst (tryProviders_v1 providers messages model) = Fulfils T v
        \<longrightarrow> (\<exists>s. v = JStr s \<and> trim s \<noteq> []) \<and> v \<noteq> JStr [])
   \<and> (\<forall>T v. fst (tryProviders_v2 providers messages model) = Fulfils T v
        \<longrightarrow> (\<exists>s. v = JStr s \<and> trim s \<noteq> []) \<and> v \<noteq> JStr [])
   \<and> (\<forall>T v. fst (tryProviders_v3 rt providers messages model) = Fulfils T v
        \<longrightarrow> truthy v \<and> (\<exists>n. number_of rt (field v ''length'') = Some n \<and> n > 0) \<and> v \<noteq> JStr [])
   \<and> (\<forall>T v. fst (tryProviders_v4 providers messages model) = Fulfils T v
        \<longrightarrow> (\<exists>s. v = JStr s \<and> trim s \<noteq> []) \<and> v \<noteq> JStr [])
   \<and> (\<forall>r p ps t now errors.
         r \<in> {router_v1, router_v2, router_v3 rt, router_v4}
         \<and> attempt r (handler p messages model) = Fulfils t (JStr [])
        \<longrightarrow> attempts r (p # ps) messages model now errors =
              onward (p, Fulfils t (JStr [])) (attempts r ps messages model (now + t) errors))
   \<and> (\<forall>p ps t v now errors.
         attempt router_v5 (handler p messages model) = Fulfils t v
        \<longrightarrow> attempts router_v5 (p # ps) messages model now errors =
              (Fulfils (now + t) v, [(p, Fulfils t v)]))"
proof -
  have r1: "(\<exists>s. v = JStr s \<and> trim s \<noteq> []) \<and> v \<noteq> JStr []"
    if "fst (tryProviders_v1 providers messages model) = Fulfils T v" for T v
  proof -
    from that have "verdict_of router_v1 v = Accepted"
      unfolding tryProviders_v1_def by (rule attempts_returns_accepted)
    then show ?thesis by (auto simp: router_v1_def accepts_trimmed_iff)
  qed
  have r2: "(\<exists>s. v = JStr s \<and> trim s \<noteq> []) \<and> v \<noteq> JStr []"
    if "fst (tryProviders_v2 providers messages model) = Fulfils T v" for T v
  proof -
    from that have "verdict_of router_v2 v = Accepted"
      unfolding tryProviders_v2_def by (rule attempts_returns_accepted)
    then show ?thesis by (auto simp: router_v2_def accepts_trimmed_iff)
  qed
  have r3: "truthy v \<and> (\<exists>n. number_of rt (field v ''length'') = Some n \<and> n > 0) \<and> v \<noteq> JStr []"
    if "fst (tryProviders_v3 rt providers messages model) = Fulfils T v" for T v
  proof -
    from that have "verdict_of (router_v3 rt) v = Accepted"
      unfolding tryProviders_v3_def by (rule attempts_returns_accepted)
    then show ?thesis by (auto simp: router_v3_def accepts_length_iff)
  qed
  have r4: "(\<exists>s. v = JStr s \<and> trim s \<noteq> []) \<and> v \<noteq> JStr []"
    if "fst (tryProviders_v4 providers messages model) = Fulfils T v" for T v
  proof -
    from that have "verdict_of router_v4 v = Accepted"
      unfolding tryProviders_v4_def by (rule attempts_returns_accepted)
    then show ?thesis by (auto simp: router_v4_def accepts_trimmed_iff)
  qed
  have sk: "verdict_of r (JStr []) = Skipped"
    if "r \<in> {router_v1, router_v2, router_v3 rt, router_v4}" for r
    using that
    by (auto simp: router_v1_def router_v2_def router_v3_def router_v4_def
          accepts_trimmed_empty accepts_length_empty)
  have e: "attempts r (p # ps) messages model now errors =
              onward (p, Fulfils t (JStr [])) (attempts r ps messages model (now + t) errors)"
    if "r \<in> {router_v1, router_v2, router_v3 rt, router_v4}"
       "attempt r (handler p messages model) = Fulfils t (JStr [])" for r p ps t now errors
    using skip_step [OF that(2) sk [OF that(1)]] .
  have a5: "verdict_of router_v5 v = Accepted" for v
    by (simp add: router_v5_def accepts_all_def)
  have f: "attempts router_v5 (p # ps) messages model now errors =
              (Fulfils (now + t) v, [(p, Fulfils t v)])"
    if "attempt router_v5 (handler p messages model) = Fulfils t v" for p ps t v now errors
    using accept_step [OF that a5] .
  have p1: "\<forall>T v. fst (tryProviders_v1 providers messages model) = Fulfils T v
        \<longrightarrow> (\<exists>s. v = JStr s \<and> trim s \<noteq> []) \<and> v \<noteq> JStr []"
    using r1 by blast
  have p2: "\<forall>T v. fst (tryProviders_v2 providers messages model) = Fulfils T v
        \<longrightarrow> (\<exists>s. v = JStr s \<and> trim s \<noteq> []) \<and> v \<noteq> JStr []"
    using r2 by blast
  have p3: "\<forall>T v. fst (tryProviders_v3 rt providers messages model) = Fulfils T v
        \<longrightarrow> truthy v \<and> (\<exists>n. number_of rt (field v ''length'') = Some n \<and> n > 0) \<and> v \<noteq> JStr []"
    using r3 by blast
  have p4: "\<forall>T v. fst (tryProviders_v4 providers messages model) = Fulfils T v
        \<longrightarrow> (\<exists>s. v = JStr s \<and> trim s \<noteq> []) \<and> v \<noteq> JStr []"
    using r4 by blast
  have p5: "\<forall>r p ps t now errors.
         r \<in> {router_v1, router_v2, router_v3 rt, router_v4}
         \<and> attempt r (handler p messages model) = Fulfils t (JStr [])
        \<longrightarrow> attempts r (p # ps) messages model now errors =
              onward (p, Fulfils t (JStr [])) (attempts r ps messages model (now + t) errors)"
    using e by blast
  have p6: "\<forall>p ps t v now errors.
         attempt router_v5 (handler p messages model) = Fulfils t v
        \<longrightarrow> attempts router_v5 (p # ps) messages model now errors =
              (Fulfils (now + t) v, [(p, Fulfils t v)])"
    using f by blast
  show ?thesis
    using p1 p2 p3 p4 p5 p6 by (intro conjI) assumption+
qed

lemma order_v5_id: "filter enabled (providers_v5 rt net) = providers_v5 rt net"
  by (simp add: providers_v5_def)

lemmas v5_defs = phind_v5_def deepInfra_v5_def blackbox_v5_def ddg_v5_def rethrow_def

lemma run_v1_quiet:
  "tryProviders_v1 (providers_v1 net_quiet) hello JUndefined =
     (Fulfils 87 (JStr ''hi''),
      map (settled router_v1 hello JUndefined) (providers_v1 net_quiet))"
  by (simp add: tryProviders_v1_def order_v1)
     (simp add: providers_v1_def net_quiet_def handler_defs hello_def router_v1_def attempt_def
        race_def caught_def ok_text_def ok_json_def accepts_trimmed_def trim_def is_space_def
        generations_text_def member_def opt_member_def opt_item_def js_or_def settled_def)

lemma blackbox_quiet_v1:
  "attempt router_v1 (handler (providers_v1 net_quiet ! 5) hello JUndefined) = Fulfils 16 (JStr [])"
  by (simp add: providers_v1_def net_quiet_def handler_defs hello_def router_v1_def attempt_def
        race_def ok_text_def)

lemma run_v5_quiet:
  "fst (tryProviders_v5 (\<lambda>xs. xs) (providers_v5 rt0 net_quiet) hello JUndefined) = Fulfils 46 (JStr [])
   \<and> map name (called (tryProviders_v5 (\<lambda>xs. xs) (providers_v5 rt0 net_quiet) hello JUndefined))
        = [''Phind'', ''DeepInfra'', ''DuckDuckGo'', ''Blackbox'']
   \<and> fst (tryProviders_v5 rev (providers_v5 rt0 net_quiet) hello JUndefined) = Fulfils 16 (JStr [])
   \<and> map name (called (tryProviders_v5 rev (providers_v5 rt0 net_quiet) hello JUndefined))
        = [''Blackbox'']"
  by (simp add: tryProviders_v5_def order_v5_id called_def)
     (simp add: providers_v5_def net_quiet_def handler_defs v5_defs hello_def router_v5_def
        attempt_def race_def caught_def ok_text_def accepts_all_def)


text \<open>
  In index.js, with Blackbox answering an empty text: the empty result of the sixth
  attempt is passed over, and the answer of Cohere is returned.
\<close>

theorem returned_value_passed_the_test_witness:
  "fst (tryProviders_v1 (providers_v1 net_quiet) hello JUndefined) = Fulfils 87 (JStr ''hi'')
   \<and> (\<exists>s. JStr ''hi'' = JStr s \<and> trim s \<noteq> [])
   \<and> name (providers_v1 net_quiet ! 5) = ''Blackbox''
   \<and> attempt router_v1 (handler (providers_v1 net_quiet ! 5) hello JUndefined) = Fulfils 16 (JStr [])
   \<and> attempts router_v1 [providers_v1 net_quiet ! 5, providers_v1 net_quiet ! 6] hello JUndefined 50 []
       = onward (providers_v1 net_quiet ! 5, Fulfils 16 (JStr []))
           (attempts router_v1 [providers_v1 net_quiet ! 6] hello JUndefined (50 + 16) [])"
proof -
  let ?P = "providers_v1 net_quiet"
  note t = returned_value_passed_the_test
    [where providers = ?P and messages = hello and model = JUndefined and rt = rt0]
  note t1 = t [THEN conjunct1]
  note t5 = t [THEN conjunct2, THEN conjunct2, THEN conjunct2, THEN conjunct2, THEN conjunct1]
  have run: "fst (tryProviders_v1 ?P hello JUndefined) = Fulfils 87 (JStr ''hi'')"
    by (simp add: run_v1_quiet)
  from t1 [rule_format, OF run] have a: "\<exists>s. JStr ''hi'' = JStr s \<and> trim s \<noteq> []"
    by (rule conjunct1)
  have m: "router_v1 \<in> {router_v1, router_v2, router_v3 rt0, router_v4}" by simp
  have b: "attempts router_v1 [?P ! 5, ?P ! 6] hello JUndefined 50 []
       = onward (?P ! 5, Fulfils 16 (JStr []))
           (attempts router_v1 [?P ! 6] hello JUndefined (50 + 16) [])"
    by (rule t5 [rule_format, OF conjI [OF m blackbox_quiet_v1]])
  have n: "name (?P ! 5) = ''Blackbox''" by (simp add: providers_v1_def)
  show ?thesis
    by (intro conjI) (rule run, rule a, rule n, rule blackbox_quiet_v1, rule b)
qed

text \<open>
  Claim C3 as stated fails in the shuffled variant. With Blackbox answering an empty
  text and every other fetch failing, \<open>tryProviders\<close> of part\_001 returns the empty
  string: after three failures when the order is that of the registry, at once when
  Blackbox comes first.
\<close>

theorem shuffled_variant_returns_empty_string:
  "fst (tryProviders_v5 (\<lambda>xs. xs) (providers_v5 rt0 net_quiet) hello JUndefined) = Fulfils 46 (JStr [])
   \<and> map name (called (tryProviders_v5 (\<lambda>xs. xs) (providers_v5 rt0 net_quiet) hello JUndefined))
        = [''Phind'', ''DeepInfra'', ''DuckDuckGo'', ''Blackbox'']
   \<and> fst (tryProviders_v5 rev (providers_v5 rt0 net_quiet) hello JUndefined) = Fulfils 16 (JStr [])
   \<and> map name (called (tryProviders_v5 rev (providers_v5 rt0 net_quiet) hello JUndefined))
        = [''Blackbox'']"
  by (rule run_v5_quiet)

subsection \<open>The timer\<close>

lemma race_settles: "settles_by ms (race ms msg h)"
  by (simp add: settles_by_def race_def split: promise.splits)

lemma race_overdue: "overdue ms h \<Longrightarrow> race ms msg h = Rejects ms msg"
  by (auto simp: overdue_def race_def split: promise.splits)

lemma raced_calls_settle:
  assumes "timer r = Some (ms, msg)"
  shows "\<forall>c\<in>set (snd (attempts r ps messages model now errors)). settles_by ms (snd c)"
proof
  fix c assume "c \<in> set (snd (attempts r ps messages model now errors))"
  then have "c \<in> set (map (settled r messages model)
                 (take (length (snd (attempts r ps messages model now errors))) ps))"
    using calls_settled [of r ps messages model now errors] by simp
  then obtain p where "c = settled r messages model p" by auto
  then have "snd c = race ms msg (handler p messages model)"
    using assms by (simp add: settled_def attempt_def)
  then show "settles_by ms (snd c)" by (simp add: race_settles)
qed

lemma overdue_step:
  assumes "timer r = Some (ms, msg)" "overdue ms (handler p messages model)"
  shows "attempts r (p # ps) messages model now errors =
           onward (p, Rejects ms msg) (attempts r ps messages model (now + ms) (caught r errors p msg))"
  using assms by (simp add: attempt_def race_overdue)

lemma fetch_settles: "settles_by timeout (fetchWithTimeout net url timeout)"
  by (simp add: settles_by_def fetchWithTimeout_def split: promise.splits)

text \<open>
  Claim C4, as amended. In the variants that race the handler (both variants of
  index.js, the first program of part\_000, and part\_001) every provider attempt is
  the handler call raced against a rejection that fires after the fixed delay of the
  variant (30000 ms; 25000 ms in the second variant of index.js): every call the
  router makes settles within that delay, a handler that has not settled when the
  timer fires counts as that provider's failure (\<open>Timeout\<close>, or \<open>Timeout after 30s\<close>),
  and the loop goes on with the next provider. The second program of part\_000 does
  not race: it awaits the handler; \<open>fetchWithTimeout\<close> bounds each fetch by 30000 ms,
  not the handler, and a handler that never settles stops the loop for good.
\<close>

theorem attempts_bounded_by_timer:
  "(\<forall>c\<in>set (snd (tryProviders_v1 providers messages model)). settles_by 30000 (snd c))
   \<and> (\<forall>c\<in>set (snd (tryProviders_v2 providers messages model)). settles_by 25000 (snd c))
   \<and> (\<forall>c\<in>set (snd (tryProviders_v3 rt providers messages model)). settles_by 30000 (snd c))
   \<and> (\<forall>c\<in>set (snd (tryProviders_v5 shuffle providers messages model)). settles_by 30000 (snd c))
   \<and> (\<forall>h. attempt router_v1 h = race 30000 ''Timeout'' h)
   \<and> (\<forall>h. attempt router_v2 h = race 25000 ''Timeout'' h)
   \<and> (\<forall>h. attempt (router_v3 rt) h = race 30000 ''Timeout after 30s'' h)
   \<and> (\<forall>h. attempt router_v5 h = race 30000 ''Timeout'' h)
   \<and> (\<forall>p ps now errors. overdue 30000 (handler p messages model) \<longrightarrow>
         attempts router_v1 (p # ps) messages model now errors =
           onward (p, Rejects 30000 ''Timeout'')
             (attempts router_v1 ps messages model (now + 30000) (errors @ [name p @ '': '' @ ''Timeout''])))
   \<and> (\<forall>p ps now errors. overdue 25000 (handler p messages model) \<longrightarrow>
         attempts router_v2 (p # ps) messages model now errors =
           onward (p, Rejects 25000 ''Timeout'')
             (attempts router_v2 ps messages model (now + 25000) errors))
   \<and> (\<forall>p ps now errors. overdue 30000 (handler p messages model) \<longrightarrow>
         attempts (router_v3 rt) (p # ps) messages model now errors =
           onward (p, Rejects 30000 ''Timeout after 30s'')
             (attempts (router_v3 rt) ps messages model (now + 30000)
                (errors @ [name p @ '': '' @ ''Timeout after 30s''])))
   \<and> (\<forall>p ps now errors. overdue 30000 (handler p messages model) \<longrightarrow>
         attempts router_v5 (p # ps) messages model now errors =
           onward (p, Rejects 30000 ''Timeout'')
             (attempts router_v5 ps messages model (now + 30000) (errors @ [name p @ '': '' @ ''Timeout''])))
   \<and> (\<forall>h. attempt router_v4 h = h)
   \<and> (\<forall>p ps now errors. handler p messages model = Pending \<longrightarrow>
         attempts router_v4 (p # ps) messages model now errors = (Pending, [(p, Pending)]))
   \<and> (\<forall>net url. settles_by 30000 (fetchWithTimeout net url 30000))"
proof -
  have t1: "timer router_v1 = Some (30000, ''Timeout'')" by (simp add: router_v1_def)
  have t2: "timer router_v2 = Some (25000, ''Timeout'')" by (simp add: router_v2_def)
  have t3: "timer (router_v3 rt) = Some (30000, ''Timeout after 30s'')" by (simp add: router_v3_def)
  have t5: "timer router_v5 = Some (30000, ''Timeout'')" by (simp add: router_v5_def)
  have b1: "\<forall>c\<in>set (snd (tryProviders_v1 providers messages model)). settles_by 30000 (snd c)"
    unfolding tryProviders_v1_def by (rule raced_calls_settle [OF t1])
  have b2: "\<forall>c\<in>set (snd (tryProviders_v2 providers messages model)). settles_by 25000 (snd c)"
    unfolding tryProviders_v2_def by (rule raced_calls_settle [OF t2])
  have b3: "\<forall>c\<in>set (snd (tryProviders_v3 rt providers messages model)). settles_by 30000 (snd c)"
    unfolding tryProviders_v3_def by (rule raced_calls_settle [OF t3])
  have b5: "\<forall>c\<in>set (snd (tryProviders_v5 shuffle providers messages model)). settles_by 30000 (snd c)"
    unfolding tryProviders_v5_def by (rule raced_calls_settle [OF t5])
  have r1: "\<forall>h. attempt router_v1 h = race 30000 ''Timeout'' h"
    by (simp add: attempt_def router_v1_def)
  have r2: "\<forall>h. attempt router_v2 h = race 25000 ''Timeout'' h"
    by (simp add: attempt_def router_v2_def)
  have r3: "\<forall>h. attempt (router_v3 rt) h = race 30000 ''Timeout after 30s'' h"
    by (simp add: attempt_def router_v3_def)
  have r5: "\<forall>h. attempt router_v5 h = race 30000 ''Timeout'' h"
    by (simp add: attempt_def router_v5_def)
  have o1: "\<forall>p ps now errors. overdue 30000 (handler p messages model) \<longrightarrow>
         attempts router_v1 (p # ps) messages model now errors =
           onward (p, Rejects 30000 ''Timeout'')
             (attempts router_v1 ps messages model (now + 30000) (errors @ [name p @ '': '' @ ''Timeout'']))"
    using overdue_step [OF t1] by (simp add: caught_def router_v1_def)
  have o2: "\<forall>p ps now errors. overdue 25000 (handler p messages model) \<longrightarrow>
         attempts router_v2 (p # ps) messages model now errors =
           onward (p, Rejects 25000 ''Timeout'')
             (attempts router_v2 ps messages model (now + 25000) errors)"
    using overdue_step [OF t2] by (simp add: caught_def router_v2_def)
  have o3: "\<forall>p ps now errors. overdue 30000 (handler p messages model) \<longrightarrow>
         attempts (router_v3 rt) (p # ps) messages model now errors =
           onward (p, Rejects 30000 ''Timeout after 30s'')
             (attempts (router_v3 rt) ps messages model (now + 30000)
                (errors @ [name p @ '': '' @ ''Timeout after 30s'']))"
    using overdue_step [OF t3] by (simp add: caught_def router_v3_def)
  have o5: "\<forall>p ps now errors. overdue 30000 (handler p messages model) \<longrightarrow>
         attempts router_v5 (p # ps) messages model now errors =
           onward (p, Rejects 30000 ''Timeout'')
             (attempts router_v5 ps messages model (now + 30000) (errors @ [name p @ '': '' @ ''Timeout'']))"
    using overdue_step [OF t5] by (simp add: caught_def router_v5_def)
  have a4: "\<forall>h. attempt router_v4 h = h"
    by (simp add: attempt_def router_v4_def)
  have h4: "\<forall>p ps now errors. handler p messages model = Pending \<longrightarrow>
         attempts router_v4 (p # ps) messages model now errors = (Pending, [(p, Pending)])"
    by (simp add: attempt_def router_v4_def)
  have fw: "\<forall>net url. settles_by 30000 (fetchWithTimeout net url 30000)"
    by (simp add: fetch_settles)
  show ?thesis
    using b1 b2 b3 b5 r1 r2 r3 r5 o1 o2 o3 o5 a4 h4 fw by (intro conjI) assumption+
qed


lemma order_v4: "sort_by_priority (filter enabled (providers_v4 net)) = providers_v4 net"
  by (simp add: providers_v4_def sort_by_priority_def priority_le_def)

lemmas json_defs = ok_json_def ok_text_def chat_body_def chat_content_def chat_content_strict_def
  member_def item_def opt_member_def opt_item_def js_or_def

lemma deepinfra_slow_v1:
  "handler (providers_v1 net_slow ! 0) hello JUndefined = Fulfils 60020 (JStr ''late'')"
  by (simp add: providers_v1_def net_slow_def handler_defs json_defs)

lemma run_v1_slow:
  "tryProviders_v1 (providers_v1 net_slow) hello JUndefined =
     (Fulfils 30031 (JStr ''pong''),
      [(providers_v1 net_slow ! 0, Rejects 30000 ''Timeout''),
       (providers_v1 net_slow ! 1, Fulfils 31 (JStr ''pong''))])"
  by (simp add: tryProviders_v1_def order_v1)
     (simp add: providers_v1_def net_slow_def handler_defs json_defs router_v1_def attempt_def
        race_def caught_def accepts_trimmed_def trim_def is_space_def)

lemma run_v4_slow:
  "tryProviders_v4 (providers_v4 net_slow) hello JUndefined =
     (Fulfils 60020 (JStr ''late''), [(providers_v4 net_slow ! 0, Fulfils 60020 (JStr ''late''))])"
  by (simp add: tryProviders_v4_def order_v4)
     (simp add: providers_v4_def net_slow_def fetchWithTimeout_def handler_defs json_defs
        router_v4_def attempt_def accepts_trimmed_def trim_def is_space_def)

lemma run_v4_stall:
  "tryProviders_v4 (providers_v4 net_stall) hello JUndefined =
     (Pending, [(providers_v4 net_stall ! 0, Pending)])"
  by (simp add: tryProviders_v4_def order_v4)
     (simp add: providers_v4_def net_stall_def fetchWithTimeout_def handler_defs json_defs
        router_v4_def attempt_def)

lemma chat_v4_stall: "fst (chat_v4 rt0 (providers_v4 net_stall) hello_body) = None"
  unfolding chat_v4_def Let_def
  by (simp add: hello_body_fields run_v4_stall)

text \<open>
  In index.js, a DeepInfra body that takes a minute is cut off at 30000 ms, recorded as
  \<open>DeepInfra: Timeout\<close>, and Together answers.
\<close>

theorem attempts_bounded_by_timer_witness:
  "overdue 30000 (handler (providers_v1 net_slow ! 0) hello JUndefined)
   \<and> name (providers_v1 net_slow ! 0) = ''DeepInfra''
   \<and> attempts router_v1 [providers_v1 net_slow ! 0, providers_v1 net_slow ! 1] hello JUndefined 0 [] =
       onward (providers_v1 net_slow ! 0, Rejects 30000 ''Timeout'')
         (attempts router_v1 [providers_v1 net_slow ! 1] hello JUndefined (0 + 30000)
            ([] @ [name (providers_v1 net_slow ! 0) @ '': '' @ ''Timeout'']))
   \<and> settles_by 30000 (snd (providers_v1 net_slow ! 0, Rejects 30000 ''Timeout'' :: jsval promise))
   \<and> tryProviders_v1 (providers_v1 net_slow) hello JUndefined =
       (Fulfils 30031 (JStr ''pong''),
        [(providers_v1 net_slow ! 0, Rejects 30000 ''Timeout''),
         (providers_v1 net_slow ! 1, Fulfils 31 (JStr ''pong''))])"
proof -
  let ?P = "providers_v1 net_slow"
  note t = attempts_bounded_by_timer
    [where providers = ?P and messages = hello and model = JUndefined and rt = rt0 and shuffle = rev]
  note b1 = t [THEN conjunct1]
  note o1 = t [THEN conjunct2, THEN conjunct2, THEN conjunct2, THEN conjunct2,
               THEN conjunct2, THEN conjunct2, THEN conjunct2, THEN conjunct2, THEN conjunct1]
  have od: "overdue 30000 (handler (?P ! 0) hello JUndefined)"
    by (simp add: deepinfra_slow_v1 overdue_def)
  have n: "name (?P ! 0) = ''DeepInfra''" by (simp add: providers_v1_def)
  have mem: "(?P ! 0, Rejects 30000 ''Timeout'') \<in> set (snd (tryProviders_v1 ?P hello JUndefined))"
    by (simp add: run_v1_slow)
  have s: "settles_by 30000 (snd (?P ! 0, Rejects 30000 ''Timeout'' :: jsval promise))"
    by (rule b1 [rule_format, OF mem])
  have st: "attempts router_v1 [?P ! 0, ?P ! 1] hello JUndefined 0 [] =
       onward (?P ! 0, Rejects 30000 ''Timeout'')
         (attempts router_v1 [?P ! 1] hello JUndefined (0 + 30000)
            ([] @ [name (?P ! 0) @ '': '' @ ''Timeout'']))"
    by (rule o1 [rule_format, OF od])
  show ?thesis
    by (intro conjI) (rule od, rule n, rule st, rule s, rule run_v1_slow)
qed

text \<open>
  Claim C4 as stated fails in the second program of part\_000 (lines 1084 to 1098,
  which the claim cites): there the same slow body is awaited for 60020 ms and returned,
  and with a body that never arrives \<open>tryProviders\<close> never settles, Together is never
  tried and the endpoint never replies.
\<close>

theorem awaited_handler_outlasts_the_timeout:
  "tryProviders_v4 (providers_v4 net_slow) hello JUndefined =
     (Fulfils 60020 (JStr ''late''), [(providers_v4 net_slow ! 0, Fulfils 60020 (JStr ''late''))])
   \<and> \<not> settles_by 30000 (Fulfils 60020 (JStr ''late''))
   \<and> tryProviders_v4 (providers_v4 net_stall) hello JUndefined =
       (Pending, [(providers_v4 net_stall ! 0, Pending)])
   \<and> fst (chat_v4 rt0 (providers_v4 net_stall) hello_body) = None
   \<and> name (providers_v4 net_stall ! 0) = ''DeepInfra''"
  using run_v4_slow run_v4_stall chat_v4_stall
  by (simp add: settles_by_def) (simp add: providers_v4_def)

subsection \<open>The replies of the chat endpoint\<close>

lemma truthy_stream_default:
  "truthy (case v of JUndefined \<Rightarrow> JBool False | w \<Rightarrow> w) = truthy v"
  by (cases v) simp_all

lemma chat_v1_fulfils:
  assumes "\<not> nullish body" "\<not> invalid_messages (field body ''messages'')"
    and "fst (tryProviders_v1 providers (elements (field body ''messages'')) (field body ''model''))
           = Fulfils T content"
  shows "fst (chat_v1 rt providers body) =
           Some (if truthy (field body ''stream'') then
                   stream_reply [(''Content-Type'', ''text/event-stream''), (''Cache-Control'', ''no-cache'')]
                     (fake_stream rt (field body ''model'') (with_role content))
                 else
                   json_reply 200
                     (completion rt (field body ''model'') content
                        (usage_estimate rt ceil (elements (field body ''messages'')) content)))"
  using assms unfolding chat_v1_def Let_def
  by (auto simp: truthy_stream_default split: prod.splits promise.splits)

lemma chat_v3_fulfils:
  assumes "\<not> nullish body" "\<not> invalid_messages (field body ''messages'')"
    and "message_format (elements (field body ''messages'')) = WellFormed"
    and "fst (tryProviders_v3 rt providers (elements (field body ''messages'')) (field body ''model''))
           = Fulfils T content"
  shows "fst (chat_v3 rt providers body) =
           Some (if truthy (field body ''stream'') then
                   stream_reply [(''Content-Type'', ''text/event-stream''), (''Cache-Control'', ''no-cache''),
                                 (''Connection'', ''keep-alive'')]
                     (fake_stream rt (field body ''model'') (with_role content))
                 else
                   json_reply 200
                     (completion rt (field body ''model'') content
                        (usage_estimate rt (\<lambda>x. x) (elements (field body ''messages'')) content)))"
  using assms unfolding chat_v3_def Let_def
  by (auto simp: truthy_stream_default split: prod.splits promise.splits)


lemma choices_of_chunk:
  "field (chunk rt k model delta finish_reason) ''choices'' =
     JArr [JObj [(''index'', JNum 0), (''delta'', delta), (''finish_reason'', finish_reason)]]"
  by (simp add: chunk_def)

text \<open>
  Claim C6. When a chat-completions request sets \<open>stream\<close> to true (any truthy
  value) and some provider succeeds, the response body consists of exactly two SSE
  \<open>data:\<close> chunks, the first carrying the whole winning text with \<open>finish_reason\<close>
  null, the second an empty delta with \<open>finish_reason\<close> \<open>stop\<close>, followed by the line
  \<open>data: [DONE]\<close>. All three are written after \<open>tryProviders\<close> has returned: nothing
  of a provider's answer is forwarded before. This is the first variant of index.js
  and the first program of part\_000 (where each message also has a role and content).
\<close>

theorem stream_is_two_chunks_and_done:
  "(\<not> nullish body \<and> \<not> invalid_messages (field body ''messages'')
      \<and> truthy (field body ''stream'')
      \<and> fst (tryProviders_v1 providers (elements (field body ''messages'')) (field body ''model''))
           = Fulfils T content
     \<longrightarrow> fst (chat_v1 rt providers body) =
           Some \<lparr>status_code = 200,
                 headers = [(''Content-Type'', ''text/event-stream''), (''Cache-Control'', ''no-cache'')],
                 sent = Written
                   [sse rt (chunk rt 0 (field body ''model'')
                              (JObj [(''role'', JStr ''assistant''), (''content'', content)]) JNull),
                    sse rt (chunk rt 2 (field body ''model'') (JObj []) (JStr ''stop'')),
                    ''data: [DONE]'' @ newline @ newline]\<rparr>)
   \<and> (\<not> nullish body \<and> \<not> invalid_messages (field body ''messages'')
      \<and> message_format (elements (field body ''messages'')) = WellFormed
      \<and> truthy (field body ''stream'')
      \<and> fst (tryProviders_v3 rt providers (elements (field body ''messages'')) (field body ''model''))
           = Fulfils T content
     \<longrightarrow> fst (chat_v3 rt providers body) =
           Some \<lparr>status_code = 200,
                 headers = [(''Content-Type'', ''text/event-stream''), (''Cache-Control'', ''no-cache''),
                            (''Connection'', ''keep-alive'')],
                 sent = Written
                   [sse rt (chunk rt 0 (field body ''model'')
                              (JObj [(''role'', JStr ''assistant''), (''content'', content)]) JNull),
                    sse rt (chunk rt 2 (field body ''model'') (JObj []) (JStr ''stop'')),
                    ''data: [DONE]'' @ newline @ newline]\<rparr>)
   \<and> (\<forall>k model delta finish_reason.
         field (chunk rt k model delta finish_reason) ''choices'' =
           JArr [JObj [(''index'', JNum 0), (''delta'', delta), (''finish_reason'', finish_reason)]])
   \<and> (\<forall>obj. sse rt obj = ''data: '' @ stringify rt obj @ newline @ newline)"
proof -
  have a: "fst (chat_v1 rt providers body) =
           Some \<lparr>status_code = 200,
                 headers = [(''Content-Type'', ''text/event-stream''), (''Cache-Control'', ''no-cache'')],
                 sent = Written
                   [sse rt (chunk rt 0 (field body ''model'')
                              (JObj [(''role'', JStr ''assistant''), (''content'', content)]) JNull),
                    sse rt (chunk rt 2 (field body ''model'') (JObj []) (JStr ''stop'')),
                    ''data: [DONE]'' @ newline @ newline]\<rparr>"
    if "\<not> nullish body \<and> \<not> invalid_messages (field body ''messages'')
      \<and> truthy (field body ''stream'')
      \<and> fst (tryProviders_v1 providers (elements (field body ''messages'')) (field body ''model''))
           = Fulfils T content"
    using that chat_v1_fulfils [of body providers T content rt]
    by (simp add: stream_reply_def fake_stream_def with_role_def done_line_def)
  have b: "fst (chat_v3 rt providers body) =
           Some \<lparr>status_code = 200,
                 headers = [(''Content-Type'', ''text/event-stream''), (''Cache-Control'', ''no-cache''),
                            (''Connection'', ''keep-alive'')],
                 sent = Written
                   [sse rt (chunk rt 0 (field body ''model'')
                              (JObj [(''role'', JStr ''assistant''), (''content'', content)]) JNull),
                    sse rt (chunk rt 2 (field body ''model'') (JObj []) (JStr ''stop'')),
                    ''data: [DONE]'' @ newline @ newline]\<rparr>"
    if "\<not> nullish body \<and> \<not> invalid_messages (field body ''messages'')
      \<and> message_format (elements (field body ''messages'')) = WellFormed
      \<and> truthy (field body ''stream'')
      \<and> fst (tryProviders_v3 rt providers (elements (field body ''messages'')) (field body ''model''))
           = Fulfils T content"
    using that chat_v3_fulfils [of body rt providers T content]
    by (simp add: stream_reply_def fake_stream_def with_role_def done_line_def)
  have c: "\<forall>k model delta finish_reason.
         field (chunk rt k model delta finish_reason) ''choices'' =
           JArr [JObj [(''index'', JNum 0), (''delta'', delta), (''finish_reason'', finish_reason)]]"
    by (simp add: choices_of_chunk)
  have d: "\<forall>obj. sse rt obj = ''data: '' @ stringify rt obj @ newline @ newline"
    by (simp add: sse_def)
  from a b c d show ?thesis by (intro conjI impI) assumption+
qed


lemma hello_stream_fields:
  "\<not> nullish hello_stream" "\<not> invalid_messages (field hello_stream ''messages'')"
  "truthy (field hello_stream ''stream'')"
  "elements (field hello_stream ''messages'') = hello" "field hello_stream ''model'' = JUndefined"
  by (simp_all add: hello_stream_def invalid_messages_def hello_def)

text \<open>A streamed request to index.js, answered by Together with \<open>pong\<close>.\<close>

theorem stream_is_two_chunks_and_done_witness:
  "fst (chat_v1 rt0 (providers_v1 net_blank) hello_stream) =
     Some \<lparr>status_code = 200,
           headers = [(''Content-Type'', ''text/event-stream''), (''Cache-Control'', ''no-cache'')],
           sent = Written
             [sse rt0 (chunk rt0 0 JUndefined
                        (JObj [(''role'', JStr ''assistant''), (''content'', JStr ''pong'')]) JNull),
              sse rt0 (chunk rt0 2 JUndefined (JObj []) (JStr ''stop'')),
              ''data: [DONE]'' @ newline @ newline]\<rparr>"
proof -
  let ?P = "providers_v1 net_blank"
  have run: "fst (tryProviders_v1 ?P (elements (field hello_stream ''messages''))
                    (field hello_stream ''model'')) = Fulfils 52 (JStr ''pong'')"
    by (simp add: hello_stream_fields run_v1_blank)
  note t = stream_is_two_chunks_and_done
    [where providers = ?P and body = hello_stream and rt = rt0 and T = 52
       and content = "JStr ''pong''", THEN conjunct1, rule_format]
  have "fst (chat_v1 rt0 ?P hello_stream) =
     Some \<lparr>status_code = 200,
           headers = [(''Content-Type'', ''text/event-stream''), (''Cache-Control'', ''no-cache'')],
           sent = Written
             [sse rt0 (chunk rt0 0 (field hello_stream ''model'')
                        (JObj [(''role'', JStr ''assistant''), (''content'', JStr ''pong'')]) JNull),
              sse rt0 (chunk rt0 2 (field hello_stream ''model'') (JObj []) (JStr ''stop'')),
              ''data: [DONE]'' @ newline @ newline]\<rparr>"
    by (rule t) (intro conjI hello_stream_fields(1,2,3) run)
  then show ?thesis by (simp only: hello_stream_fields)
qed

subsection \<open>The sentinel of the handlers\<close>













subsection \<open>Request validation\<close>
















subsection \<open>The registries\<close>

text \<open>
  A store grows under every operation the handlers use on arrays of their own:
  \<open>filter\<close> and the spread allocate, a read leaves the store as it is, and \<open>sort\<close>
  writes to the array it is given, which in every handler is one made by the same
  handler.
\<close>

lemma grown_refl: "grown s s"
  by (simp add: grown_def)

lemma grown_trans: "grown s t \<Longrightarrow> grown t u \<Longrightarrow> grown s u"
  by (auto simp add: grown_def)

lemma grown_new_array: "grown s (snd (new_array s rs))"
  by (simp add: grown_def new_array_def)

lemma grown_array_read: "grown s (snd (array_read s a))"
  by (simp add: array_read_def grown_refl)

lemma grown_sort_new:
  assumes "grown s t" and "fresh s \<le> a"
  shows "grown s (snd (array_sort t a f))"
  using assms by (auto simp add: grown_def array_sort_def)

lemma grown_enabled_by_priority: "grown s (snd (enabled_by_priority s providers))"
proof -
  obtain a t where f: "array_filter s providers enabled = (a, t)"
    by (cases "array_filter s providers enabled")
  from f have a: "a = fresh s" by (simp add: array_filter_def new_array_def)
  from f have "t = snd (array_filter s providers enabled)" by simp
  then have t: "grown s t" by (simp add: array_filter_def grown_new_array)
  from a have "fresh s \<le> a" by simp
  from grown_sort_new [OF t this] f show ?thesis by (simp add: enabled_by_priority_def)
qed

lemma grown_tryProviders_v1: "grown s (snd (tryProviders_v1_st s providers messages model))"
  using grown_enabled_by_priority [of s providers]
  by (simp add: tryProviders_v1_st_def array_read_def split_beta)

lemma grown_tryProviders_v2: "grown s (snd (tryProviders_v2_st s providers messages model))"
  using grown_enabled_by_priority [of s providers]
  by (simp add: tryProviders_v2_st_def array_read_def split_beta)

lemma grown_tryProviders_v3: "grown s (snd (tryProviders_v3_st rt s providers messages model))"
  using grown_enabled_by_priority [of s providers]
  by (simp add: tryProviders_v3_st_def array_read_def split_beta)

lemma grown_tryProviders_v4: "grown s (snd (tryProviders_v4_st s providers messages model))"
  using grown_enabled_by_priority [of s providers]
  by (simp add: tryProviders_v4_st_def array_read_def split_beta)

lemma grown_tryProviders_v5:
  "grown s (snd (tryProviders_v5_st shuffle s providers messages model))"
proof -
  obtain a t where f: "array_filter s providers enabled = (a, t)"
    by (cases "array_filter s providers enabled")
  obtain b u where g: "array_spread t a = (b, u)" by (cases "array_spread t a")
  from f have "t = snd (array_filter s providers enabled)" by simp
  then have t: "grown s t" by (simp add: array_filter_def grown_new_array)
  from g have "u = snd (array_spread t a)" by simp
  then have u: "grown t u" by (simp add: array_spread_def grown_new_array)
  from g have b: "b = fresh t" by (simp add: array_spread_def new_array_def)
  from t have "fresh s \<le> fresh t" by (simp add: grown_def)
  with b have le: "fresh s \<le> b" by simp
  from grown_sort_new [OF grown_trans [OF t u] le] f g show ?thesis
    by (simp add: tryProviders_v5_st_def array_read_def split_beta)
qed

lemma grown_chat_st:
  assumes "\<And>t messages model. grown t (snd (tryProviders t providers messages model))"
  shows "grown s (chat_st tryProviders s providers body)"
  using assms by (simp add: chat_st_def Let_def grown_refl)

lemma grown_completions_st:
  assumes "\<And>t messages model. grown t (snd (tryProviders t providers messages model))"
  shows "grown s (completions_st tryProviders s providers body)"
  using assms by (simp add: completions_st_def Let_def grown_refl)

lemma grown_chat_v3_st: "grown s (chat_v3_st rt s providers body)"
  by (simp add: chat_v3_st_def Let_def grown_refl grown_tryProviders_v3 split: format_check.splits)

lemma grown_read_enabled: "grown s (snd (read_enabled s providers))"
  by (simp add: read_enabled_def array_read_def array_filter_def split_beta grown_new_array)

lemma grown_read_enabled_thrice:
  "grown s (snd (read_enabled (snd (read_enabled (snd (read_enabled s providers)) providers)) providers))"
  by (rule grown_trans [OF grown_read_enabled grown_trans [OF grown_read_enabled grown_read_enabled]])

lemma grown_read_then_enabled_twice:
  "grown s (snd (read_enabled (snd (read_enabled (snd (array_read s providers)) providers)) providers))"
  by (rule grown_trans [OF grown_array_read grown_trans [OF grown_read_enabled grown_read_enabled]])

lemma grown_serve_v1: "grown s (serve_v1 s providers request)"
  by (cases request)
     (simp_all add: split_beta grown_refl grown_chat_st grown_completions_st grown_tryProviders_v1
        grown_read_enabled grown_array_read grown_read_enabled_thrice)

lemma grown_serve_v2: "grown s (serve_v2 s providers request)"
  by (cases request)
     (simp_all add: grown_refl grown_chat_st grown_completions_st grown_tryProviders_v2
        grown_read_enabled)

lemma grown_serve_v3: "grown s (serve_v3 rt s providers request)"
  by (cases request)
     (simp_all add: split_beta grown_refl grown_chat_v3_st grown_completions_st
        grown_tryProviders_v3 grown_read_enabled grown_array_read grown_read_then_enabled_twice)

lemma grown_serve_v4: "grown s (serve_v4 s providers request)"
  by (cases request)
     (simp_all add: split_beta grown_refl grown_chat_st grown_completions_st grown_tryProviders_v4
        grown_read_enabled grown_array_read grown_read_enabled_thrice)

lemma grown_serve_v5: "grown s (serve_v5 shuffle s providers request)"
  by (cases request)
     (simp_all add: grown_refl grown_chat_st grown_tryProviders_v5 grown_read_enabled
        grown_array_read)

lemma grown_registry:
  assumes "grown s s'" and "allocated s providers"
  shows "registry s' providers = registry s providers \<and> allocated s' providers"
  using assms by (simp add: grown_def registry_def allocated_def)

text \<open>
  The store agrees with the lists of the router: when every reference of the registry
  is that of an object, the array \<open>tryProviders\<close> goes over holds the enabled entries
  by ascending priority, and the result is the one computed from the list of entries.
\<close>

lemma map_filter_holds:
  "List.map_filter g (filter (\<lambda>r. case g r of Some p \<Rightarrow> f p | None \<Rightarrow> False) rs)
     = filter f (List.map_filter g rs)"
  by (induction rs) (auto split: option.splits)

lemma contents_array_filter:
  "contents (snd (array_filter s a f)) (fst (array_filter s a f)) = filter f (contents s a)"
proof -
  have "(\<lambda>r. case objects s r of Some p \<Rightarrow> f p | None \<Rightarrow> False) = holds s f"
    by (rule ext) (simp add: holds_def)
  with map_filter_holds [of "objects s" f "arrays s a"] show ?thesis
    by (simp add: contents_def array_filter_def new_array_def)
qed

lemma map_filter_insert_ref:
  assumes "objects s x = Some p" and "\<forall>r\<in>set ys. objects s r \<noteq> None"
  shows "List.map_filter (objects s) (insert_ref s x ys)
           = insert_by_priority p (List.map_filter (objects s) ys)"
  using assms
  by (induction ys) (auto simp add: priority_le_at_def split: option.splits)

lemma set_insert_ref: "set (insert_ref s x ys) = insert x (set ys)"
  by (induction ys) auto

lemma set_by_priority: "set (by_priority s rs) = set rs"
  by (induction rs) (simp_all add: by_priority_def set_insert_ref)

lemma map_filter_by_priority:
  assumes "\<forall>r\<in>set rs. objects s r \<noteq> None"
  shows "List.map_filter (objects s) (by_priority s rs)
           = sort_by_priority (List.map_filter (objects s) rs)"
  using assms
proof (induction rs)
  case Nil
  show ?case by (simp add: by_priority_def sort_by_priority_def)
next
  case (Cons x rs)
  then obtain p where p: "objects s x = Some p" by auto
  from Cons.prems have b: "\<forall>r\<in>set rs. objects s r \<noteq> None" by simp
  then have c: "\<forall>r\<in>set (by_priority s rs). objects s r \<noteq> None" by (simp add: set_by_priority)
  have "by_priority s (x # rs) = insert_ref s x (by_priority s rs)" by (simp add: by_priority_def)
  with map_filter_insert_ref [OF p c] Cons.IH [OF b] p show ?case
    by (simp add: sort_by_priority_def)
qed

lemma insert_ref_objects:
  assumes "objects t = objects s"
  shows "insert_ref t x ys = insert_ref s x ys"
  using assms by (induction ys) (simp_all add: priority_le_at_def)

lemma by_priority_objects:
  assumes "objects t = objects s"
  shows "by_priority t rs = by_priority s rs"
  by (induction rs) (simp_all add: by_priority_def insert_ref_objects [OF assms])

lemma contents_enabled_by_priority:
  assumes "\<forall>r\<in>set (arrays s providers). objects s r \<noteq> None"
  shows "contents (snd (enabled_by_priority s providers)) (fst (enabled_by_priority s providers))
           = sort_by_priority (filter enabled (contents s providers))"
proof -
  let ?rs = "filter (holds s enabled) (arrays s providers)"
  let ?t = "snd (array_filter s providers enabled)"
  from assms have b: "\<forall>r\<in>set ?rs. objects s r \<noteq> None" by simp
  have o: "objects ?t = objects s" by (simp add: array_filter_def new_array_def)
  have c: "by_priority ?t ?rs = by_priority s ?rs" by (rule by_priority_objects [OF o])
  have d: "List.map_filter (objects s) ?rs = filter enabled (contents s providers)"
    using contents_array_filter [of s providers enabled]
    by (simp add: contents_def array_filter_def new_array_def)
  have "contents (snd (enabled_by_priority s providers)) (fst (enabled_by_priority s providers))
          = List.map_filter (objects s) (by_priority ?t ?rs)"
    by (simp add: enabled_by_priority_def array_filter_def new_array_def array_sort_def contents_def)
  with c have "contents (snd (enabled_by_priority s providers)) (fst (enabled_by_priority s providers))
          = List.map_filter (objects s) (by_priority s ?rs)" by simp
  with map_filter_by_priority [OF b] d show ?thesis by simp
qed

lemma tryProviders_v1_st_result:
  assumes "\<forall>r\<in>set (arrays s providers). objects s r \<noteq> None"
  shows "fst (tryProviders_v1_st s providers messages model)
           = tryProviders_v1 (contents s providers) messages model"
  using contents_enabled_by_priority [OF assms]
  by (simp add: tryProviders_v1_st_def tryProviders_v1_def array_read_def split_beta)

lemma tryProviders_v2_st_result:
  assumes "\<forall>r\<in>set (arrays s providers). objects s r \<noteq> None"
  shows "fst (tryProviders_v2_st s providers messages model)
           = tryProviders_v2 (contents s providers) messages model"
  using contents_enabled_by_priority [OF assms]
  by (simp add: tryProviders_v2_st_def tryProviders_v2_def array_read_def split_beta)

lemma tryProviders_v3_st_result:
  assumes "\<forall>r\<in>set (arrays s providers). objects s r \<noteq> None"
  shows "fst (tryProviders_v3_st rt s providers messages model)
           = tryProviders_v3 rt (contents s providers) messages model"
  using contents_enabled_by_priority [OF assms]
  by (simp add: tryProviders_v3_st_def tryProviders_v3_def array_read_def split_beta)

lemma tryProviders_v4_st_result:
  assumes "\<forall>r\<in>set (arrays s providers). objects s r \<noteq> None"
  shows "fst (tryProviders_v4_st s providers messages model)
           = tryProviders_v4 (contents s providers) messages model"
  using contents_enabled_by_priority [OF assms]
  by (simp add: tryProviders_v4_st_def tryProviders_v4_def array_read_def split_beta)

lemma tryProviders_v5_st_result:
  assumes "\<forall>rs. List.map_filter (objects s) (shuffle rs) = shuffled (List.map_filter (objects s) rs)"
  shows "fst (tryProviders_v5_st shuffle s providers messages model)
           = tryProviders_v5 shuffled (contents s providers) messages model"
proof -
  have "filter enabled (contents s providers)
          = List.map_filter (objects s) (filter (holds s enabled) (arrays s providers))"
    using contents_array_filter [of s providers enabled]
    by (simp add: contents_def array_filter_def new_array_def)
  with assms show ?thesis
    by (simp add: tryProviders_v5_st_def tryProviders_v5_def array_filter_def array_spread_def
          array_sort_def array_read_def new_array_def contents_def)
qed

text \<open>
  \<open>sort\<close> called on the registry itself would rearrange it: on a registry that lists
  the seven entries of index.js in descending priority, the array at reference 0 is
  turned around.
\<close>

lemma sort_on_the_registry:
  "arrays (boot (rev (providers_v1 net_down))) 0 = [0, 1, 2, 3, 4, 5, 6]
   \<and> arrays (snd (array_sort (boot (rev (providers_v1 net_down))) 0
                 (by_priority (boot (rev (providers_v1 net_down)))))) 0 = [6, 5, 4, 3, 2, 1, 0]"
  by (simp add: array_sort_def boot_def providers_v1_def upt_rec by_priority_def priority_le_at_def
        priority_le_def)

text \<open>
  Claim C7, as amended. Every provider in the registries of the four prioritised
  variants carries a name, a non-empty model list, an enabled flag (set) and a numeric
  priority, 1 to 7 in registry order; the providers of part\_001 carry a name, a
  non-empty model list and an enabled flag, and no priority. The registry is a fixed
  list in all five variants: whatever the store in which the registry is allocated and
  whatever the request, the handler leaves the registry with the same references in the
  same order, each to an object that holds what it held, and the registry stays
  allocated, so that the same is true of the next request.
\<close>

theorem registry_entries_and_fixed_list:
  "(\<forall>p\<in>set (providers_v1 net).
       name p \<noteq> [] \<and> models p \<noteq> [] \<and> enabled p \<and> (\<exists>k. priority p = Some k))
   \<and> (\<forall>p\<in>set (providers_v2 net).
       name p \<noteq> [] \<and> models p \<noteq> [] \<and> enabled p \<and> (\<exists>k. priority p = Some k))
   \<and> (\<forall>p\<in>set (providers_v3 net).
       name p \<noteq> [] \<and> models p \<noteq> [] \<and> enabled p \<and> (\<exists>k. priority p = Some k))
   \<and> (\<forall>p\<in>set (providers_v4 net).
       name p \<noteq> [] \<and> models p \<noteq> [] \<and> enabled p \<and> (\<exists>k. priority p = Some k))
   \<and> (\<forall>p\<in>set (providers_v5 rt net).
       name p \<noteq> [] \<and> models p \<noteq> [] \<and> enabled p \<and> priority p = None)
   \<and> map priority (providers_v1 net) = [Some 1, Some 2, Some 3, Some 4, Some 5, Some 6, Some 7]
   \<and> map priority (providers_v2 net) = [Some 1, Some 2, Some 3, Some 4, Some 5, Some 6, Some 7]
   \<and> map priority (providers_v3 net) = [Some 1, Some 2, Some 3, Some 4, Some 5, Some 6, Some 7]
   \<and> map priority (providers_v4 net) = [Some 1, Some 2, Some 3, Some 4, Some 5, Some 6, Some 7]
   \<and> map name (providers_v1 net) =
        [''DeepInfra'', ''Together'', ''HuggingFace'', ''Groq'', ''Phind'', ''Blackbox'', ''Cohere'']
   \<and> (\<forall>s providers request. allocated s providers \<longrightarrow>
         registry (serve_v1 s providers request) providers = registry s providers
         \<and> allocated (serve_v1 s providers request) providers)
   \<and> (\<forall>s providers request. allocated s providers \<longrightarrow>
         registry (serve_v2 s providers request) providers = registry s providers
         \<and> allocated (serve_v2 s providers request) providers)
   \<and> (\<forall>s providers request. allocated s providers \<longrightarrow>
         registry (serve_v3 rt s providers request) providers = registry s providers
         \<and> allocated (serve_v3 rt s providers request) providers)
   \<and> (\<forall>s providers request. allocated s providers \<longrightarrow>
         registry (serve_v4 s providers request) providers = registry s providers
         \<and> allocated (serve_v4 s providers request) providers)
   \<and> (\<forall>shuffle s providers request. allocated s providers \<longrightarrow>
         registry (serve_v5 shuffle s providers request) providers = registry s providers
         \<and> allocated (serve_v5 shuffle s providers request) providers)"
proof -
  have p1: "\<forall>p\<in>set (providers_v1 net).
       name p \<noteq> [] \<and> models p \<noteq> [] \<and> enabled p \<and> (\<exists>k. priority p = Some k)"
    by (simp add: providers_v1_def)
  have p2: "\<forall>p\<in>set (providers_v2 net).
       name p \<noteq> [] \<and> models p \<noteq> [] \<and> enabled p \<and> (\<exists>k. priority p = Some k)"
    by (simp add: providers_v2_def)
  have p3: "\<forall>p\<in>set (providers_v3 net).
       name p \<noteq> [] \<and> models p \<noteq> [] \<and> enabled p \<and> (\<exists>k. priority p = Some k)"
    by (simp add: providers_v3_def)
  have p4: "\<forall>p\<in>set (providers_v4 net).
       name p \<noteq> [] \<and> models p \<noteq> [] \<and> enabled p \<and> (\<exists>k. priority p = Some k)"
    by (simp add: providers_v4_def)
  have p5: "\<forall>p\<in>set (providers_v5 rt net).
       name p \<noteq> [] \<and> models p \<noteq> [] \<and> enabled p \<and> priority p = None"
    by (simp add: providers_v5_def)
  have q1: "map priority (providers_v1 net) = [Some 1, Some 2, Some 3, Some 4, Some 5, Some 6, Some 7]"
    by (simp add: providers_v1_def)
  have q2: "map priority (providers_v2 net) = [Some 1, Some 2, Some 3, Some 4, Some 5, Some 6, Some 7]"
    by (simp add: providers_v2_def)
  have q3: "map priority (providers_v3 net) = [Some 1, Some 2, Some 3, Some 4, Some 5, Some 6, Some 7]"
    by (simp add: providers_v3_def)
  have q4: "map priority (providers_v4 net) = [Some 1, Some 2, Some 3, Some 4, Some 5, Some 6, Some 7]"
    by (simp add: providers_v4_def)
  have n1: "map name (providers_v1 net) =
        [''DeepInfra'', ''Together'', ''HuggingFace'', ''Groq'', ''Phind'', ''Blackbox'', ''Cohere'']"
    by (simp add: providers_v1_def)
  have s1: "\<forall>s providers request. allocated s providers \<longrightarrow>
         registry (serve_v1 s providers request) providers = registry s providers
         \<and> allocated (serve_v1 s providers request) providers"
    using grown_registry [OF grown_serve_v1] by blast
  have s2: "\<forall>s providers request. allocated s providers \<longrightarrow>
         registry (serve_v2 s providers request) providers = registry s providers
         \<and> allocated (serve_v2 s providers request) providers"
    using grown_registry [OF grown_serve_v2] by blast
  have s3: "\<forall>s providers request. allocated s providers \<longrightarrow>
         registry (serve_v3 rt s providers request) providers = registry s providers
         \<and> allocated (serve_v3 rt s providers request) providers"
    using grown_registry [OF grown_serve_v3] by blast
  have s4: "\<forall>s providers request. allocated s providers \<longrightarrow>
         registry (serve_v4 s providers request) providers = registry s providers
         \<and> allocated (serve_v4 s providers request) providers"
    using grown_registry [OF grown_serve_v4] by blast
  have s5: "\<forall>shuffle s providers request. allocated s providers \<longrightarrow>
         registry (serve_v5 shuffle s providers request) providers = registry s providers
         \<and> allocated (serve_v5 shuffle s providers request) providers"
    using grown_registry [OF grown_serve_v5] by blast
  from p1 p2 p3 p4 p5 q1 q2 q3 q4 n1 s1 s2 s3 s4 s5 show ?thesis by (intro conjI) assumption+
qed

text \<open>
  The first entry of index.js; the registry of index.js, at reference 0 of the store
  in which the module is loaded, after a chat request; the same for a registry that
  lists the seven entries in descending priority, where the array the handler has
  sorted, at reference 1, is turned around and the registry is not; and the registry
  of part\_001 after a chat request whose shuffle turns the array around.
\<close>

theorem registry_entries_and_fixed_list_witness:
  "name (providers_v1 net_down ! 0) = ''DeepInfra''
   \<and> models (providers_v1 net_down ! 0) \<noteq> []
   \<and> enabled (providers_v1 net_down ! 0)
   \<and> (\<exists>k. priority (providers_v1 net_down ! 0) = Some k)
   \<and> allocated (boot (providers_v1 net_down)) 0
   \<and> map fst (registry (boot (providers_v1 net_down)) 0) = [0, 1, 2, 3, 4, 5, 6]
   \<and> registry (serve_v1 (boot (providers_v1 net_down)) 0 (PostChatCompletions hello_body)) 0
        = registry (boot (providers_v1 net_down)) 0
   \<and> allocated (boot (rev (providers_v1 net_down))) 0
   \<and> arrays (serve_v1 (boot (rev (providers_v1 net_down))) 0 (PostChatCompletions hello_body)) 1
        = [6, 5, 4, 3, 2, 1, 0]
   \<and> registry (serve_v1 (boot (rev (providers_v1 net_down))) 0 (PostChatCompletions hello_body)) 0
        = registry (boot (rev (providers_v1 net_down))) 0
   \<and> allocated (boot (providers_v5 rt0 net_down)) 0
   \<and> registry (serve_v5 rev (boot (providers_v5 rt0 net_down)) 0 (PostChatCompletions hello_body)) 0
        = registry (boot (providers_v5 rt0 net_down)) 0"
proof -
  let ?P = "providers_v1 net_down"
  note t = registry_entries_and_fixed_list [where net = net_down and rt = rt0]
  have m: "?P ! 0 \<in> set ?P" by (simp add: providers_v1_def)
  from t [THEN conjunct1, rule_format, OF m]
  have a: "name (?P ! 0) \<noteq> [] \<and> models (?P ! 0) \<noteq> [] \<and> enabled (?P ! 0)
             \<and> (\<exists>k. priority (?P ! 0) = Some k)" .
  have n: "name (?P ! 0) = ''DeepInfra''" by (simp add: providers_v1_def)
  have s1: "\<forall>s providers request. allocated s providers \<longrightarrow>
         registry (serve_v1 s providers request) providers = registry s providers
         \<and> allocated (serve_v1 s providers request) providers"
    using t by (elim conjE)
  have s5: "\<forall>shuffle s providers request. allocated s providers \<longrightarrow>
         registry (serve_v5 shuffle s providers request) providers = registry s providers
         \<and> allocated (serve_v5 shuffle s providers request) providers"
    using t by (elim conjE)
  have b1: "allocated (boot ?P) 0" by (simp add: allocated_def boot_def)
  have b2: "allocated (boot (rev ?P)) 0" by (simp add: allocated_def boot_def)
  have b5: "allocated (boot (providers_v5 rt0 net_down)) 0" by (simp add: allocated_def boot_def)
  have r: "map fst (registry (boot ?P) 0) = [0, 1, 2, 3, 4, 5, 6]"
    by (simp add: registry_def boot_def providers_v1_def upt_rec comp_def)
  have c: "arrays (serve_v1 (boot (rev ?P)) 0 (PostChatCompletions hello_body)) 1
             = [6, 5, 4, 3, 2, 1, 0]"
    by (simp add: chat_st_def hello_body_def hello_def invalid_messages_def tryProviders_v1_st_def
          split_beta enabled_by_priority_def array_filter_def new_array_def array_sort_def
          array_read_def boot_def providers_v1_def upt_rec holds_def by_priority_def
          priority_le_at_def priority_le_def)
  from s1 [rule_format, OF b1, of "PostChatCompletions hello_body"]
  have k1: "registry (serve_v1 (boot ?P) 0 (PostChatCompletions hello_body)) 0 = registry (boot ?P) 0"
    by simp
  from s1 [rule_format, OF b2, of "PostChatCompletions hello_body"]
  have k2: "registry (serve_v1 (boot (rev ?P)) 0 (PostChatCompletions hello_body)) 0
              = registry (boot (rev ?P)) 0"
    by simp
  from s5 [rule_format, OF b5, of rev "PostChatCompletions hello_body"]
  have k5: "registry (serve_v5 rev (boot (providers_v5 rt0 net_down)) 0 (PostChatCompletions hello_body)) 0
              = registry (boot (providers_v5 rt0 net_down)) 0"
    by simp
  from a n b1 r k1 b2 c k2 b5 k5 show ?thesis by simp
qed

text \<open>
  Claim C7 as stated fails for part\_001, whose \<open>Provider\<close> interface (lines 25 to 30,
  which the claim cites) and whose four entries have no priority.
\<close>

theorem shuffled_registry_has_no_priority:
  "map name (providers_v5 rt0 net_down) = [''Phind'', ''DeepInfra'', ''DuckDuckGo'', ''Blackbox'']
   \<and> map priority (providers_v5 rt0 net_down) = [None, None, None, None]"
  by (simp add: providers_v5_def)

end
